theory Spec2Isabelle
  imports Main
begin

section \<open>Declaration contexts and locality of declarations\<close>

text \<open>
  The kinds of declaration context, as enumerated by the switch in
  \<^verbatim>\<open>addOwnerArgument\<close> (GenDecl.cpp).
\<close>

datatype DeclContextKind =
    Module
  | FileUnit
  | AbstractClosureExpr
  | TopLevelCodeDecl
  | AbstractFunctionDecl
  | Initializer
  | ExtensionDecl
  | NominalTypeDecl

text \<open>
  A declaration context is a chain of parent links that ends at the module.  The inner
  contexts carry their kind; \<open>ModuleDC\<close> is the module itself.
\<close>

datatype DeclContext =
    ModuleDC
  | SubDC DeclContextKind DeclContext

fun getContextKind :: "DeclContext \<Rightarrow> DeclContextKind" where
  "getContextKind ModuleDC = Module"
| "getContextKind (SubDC k p) = k"

definition isModuleContext :: "DeclContext \<Rightarrow> bool" where
  "isModuleContext dc = (getContextKind dc = Module)"

text \<open>
  \<^verbatim>\<open>DeclContext::isLocalContext\<close> is declared in a header that is not part of
  GenDecl.cpp; the local kinds are the closure, top-level-code, function and initializer
  contexts.
\<close>

fun isLocalContextKind :: "DeclContextKind \<Rightarrow> bool" where
  "isLocalContextKind AbstractClosureExpr = True"
| "isLocalContextKind TopLevelCodeDecl = True"
| "isLocalContextKind AbstractFunctionDecl = True"
| "isLocalContextKind Initializer = True"
| "isLocalContextKind _ = False"

definition isLocalContext :: "DeclContext \<Rightarrow> bool" where
  "isLocalContext dc = isLocalContextKind (getContextKind dc)"

text \<open>The loop of \<^verbatim>\<open>isLocalLinkageDecl\<close>, started at the context of the declaration.\<close>

fun isLocalLinkageDC :: "DeclContext \<Rightarrow> bool" where
  "isLocalLinkageDC ModuleDC = False"
| "isLocalLinkageDC (SubDC k p) =
     (if k = Module then False
      else if isLocalContextKind k then True
      else isLocalLinkageDC p)"

section \<open>Declarations, types and link entities\<close>

text \<open>The declaration kinds, as enumerated by the switch in \<^verbatim>\<open>emitGlobalDecl\<close>.\<close>

datatype DeclKind =
    Extension
  | Protocol
  | PatternBinding
  | Subscript
  | EnumCase
  | EnumElement
  | Constructor
  | Destructor
  | TypeAlias
  | GenericTypeParam
  | AssociatedType
  | Enum
  | Struct
  | Class
  | Import
  | Var
  | Func
  | TopLevelCode
  | InfixOperator
  | PrefixOperator
  | PostfixOperator

text \<open>
  What this file reads of a declaration.  \<open>inClangModuleUnit\<close> is the value of
  \<^verbatim>\<open>isa<ClangModuleUnit>(D->getDeclContext()->getModuleScopeContext())\<close>;
  \<open>hasKnownSwiftMetadata\<close> and \<open>isObjC\<close> are the results of the queries of the same
  name, which are implemented outside GenDecl.cpp.
\<close>

record Decl =
  declId :: nat
  declKind :: DeclKind
  getDeclContext :: DeclContext
  inClangModuleUnit :: bool
  isComputed :: bool
  isObjC :: bool
  hasClangNode :: bool
  hasKnownSwiftMetadata :: bool

definition isLocalLinkageDecl :: "Decl \<Rightarrow> bool" where
  "isLocalLinkageDecl D = isLocalLinkageDC (getDeclContext D)"

text \<open>
  Canonical types.  A reference to a nominal declaration (\<^verbatim>\<open>getAnyNominal\<close> is
  non-null) is a plain nominal type (enum, struct, class or protocol type, by the kind of
  its declaration), a bound generic type or an unbound generic type; it carries its
  declaration and its structural children (parent type, generic arguments).  A polymorphic
  function type carries its generic parameters, each with the protocols and the optional
  superclass that constrain it.  Canonicalisation is the identity on these types.
\<close>

datatype Type =
    NominalType Decl "Type list"
  | BoundGenericType Decl "Type list"
  | UnboundGenericType Decl "Type list"
  | PolymorphicFunctionType "(Decl list \<times> Type option) list" Type Type
  | FunctionType Type Type
  | TupleType "Type list"
  | LValueType Type
  | MetaTypeType Type
  | BuiltinType string

type_synonym GenericParam = "Decl list \<times> Type option"

definition getProtocols_param :: "GenericParam \<Rightarrow> Decl list" where
  "getProtocols_param p = fst p"

definition getSuperclass_param :: "GenericParam \<Rightarrow> Type option" where
  "getSuperclass_param p = snd p"

text \<open>The declared type of a protocol is the nominal reference to it.\<close>

definition getDeclaredType :: "Decl \<Rightarrow> Type" where
  "getDeclaredType proto = NominalType proto []"

text \<open>
  \<^verbatim>\<open>isLocalLinkageType\<close> applies its predicate through \<^verbatim>\<open>Type::findIf\<close>, which
  tests a node and then its children.  The predicate answers for a nominal reference by its
  declaration, for a polymorphic function type by its generic clause (a protocol bound by
  the declaration of the protocol, a superclass bound by the same test on the superclass),
  and is false on every other node.
\<close>

fun isLocalLinkageType :: "Type \<Rightarrow> bool" where
  "isLocalLinkageType (NominalType D ts) =
     (isLocalLinkageDecl D \<or> (\<exists>t \<in> set ts. isLocalLinkageType t))"
| "isLocalLinkageType (BoundGenericType D ts) =
     (isLocalLinkageDecl D \<or> (\<exists>t \<in> set ts. isLocalLinkageType t))"
| "isLocalLinkageType (UnboundGenericType D ts) =
     (isLocalLinkageDecl D \<or> (\<exists>t \<in> set ts. isLocalLinkageType t))"
| "isLocalLinkageType (PolymorphicFunctionType params i r) =
     ((\<exists>param \<in> set params.
         (\<exists>proto \<in> set (fst param). isLocalLinkageDecl proto) \<or>
         (case snd param of None \<Rightarrow> False | Some superclass \<Rightarrow> isLocalLinkageType superclass))
      \<or> isLocalLinkageType i \<or> isLocalLinkageType r)"
| "isLocalLinkageType (FunctionType i r) = (isLocalLinkageType i \<or> isLocalLinkageType r)"
| "isLocalLinkageType (TupleType ts) = (\<exists>t \<in> set ts. isLocalLinkageType t)"
| "isLocalLinkageType (LValueType t) = isLocalLinkageType t"
| "isLocalLinkageType (MetaTypeType t) = isLocalLinkageType t"
| "isLocalLinkageType (BuiltinType n) = False"

text \<open>
  The same test written as the source has it: \<^verbatim>\<open>findIf\<close> over the nodes of the type
  (\<open>subtypes\<close> lists a node and, recursively, its children), with the predicate of
  \<^verbatim>\<open>isLocalLinkageType\<close> and the generic-clause test it calls.
\<close>

fun subtypes :: "Type \<Rightarrow> Type list" where
  "subtypes (NominalType D ts) = NominalType D ts # concat (map subtypes ts)"
| "subtypes (BoundGenericType D ts) = BoundGenericType D ts # concat (map subtypes ts)"
| "subtypes (UnboundGenericType D ts) = UnboundGenericType D ts # concat (map subtypes ts)"
| "subtypes (PolymorphicFunctionType params i r) =
     PolymorphicFunctionType params i r # subtypes i @ subtypes r"
| "subtypes (FunctionType i r) = FunctionType i r # subtypes i @ subtypes r"
| "subtypes (TupleType ts) = TupleType ts # concat (map subtypes ts)"
| "subtypes (LValueType t) = LValueType t # subtypes t"
| "subtypes (MetaTypeType t) = MetaTypeType t # subtypes t"
| "subtypes (BuiltinType n) = [BuiltinType n]"

definition findIf :: "(Type \<Rightarrow> bool) \<Rightarrow> Type \<Rightarrow> bool" where
  "findIf pred t = (\<exists>u \<in> set (subtypes t). pred u)"

definition isLocalLinkageGenericClause :: "GenericParam list \<Rightarrow> bool" where
  "isLocalLinkageGenericClause params =
     (\<exists>param \<in> set params.
        (\<exists>proto \<in> set (getProtocols_param param). isLocalLinkageType (getDeclaredType proto)) \<or>
        (case getSuperclass_param param of
           None \<Rightarrow> False
         | Some superclass \<Rightarrow> isLocalLinkageType superclass))"

fun isLocalLinkageNode :: "Type \<Rightarrow> bool" where
  "isLocalLinkageNode (NominalType D ts) = isLocalLinkageDecl D"
| "isLocalLinkageNode (BoundGenericType D ts) = isLocalLinkageDecl D"
| "isLocalLinkageNode (UnboundGenericType D ts) = isLocalLinkageDecl D"
| "isLocalLinkageNode (PolymorphicFunctionType params i r) = isLocalLinkageGenericClause params"
| "isLocalLinkageNode _ = False"

text \<open>The contexts that the loop of \<^verbatim>\<open>isLocalLinkageDecl\<close> visits before the module.\<close>

fun contextsBeforeModule :: "DeclContext \<Rightarrow> DeclContextKind list" where
  "contextsBeforeModule ModuleDC = []"
| "contextsBeforeModule (SubDC k p) = (if k = Module then [] else k # contextsBeforeModule p)"

subsection \<open>Link entities\<close>

datatype SILLinkage = External | Thunk | Internal | Deserialized

text \<open>
  A link entity is a kind together with the pointer the kind determines: a canonical type,
  a declaration, a protocol conformance, a closure expression, a SIL function or a SIL
  global.  The kinds are those of the switch in \<^verbatim>\<open>LinkEntity::isLocalLinkage\<close>, grouped
  by the accessor the switch uses (\<^verbatim>\<open>getType\<close>, \<^verbatim>\<open>getDecl\<close>); the bridge-to-block
  converter is keyed by the function type it converts.  The trailing number stands for
  the remaining discriminators of the key (witness index, explosion and uncurry level,
  indirect and pattern flags).
\<close>

datatype TypeKind =
    ValueWitness
  | ValueWitnessTable
  | TypeMetadata
  | TypeMangling
  | DebuggerTypeMangling
  | BridgeToBlockConverter

datatype DeclEntityKind =
    WitnessTableOffset
  | Constructor
  | Destructor
  | Function
  | Getter
  | Setter
  | Other
  | ObjCClass
  | ObjCMetaclass
  | SwiftMetaclassStub
  | FieldOffset
  | NominalTypeDescriptor
  | ProtocolDescriptor
  | DebuggerDeclTypeMangling

datatype ProtocolConformanceKind =
    DirectProtocolWitnessTable
  | LazyProtocolWitnessTableAccessor
  | DependentProtocolWitnessTableGenerator
  | LazyProtocolWitnessTableTemplate
  | DependentProtocolWitnessTableTemplate

datatype LinkEntity =
    ForType TypeKind Type nat
  | ForDecl DeclEntityKind Decl nat
  | ForProtocolConformance ProtocolConformanceKind nat
  | AnonymousFunction nat
  | SILFunction SILLinkage string
  | SILGlobalVariable SILLinkage string

fun isLocalLinkage :: "LinkEntity \<Rightarrow> bool" where
  "isLocalLinkage (ForType BridgeToBlockConverter t n) = False"
| "isLocalLinkage (ForType k t n) = isLocalLinkageType t"
| "isLocalLinkage (ForDecl k D n) = isLocalLinkageDecl D"
| "isLocalLinkage (ForProtocolConformance DirectProtocolWitnessTable c) = False"
| "isLocalLinkage (ForProtocolConformance LazyProtocolWitnessTableAccessor c) = False"
| "isLocalLinkage (ForProtocolConformance DependentProtocolWitnessTableGenerator c) = False"
| "isLocalLinkage (ForProtocolConformance LazyProtocolWitnessTableTemplate c) = True"
| "isLocalLinkage (ForProtocolConformance DependentProtocolWitnessTableTemplate c) = True"
| "isLocalLinkage (AnonymousFunction n) = True"
| "isLocalLinkage (SILFunction l n) = (l = Internal)"
| "isLocalLinkage (SILGlobalVariable l n) = (l = Internal)"

text \<open>
  \<^verbatim>\<open>ty->getNominalOrBoundGenericNominal()\<close>: the declaration of a nominal or bound
  generic type, null for every other type.
\<close>

fun getNominalOrBoundGenericNominal :: "Type \<Rightarrow> Decl option" where
  "getNominalOrBoundGenericNominal (NominalType D ts) = Some D"
| "getNominalOrBoundGenericNominal (BoundGenericType D ts) = Some D"
| "getNominalOrBoundGenericNominal _ = None"

text \<open>
  \<^verbatim>\<open>LinkEntity::isThunk\<close>.  The result \<open>None\<close> is the \<^verbatim>\<open>llvm_unreachable\<close> of the
  last branch, reached by an entity that is neither a SIL entity nor of a declaration,
  conformance or type kind.
\<close>

fun isThunk :: "LinkEntity \<Rightarrow> bool option" where
  "isThunk (SILFunction l n) = Some (l = Thunk)"
| "isThunk (SILGlobalVariable l n) = Some (l = Thunk)"
| "isThunk (ForDecl k D n) =
     Some (if \<not> inClangModuleUnit D then False
           else if k = NominalTypeDescriptor \<or> k = ProtocolDescriptor then True
           else (declKind D = DeclKind.Constructor \<or> declKind D = Subscript \<or>
                 (declKind D = Var \<and> isComputed D)))"
| "isThunk (ForProtocolConformance k c) = Some False"
| "isThunk (ForType k ty n) =
     Some (case getNominalOrBoundGenericNominal ty of
             None \<Rightarrow> False
           | Some decl \<Rightarrow> inClangModuleUnit decl)"
| "isThunk (AnonymousFunction n) = None"

fun isDeserialized :: "LinkEntity \<Rightarrow> bool" where
  "isDeserialized (SILFunction l n) = (l = Deserialized)"
| "isDeserialized (SILGlobalVariable l n) = (l = Deserialized)"
| "isDeserialized _ = False"

subsection \<open>Linkage records\<close>

datatype LinkageTypes =
    ExternalLinkage
  | LinkOnceODRLinkage
  | InternalLinkage
  | PrivateLinkage
  | AppendingLinkage

datatype VisibilityTypes = DefaultVisibility | HiddenVisibility

record LinkInfo =
  Name :: string
  Linkage :: LinkageTypes
  Visibility :: VisibilityTypes

text \<open>
  The members of \<^verbatim>\<open>LinkEntity\<close> that GenDecl.cpp calls and that are implemented
  elsewhere (Linking.h and the mangler): they are parameters of the development.
\<close>

record Linking =
  mangle :: "LinkEntity \<Rightarrow> string"
  isValueWitness :: "LinkEntity \<Rightarrow> bool"

text \<open>\<^verbatim>\<open>LinkInfo::get\<close>; \<open>None\<close> only if \<^verbatim>\<open>isThunk\<close> reaches its unreachable branch.\<close>

definition LinkInfo_get :: "Linking \<Rightarrow> LinkEntity \<Rightarrow> LinkInfo option" where
  "LinkInfo_get L entity =
     (if isLocalLinkage entity then
        Some \<lparr>Name = mangle L entity, Linkage = InternalLinkage, Visibility = DefaultVisibility\<rparr>
      else if isValueWitness L entity then
        Some \<lparr>Name = mangle L entity, Linkage = LinkOnceODRLinkage, Visibility = HiddenVisibility\<rparr>
      else
        (case isThunk entity of
           None \<Rightarrow> None
         | Some True \<Rightarrow>
             Some \<lparr>Name = mangle L entity, Linkage = LinkOnceODRLinkage,
                   Visibility = HiddenVisibility\<rparr>
         | Some False \<Rightarrow>
             if isDeserialized entity then
               Some \<lparr>Name = mangle L entity, Linkage = LinkOnceODRLinkage,
                     Visibility = HiddenVisibility\<rparr>
             else
               Some \<lparr>Name = mangle L entity, Linkage = ExternalLinkage,
                     Visibility = DefaultVisibility\<rparr>))"

text \<open>
  The decision table as the design document words it, for comparison with
  \<open>LinkInfo_get\<close>: there an entity is local when an ancestor context of its declaration
  is local or, for a type entity, when its type contains a local reference; value
  witnesses, thunks and deserialized entities are link-once; the rest is external.
\<close>

fun documented_isLocal :: "LinkEntity \<Rightarrow> bool" where
  "documented_isLocal (ForDecl k D n) =
     (\<exists>c \<in> set (contextsBeforeModule (getDeclContext D)). isLocalContextKind c)"
| "documented_isLocal (ForType k t n) = findIf isLocalLinkageNode t"
| "documented_isLocal _ = False"

definition documented_LinkInfo :: "Linking \<Rightarrow> LinkEntity \<Rightarrow> LinkInfo" where
  "documented_LinkInfo L entity =
     (if documented_isLocal entity then
        \<lparr>Name = mangle L entity, Linkage = InternalLinkage, Visibility = DefaultVisibility\<rparr>
      else if isValueWitness L entity \<or> isThunk entity = Some True \<or> isDeserialized entity then
        \<lparr>Name = mangle L entity, Linkage = LinkOnceODRLinkage, Visibility = HiddenVisibility\<rparr>
      else
        \<lparr>Name = mangle L entity, Linkage = ExternalLinkage, Visibility = DefaultVisibility\<rparr>)"

section \<open>Formal types of getters and setters\<close>

datatype AbstractCC = Freestanding | Method

text \<open>
  A value declaration: a declaration with its type and, read through its declaration
  context, the declared type and the generic parameters of that context.  For a subscript
  (\<open>declKind\<close> is \<open>Subscript\<close>) the index type and the element type are meaningful.
\<close>

record ValueDecl = Decl +
  getType :: Type
  getIndicesType :: Type
  getElementType :: Type
  getDeclaredTypeInContext :: Type
  getGenericParamsOfContext :: "GenericParam list option"

datatype FormalType = FormalType Type AbstractCC nat

text \<open>
  \<^verbatim>\<open>addOwnerArgument(DeclContext *DC, CanType resultType)\<close>.  Whether a type has
  reference semantics is decided outside this file: \<open>hasReferenceSemantics\<close> is a
  parameter.
\<close>

definition addOwnerArgument_DC ::
  "(Type \<Rightarrow> bool) \<Rightarrow> 'a ValueDecl_scheme \<Rightarrow> Type \<Rightarrow> Type" where
  "addOwnerArgument_DC hasReferenceSemantics value resultType =
     (let argType0 = getDeclaredTypeInContext value;
          argType = (if \<not> hasReferenceSemantics argType0 then LValueType argType0
                     else argType0)
      in case getGenericParamsOfContext value of
           Some params \<Rightarrow> PolymorphicFunctionType params argType resultType
         | None \<Rightarrow> FunctionType argType resultType)"

text \<open>
  \<^verbatim>\<open>addOwnerArgument(ValueDecl *value, CanType &resultType, unsigned &uncurryLevel)\<close>:
  the two reference parameters are returned with the calling convention.
\<close>

definition addOwnerArgument ::
  "(Type \<Rightarrow> bool) \<Rightarrow> 'a ValueDecl_scheme \<Rightarrow> Type \<Rightarrow> nat \<Rightarrow> AbstractCC \<times> Type \<times> nat" where
  "addOwnerArgument hasReferenceSemantics value resultType uncurryLevel =
     (case getContextKind (getDeclContext value) of
        Module \<Rightarrow> (Freestanding, resultType, uncurryLevel)
      | FileUnit \<Rightarrow> (Freestanding, resultType, uncurryLevel)
      | AbstractClosureExpr \<Rightarrow> (Freestanding, resultType, uncurryLevel)
      | TopLevelCodeDecl \<Rightarrow> (Freestanding, resultType, uncurryLevel)
      | AbstractFunctionDecl \<Rightarrow> (Freestanding, resultType, uncurryLevel)
      | Initializer \<Rightarrow> (Freestanding, resultType, uncurryLevel)
      | ExtensionDecl \<Rightarrow>
          (Method, addOwnerArgument_DC hasReferenceSemantics value resultType,
           uncurryLevel + 1)
      | NominalTypeDecl \<Rightarrow>
          (Method, addOwnerArgument_DC hasReferenceSemantics value resultType,
           uncurryLevel + 1))"

definition addIndexArgument :: "'a ValueDecl_scheme \<Rightarrow> Type \<Rightarrow> nat \<Rightarrow> Type \<times> nat" where
  "addIndexArgument value formalType uncurryLevel =
     (if declKind value = Subscript
      then (FunctionType (getIndicesType value) formalType, uncurryLevel + 1)
      else (formalType, uncurryLevel))"

definition getObjectType :: "'a ValueDecl_scheme \<Rightarrow> Type" where
  "getObjectType decl =
     (if declKind decl = Subscript then getElementType decl else getType decl)"

definition getTypeOfGetter :: "(Type \<Rightarrow> bool) \<Rightarrow> 'a ValueDecl_scheme \<Rightarrow> FormalType" where
  "getTypeOfGetter hasReferenceSemantics value =
     (let uncurryLevel0 = 0;
          formalType0 = FunctionType (TupleType []) (getObjectType value);
          (formalType1, uncurryLevel1) = addIndexArgument value formalType0 uncurryLevel0;
          (cc, formalType2, uncurryLevel2) =
             addOwnerArgument hasReferenceSemantics value formalType1 uncurryLevel1
      in FormalType formalType2 cc uncurryLevel2)"

definition getTypeOfSetter :: "(Type \<Rightarrow> bool) \<Rightarrow> 'a ValueDecl_scheme \<Rightarrow> FormalType" where
  "getTypeOfSetter hasReferenceSemantics value =
     (let uncurryLevel0 = 0;
          argType = getObjectType value;
          formalType0 = FunctionType argType (TupleType []);
          (formalType1, uncurryLevel1) = addIndexArgument value formalType0 uncurryLevel0;
          (cc, formalType2, uncurryLevel2) =
             addOwnerArgument hasReferenceSemantics value formalType1 uncurryLevel1
      in FormalType formalType2 cc uncurryLevel2)"

section \<open>The IR module\<close>

subsection \<open>Types, constants and instructions\<close>

datatype LType =
    VoidTy
  | IntegerTy nat
  | PointerTy LType
  | FunctionTy LType "LType list" bool
  | StructTy string
  | LiteralStructTy "LType list"
  | ArrayTy LType nat

text \<open>
  Constants.  \<open>GlobalRef i\<close> is the address of the global value created as number \<open>i\<close>
  (the \<^verbatim>\<open>llvm::GlobalVariable*\<close> or \<^verbatim>\<open>llvm::Function*\<close> itself); \<open>Opaque\<close> stands
  for a constant produced by a routine that is not part of GenDecl.cpp.  The cast
  expression is kept as a node also where LLVM would fold it.
\<close>

datatype Constant =
    GlobalRef nat
  | BitCast Constant LType
  | InBoundsGEP Constant "Constant list"
  | ConstantInt LType nat
  | ConstantDataArray string
  | ConstantStruct "Constant list"
  | ConstantArray LType "Constant list"
  | Opaque string nat

definition getBitCast :: "Constant \<Rightarrow> LType \<Rightarrow> Constant" where
  "getBitCast c ty = BitCast c ty"

definition getInBoundsGetElementPtr :: "Constant \<Rightarrow> Constant list \<Rightarrow> Constant" where
  "getInBoundsGetElementPtr c indices = InBoundsGEP c indices"

text \<open>\<^verbatim>\<open>ConstantDataArray::getString\<close> adds the trailing null.\<close>

definition ConstantDataArray_getString :: "string \<Rightarrow> Constant" where
  "ConstantDataArray_getString data = ConstantDataArray (data @ [CHR 0x00])"

definition typeOfString :: "string \<Rightarrow> LType" where
  "typeOfString data = ArrayTy (IntegerTy 8) (length data + 1)"


text \<open>The globals a constant refers to, and the replacement of one of them.\<close>

fun globalsOf :: "Constant \<Rightarrow> nat list" where
  "globalsOf (GlobalRef i) = [i]"
| "globalsOf (BitCast c ty) = globalsOf c"
| "globalsOf (InBoundsGEP c indices) = globalsOf c @ concat (map globalsOf indices)"
| "globalsOf (ConstantInt ty n) = []"
| "globalsOf (ConstantDataArray bytes) = []"
| "globalsOf (ConstantStruct cs) = concat (map globalsOf cs)"
| "globalsOf (ConstantArray ty cs) = concat (map globalsOf cs)"
| "globalsOf (Opaque name n) = []"

fun replaceInConstant :: "nat \<Rightarrow> Constant \<Rightarrow> Constant \<Rightarrow> Constant" where
  "replaceInConstant old new (GlobalRef i) = (if i = old then new else GlobalRef i)"
| "replaceInConstant old new (BitCast c ty) = BitCast (replaceInConstant old new c) ty"
| "replaceInConstant old new (InBoundsGEP c indices) =
     InBoundsGEP (replaceInConstant old new c) (map (replaceInConstant old new) indices)"
| "replaceInConstant old new (ConstantInt ty n) = ConstantInt ty n"
| "replaceInConstant old new (ConstantDataArray bytes) = ConstantDataArray bytes"
| "replaceInConstant old new (ConstantStruct cs) =
     ConstantStruct (map (replaceInConstant old new) cs)"
| "replaceInConstant old new (ConstantArray ty cs) =
     ConstantArray ty (map (replaceInConstant old new) cs)"
| "replaceInConstant old new (Opaque name n) = Opaque name n"

text \<open>
  Instructions of a function body.  An operand is a constant, a parameter of the function
  or the result of the instruction at a position of the block being built.
\<close>

datatype Value = ConstantV Constant | ArgumentV nat | InstructionV nat

datatype Instruction =
    Call Value "Value list"
  | BitCastInst Value LType
  | Store Value Value
  | Ret "Value option"
  | ObjCSelectorRefLoad string
  | OtherInstruction string "Value list"

type_synonym BasicBlock = "Instruction list"

fun globalsOfValue :: "Value \<Rightarrow> nat list" where
  "globalsOfValue (ConstantV c) = globalsOf c"
| "globalsOfValue _ = []"

fun replaceInValue :: "nat \<Rightarrow> Constant \<Rightarrow> Value \<Rightarrow> Value" where
  "replaceInValue old new (ConstantV c) = ConstantV (replaceInConstant old new c)"
| "replaceInValue old new v = v"

fun globalsOfInstruction :: "Instruction \<Rightarrow> nat list" where
  "globalsOfInstruction (Call f args) = globalsOfValue f @ concat (map globalsOfValue args)"
| "globalsOfInstruction (BitCastInst v ty) = globalsOfValue v"
| "globalsOfInstruction (Store v p) = globalsOfValue v @ globalsOfValue p"
| "globalsOfInstruction (Ret None) = []"
| "globalsOfInstruction (Ret (Some v)) = globalsOfValue v"
| "globalsOfInstruction (ObjCSelectorRefLoad sel) = []"
| "globalsOfInstruction (OtherInstruction opcode args) = concat (map globalsOfValue args)"

fun replaceInInstruction :: "nat \<Rightarrow> Constant \<Rightarrow> Instruction \<Rightarrow> Instruction" where
  "replaceInInstruction old new (Call f args) =
     Call (replaceInValue old new f) (map (replaceInValue old new) args)"
| "replaceInInstruction old new (BitCastInst v ty) = BitCastInst (replaceInValue old new v) ty"
| "replaceInInstruction old new (Store v p) =
     Store (replaceInValue old new v) (replaceInValue old new p)"
| "replaceInInstruction old new (Ret None) = Ret None"
| "replaceInInstruction old new (Ret (Some v)) = Ret (Some (replaceInValue old new v))"
| "replaceInInstruction old new (ObjCSelectorRefLoad sel) = ObjCSelectorRefLoad sel"
| "replaceInInstruction old new (OtherInstruction opcode args) =
     OtherInstruction opcode (map (replaceInValue old new) args)"

subsection \<open>Global values\<close>

datatype GlobalKind = FunctionGV | GlobalVariableGV

text \<open>
  A global value of the module: a function or a global variable.  \<open>valueId\<close> is its
  identity (the pointer in the source); \<open>getValueType\<close> is the function type or the
  storage type, so the type of the value itself is the pointer to it.  An empty name is no
  name.  Attribute sets and calling conventions are opaque; the empty attribute set is
  \<open>[]\<close> and the default calling convention is \<open>0\<close>.
\<close>

record GlobalValue =
  valueId :: nat
  getName :: string
  globalKind :: GlobalKind
  getValueType :: LType
  getLinkage :: LinkageTypes
  getVisibility :: VisibilityTypes
  getCallingConv :: nat
  getAttributes :: "nat list"
  isConstant :: bool
  getInitializer :: "Constant option"
  hasUnnamedAddr :: bool
  getAlignment :: nat
  blocks :: "BasicBlock list"

definition getPointerType :: "GlobalValue \<Rightarrow> LType" where
  "getPointerType g = PointerTy (getValueType g)"

text \<open>
  \<^verbatim>\<open>isPointerTo\<close>: the \<^verbatim>\<open>cast<llvm::PointerType>\<close> fails on a type that is no
  pointer (\<open>None\<close>).
\<close>

fun isPointerTo :: "LType \<Rightarrow> LType \<Rightarrow> bool option" where
  "isPointerTo (PointerTy elementType) objTy = Some (elementType = objTy)"
| "isPointerTo _ objTy = None"

definition globalsOfGlobalValue :: "GlobalValue \<Rightarrow> nat list" where
  "globalsOfGlobalValue g =
     (case getInitializer g of None \<Rightarrow> [] | Some c \<Rightarrow> globalsOf c) @
     concat (map (\<lambda>b. concat (map globalsOfInstruction b)) (blocks g))"

definition replaceInGlobalValue :: "nat \<Rightarrow> Constant \<Rightarrow> GlobalValue \<Rightarrow> GlobalValue" where
  "replaceInGlobalValue old new g =
     g\<lparr>getInitializer := map_option (replaceInConstant old new) (getInitializer g),
       blocks := map (map (replaceInInstruction old new)) (blocks g)\<rparr>"

subsection \<open>Extensions and their members\<close>

text \<open>
  A protocol conformance with the conformances it inherits, each paired with the
  protocol it is a conformance to.
\<close>

datatype ProtocolConformance = ProtocolConformance "(Decl \<times> ProtocolConformance) list"

fun getInheritedConformances :: "ProtocolConformance \<Rightarrow> (Decl \<times> ProtocolConformance) list" where
  "getInheritedConformances (ProtocolConformance inherited) = inherited"

fun protocolExtensionRequiresCategory :: "Decl \<Rightarrow> ProtocolConformance \<Rightarrow> bool" where
  "protocolExtensionRequiresCategory protocol (ProtocolConformance inheritedConformances) =
     (if isObjC protocol then True
      else (\<exists>inherited \<in> set inheritedConformances.
              protocolExtensionRequiresCategory (fst inherited) (snd inherited)))"

text \<open>
  A member of an extension.  Whether a member requires an Objective-C entry point is
  decided in GenObjC.cpp: the three \<open>requiresObjC\<dots>Descriptor\<close> fields are the answers
  of the queries of that name (the method query serves functions and constructors).
\<close>

record MemberDecl = Decl +
  requiresObjCMethodDescriptor :: bool
  requiresObjCPropertyDescriptor :: bool
  requiresObjCSubscriptDescriptor :: bool
  isStatic :: bool
  isSettable :: bool

text \<open>
  An extension.  \<open>getClassOrBoundGenericClass\<close> is the class the extension extends
  (\<^verbatim>\<open>ext->getDeclaredTypeInContext()->getClassOrBoundGenericClass()\<close>), null when it
  extends no class; \<open>constantHeapMetadataRef\<close> is the result of
  \<^verbatim>\<open>tryEmitConstantHeapMetadataRef\<close> for the extended type.
\<close>

record ExtensionDecl =
  extensionId :: nat
  getMembers :: "MemberDecl list"
  getClassOrBoundGenericClass :: "Decl option"
  getProtocols :: "Decl list"
  getConformances :: "ProtocolConformance list"
  constantHeapMetadataRef :: "Constant option"

datatype GlobalDecl = ExtensionD ExtensionDecl | PlainD Decl

datatype SourceFileKind = Library | Main | REPL | SIL

record SourceFile =
  Decls :: "GlobalDecl list"
  Kind :: SourceFileKind
  getFilename :: string
  getParentModuleName :: string

text \<open>
  Modelled from the spec: \<^verbatim>\<open>SourceFile::isScriptMode\<close> is not defined in GenDecl.cpp;
  the entry-point units are the main unit and the interactive-session unit.
\<close>

definition isScriptMode :: "SourceFile \<Rightarrow> bool" where
  "isScriptMode SF = (Kind SF = Main \<or> Kind SF = REPL)"

subsection \<open>The state of IR generation\<close>

datatype error =
    Unreachable string
  | AssertionFailure string
  | InvalidPointer string

datatype SourceLoc = SourceLoc "nat option"

text \<open>
  Calls into emission routines that live in other files are recorded, in order; what they
  add to the module is outside this development.
\<close>

datatype ExternalCall =
    EmitEnumDecl nat
  | EmitStructDecl nat
  | EmitClassDecl nat
  | EmitProtocolDecl nat
  | EmitLocalDecls nat
  | EmitCategoryData nat

text \<open>
  The fields of \<^verbatim>\<open>IRGenModule\<close> that GenDecl.cpp reads and writes.  \<open>LLVMModule\<close> is the
  list of the global values of \<^verbatim>\<open>IGM.Module\<close> in order of insertion and \<open>nextValueId\<close>
  the identity of the next global value to be created.  The maps are the caches (an absent
  key is the null entry); \<open>Diags\<close> collects what \<^verbatim>\<open>IGM.error\<close> reports.  Calls on
  \<^verbatim>\<open>DebugInfo\<close> do not change the module and are left out.
\<close>

record IRGenModule =
  LLVMModule :: "GlobalValue list"
  nextValueId :: nat
  GlobalVars :: "LinkEntity \<rightharpoonup> nat"
  GlobalFuncs :: "LinkEntity \<rightharpoonup> nat"
  GlobalStrings :: "string \<rightharpoonup> Constant"
  ObjCClasses :: "Constant list"
  ObjCCategories :: "Constant list"
  ObjCCategoryDecls :: "ExtensionDecl list"
  LLVMUsed :: "Constant list"
  Diags :: "(SourceLoc \<times> string) list"
  ObjCInterop :: bool
  UseJIT :: bool
  Emitted :: "ExternalCall list"

definition IGM_error :: "IRGenModule \<Rightarrow> SourceLoc \<Rightarrow> string \<Rightarrow> IRGenModule" where
  "IGM_error IGM loc message = IGM\<lparr>Diags := Diags IGM @ [(loc, message)]\<rparr>"

definition recordCall :: "ExternalCall \<Rightarrow> IRGenModule \<Rightarrow> IRGenModule" where
  "recordCall c IGM = IGM\<lparr>Emitted := Emitted IGM @ [c]\<rparr>"

text \<open>The types of the module that the functions below name.\<close>

definition Int8PtrTy :: LType where "Int8PtrTy = PointerTy (IntegerTy 8)"
definition Int32Ty :: LType where "Int32Ty = IntegerTy 32"
definition SizeTy :: LType where "SizeTy = IntegerTy 64"
definition TypeMetadataStructTy :: LType where "TypeMetadataStructTy = StructTy ''swift.type''"
definition TypeMetadataPtrTy :: LType where "TypeMetadataPtrTy = PointerTy TypeMetadataStructTy"
definition TypeMetadataPatternStructTy :: LType where
  "TypeMetadataPatternStructTy = StructTy ''swift.type_pattern''"
definition TypeMetadataPatternPtrTy :: LType where
  "TypeMetadataPatternPtrTy = PointerTy TypeMetadataPatternStructTy"
definition FullHeapMetadataStructTy :: LType where
  "FullHeapMetadataStructTy = StructTy ''swift.full_heapmetadata''"
definition FullHeapMetadataPtrTy :: LType where
  "FullHeapMetadataPtrTy = PointerTy FullHeapMetadataStructTy"
definition FullTypeMetadataStructTy :: LType where
  "FullTypeMetadataStructTy = StructTy ''swift.full_type''"
definition FullTypeMetadataPtrTy :: LType where
  "FullTypeMetadataPtrTy = PointerTy FullTypeMetadataStructTy"
definition ObjCClassStructTy :: LType where "ObjCClassStructTy = StructTy ''objc_class''"
definition ObjCClassPtrTy :: LType where "ObjCClassPtrTy = PointerTy ObjCClassStructTy"
definition ObjCPtrTy :: LType where "ObjCPtrTy = PointerTy (StructTy ''objc_object'')"
definition ObjCSELTy :: LType where "ObjCSELTy = Int8PtrTy"

subsection \<open>The symbol table of the module\<close>

text \<open>
  The operations of \<^verbatim>\<open>llvm::Module\<close> and \<^verbatim>\<open>llvm::Value\<close> that the source calls.
  Named values share one table; a lookup by kind answers null when the name belongs to a
  value of the other kind.
\<close>

definition getNamedValue :: "GlobalValue list \<Rightarrow> string \<Rightarrow> GlobalValue option" where
  "getNamedValue M name = (if name = [] then None else find (\<lambda>g. getName g = name) M)"

definition getFunction :: "GlobalValue list \<Rightarrow> string \<Rightarrow> GlobalValue option" where
  "getFunction M name =
     (case getNamedValue M name of
        None \<Rightarrow> None
      | Some g \<Rightarrow> if globalKind g = FunctionGV then Some g else None)"

definition getNamedGlobal :: "GlobalValue list \<Rightarrow> string \<Rightarrow> GlobalValue option" where
  "getNamedGlobal M name =
     (case getNamedValue M name of
        None \<Rightarrow> None
      | Some g \<Rightarrow> if globalKind g = GlobalVariableGV then Some g else None)"

definition lookupValue :: "GlobalValue list \<Rightarrow> nat \<Rightarrow> GlobalValue option" where
  "lookupValue M i = find (\<lambda>g. valueId g = i) M"

text \<open>
  A name that is taken is made unique by a numeric suffix, as the symbol table does; the
  search tries one candidate more than there are values in the table.
\<close>

fun decimal :: "nat \<Rightarrow> string" where
  "decimal n =
     (if n < 10 then [char_of (48 + n)]
      else decimal (n div 10) @ [char_of (48 + n mod 10)])"

fun searchUnique :: "string list \<Rightarrow> string \<Rightarrow> nat \<Rightarrow> nat \<Rightarrow> string" where
  "searchUnique taken base k 0 = base @ decimal k"
| "searchUnique taken base k (Suc fuel) =
     (if base @ decimal k \<in> set taken then searchUnique taken base (Suc k) fuel
      else base @ decimal k)"

definition uniqueName :: "GlobalValue list \<Rightarrow> string \<Rightarrow> string" where
  "uniqueName M name =
     (if name = [] \<or> getNamedValue M name = None then name
      else searchUnique (map getName M) name 1 (length M))"

definition setName :: "nat \<Rightarrow> string \<Rightarrow> GlobalValue list \<Rightarrow> GlobalValue list" where
  "setName i name M =
     map (\<lambda>g. if valueId g = i
              then g\<lparr>getName := uniqueName (filter (\<lambda>h. valueId h \<noteq> i) M) name\<rparr>
              else g) M"

definition updateValue :: "nat \<Rightarrow> (GlobalValue \<Rightarrow> GlobalValue) \<Rightarrow> GlobalValue list \<Rightarrow> GlobalValue list" where
  "updateValue i f M = map (\<lambda>g. if valueId g = i then f g else g) M"

definition eraseFromParent :: "nat \<Rightarrow> GlobalValue list \<Rightarrow> GlobalValue list" where
  "eraseFromParent i M = filter (\<lambda>g. valueId g \<noteq> i) M"

text \<open>
  Insertion of a new global value: it takes the next identity and, if its name is taken,
  a unique variant of it.
\<close>

definition insertGlobal :: "GlobalValue \<Rightarrow> IRGenModule \<Rightarrow> nat \<times> IRGenModule" where
  "insertGlobal g IGM =
     (nextValueId IGM,
      IGM\<lparr>LLVMModule := LLVMModule IGM @
             [g\<lparr>valueId := nextValueId IGM,
                getName := uniqueName (LLVMModule IGM) (getName g)\<rparr>],
          nextValueId := Suc (nextValueId IGM)\<rparr>)"

text \<open>\<^verbatim>\<open>llvm::Function::Create\<close> and \<^verbatim>\<open>new llvm::GlobalVariable\<close>.\<close>

definition Function_Create ::
  "LType \<Rightarrow> LinkageTypes \<Rightarrow> string \<Rightarrow> IRGenModule \<Rightarrow> nat \<times> IRGenModule" where
  "Function_Create fnType linkage name IGM =
     insertGlobal
       \<lparr>valueId = 0, getName = name, globalKind = FunctionGV, getValueType = fnType,
        getLinkage = linkage, getVisibility = DefaultVisibility, getCallingConv = 0,
        getAttributes = [], isConstant = False, getInitializer = None,
        hasUnnamedAddr = False, getAlignment = 0, blocks = []\<rparr> IGM"

definition new_GlobalVariable ::
  "LType \<Rightarrow> bool \<Rightarrow> LinkageTypes \<Rightarrow> Constant option \<Rightarrow> string \<Rightarrow> IRGenModule \<Rightarrow>
   nat \<times> IRGenModule" where
  "new_GlobalVariable ty constant linkage initializer name IGM =
     insertGlobal
       \<lparr>valueId = 0, getName = name, globalKind = GlobalVariableGV, getValueType = ty,
        getLinkage = linkage, getVisibility = DefaultVisibility, getCallingConv = 0,
        getAttributes = [], isConstant = constant, getInitializer = initializer,
        hasUnnamedAddr = False, getAlignment = 0, blocks = []\<rparr> IGM"

text \<open>
  \<^verbatim>\<open>replaceAllUsesWith\<close>: every use of the global in an initializer, in a function body
  and in the lists of value handles is replaced.
\<close>

definition replaceAllUsesWith :: "nat \<Rightarrow> Constant \<Rightarrow> IRGenModule \<Rightarrow> IRGenModule" where
  "replaceAllUsesWith old new IGM =
     IGM\<lparr>LLVMModule := map (replaceInGlobalValue old new) (LLVMModule IGM),
         ObjCClasses := map (replaceInConstant old new) (ObjCClasses IGM),
         ObjCCategories := map (replaceInConstant old new) (ObjCCategories IGM),
         LLVMUsed := map (replaceInConstant old new) (LLVMUsed IGM)\<rparr>"

definition referencedGlobals :: "IRGenModule \<Rightarrow> nat list" where
  "referencedGlobals IGM =
     concat (map globalsOfGlobalValue (LLVMModule IGM)) @
     concat (map globalsOf (ObjCClasses IGM)) @
     concat (map globalsOf (ObjCCategories IGM)) @
     concat (map globalsOf (LLVMUsed IGM))"

section \<open>Creating and caching symbols\<close>

text \<open>
  \<^verbatim>\<open>LinkInfo::createFunction\<close>.  The first definition is the end of the function,
  from \<^verbatim>\<open>llvm::Function::Create\<close> on: the creation of the new function.
\<close>

definition createFunction_new ::
  "LinkInfo \<Rightarrow> IRGenModule \<Rightarrow> LType \<Rightarrow> nat \<Rightarrow> nat list \<Rightarrow> nat \<times> IRGenModule" where
  "createFunction_new link IGM fnType cc attrs =
     (let (fn, IGM1) = Function_Create fnType (Linkage link) (Name link) IGM
      in (fn,
          IGM1\<lparr>LLVMModule :=
            updateValue fn
              (\<lambda>g. g\<lparr>getVisibility := Visibility link, getCallingConv := cc,
                     getAttributes := (if attrs \<noteq> [] then attrs else getAttributes g)\<rparr>)
              (LLVMModule IGM1)\<rparr>))"

definition createFunction ::
  "LinkInfo \<Rightarrow> IRGenModule \<Rightarrow> LType \<Rightarrow> nat \<Rightarrow> nat list \<Rightarrow> error + (nat \<times> IRGenModule)" where
  "createFunction link IGM fnType cc attrs =
     (case getFunction (LLVMModule IGM) (Name link) of
        None \<Rightarrow> Inr (createFunction_new link IGM fnType cc attrs)
      | Some existing \<Rightarrow>
          (case isPointerTo (getPointerType existing) fnType of
             None \<Rightarrow> Inl (AssertionFailure ''cast<llvm::PointerType>'')
           | Some True \<Rightarrow> Inr (valueId existing, IGM)
           | Some False \<Rightarrow>
               (let IGM1 = IGM_error IGM (SourceLoc None)
                      (''program too clever: function collides with existing symbol ''
                         @ Name link);
                    IGM2 = IGM1\<lparr>LLVMModule :=
                             setName (valueId existing) (Name link @ ''.unique'')
                               (LLVMModule IGM1)\<rparr>
                in Inr (createFunction_new link IGM2 fnType cc attrs))))"

text \<open>
  \<^verbatim>\<open>LinkInfo::createVariable\<close>, with its end from \<^verbatim>\<open>new llvm::GlobalVariable\<close> on
  first.  What \<^verbatim>\<open>getNamedGlobal\<close> returns is a global variable, so the
  \<^verbatim>\<open>isa<llvm::GlobalVariable>\<close> test holds of it.
\<close>

definition createVariable_new ::
  "LinkInfo \<Rightarrow> IRGenModule \<Rightarrow> LType \<Rightarrow> nat \<times> IRGenModule" where
  "createVariable_new link IGM storageType =
     (let (var, IGM1) =
            new_GlobalVariable storageType False (Linkage link) None (Name link) IGM
      in (var,
          IGM1\<lparr>LLVMModule :=
            updateValue var (\<lambda>g. g\<lparr>getVisibility := Visibility link\<rparr>)
              (LLVMModule IGM1)\<rparr>))"

definition createVariable ::
  "LinkInfo \<Rightarrow> IRGenModule \<Rightarrow> LType \<Rightarrow> error + (nat \<times> IRGenModule)" where
  "createVariable link IGM storageType =
     (case getNamedGlobal (LLVMModule IGM) (Name link) of
        None \<Rightarrow> Inr (createVariable_new link IGM storageType)
      | Some existing \<Rightarrow>
          (case isPointerTo (getPointerType existing) storageType of
             None \<Rightarrow> Inl (AssertionFailure ''cast<llvm::PointerType>'')
           | Some compatible \<Rightarrow>
               if globalKind existing = GlobalVariableGV \<and> compatible
               then Inr (valueId existing, IGM)
               else
                 (let IGM1 = IGM_error IGM (SourceLoc None)
                        (''program too clever: variable collides with existing symbol ''
                           @ Name link);
                      IGM2 = IGM1\<lparr>LLVMModule :=
                               setName (valueId existing) (Name link @ ''.unique'')
                                 (LLVMModule IGM1)\<rparr>
                  in Inr (createVariable_new link IGM2 storageType))))"

text \<open>
  \<^verbatim>\<open>IRGenModule::getAddrOfFunction\<close> and its siblings for constructors, destructors,
  getters, setters, injection functions and value witnesses all have this body: the cache
  \<^verbatim>\<open>GlobalFuncs\<close> is asked first, and a missing function is created under the linkage
  of its entity.  The entity (\<^verbatim>\<open>LinkEntity::forFunction(fn)\<close> and the like) and the
  lowered function type, calling convention and attributes, which are computed outside
  this file, are the arguments.
\<close>

definition getAddrOfFunction ::
  "Linking \<Rightarrow> IRGenModule \<Rightarrow> LinkEntity \<Rightarrow> LType \<Rightarrow> nat \<Rightarrow> nat list \<Rightarrow>
   error + (nat \<times> IRGenModule)" where
  "getAddrOfFunction L IGM entity fnType cc attrs =
     (case GlobalFuncs IGM entity of
        Some entry \<Rightarrow> Inr (entry, IGM)
      | None \<Rightarrow>
          (case LinkInfo_get L entity of
             None \<Rightarrow> Inl (Unreachable ''invalid entity kind'')
           | Some link \<Rightarrow>
               (case createFunction link IGM fnType cc attrs of
                  Inl e \<Rightarrow> Inl e
                | Inr (fn, IGM1) \<Rightarrow>
                    Inr (fn, IGM1\<lparr>GlobalFuncs := (GlobalFuncs IGM1)(entity \<mapsto> fn)\<rparr>))))"

text \<open>
  The second half of \<^verbatim>\<open>getAddrOfLLVMVariable\<close>, from ``Create the variable'': \<open>entry\<close> is
  the cached variable that is being replaced, if any.
\<close>

definition createLLVMVariable ::
  "Linking \<Rightarrow> IRGenModule \<Rightarrow> LinkEntity \<Rightarrow> nat option \<Rightarrow> LType \<Rightarrow> LType \<Rightarrow>
   error + (Constant \<times> IRGenModule)" where
  "createLLVMVariable L IGM entity entry definitionType pointerToDefaultType =
     (case LinkInfo_get L entity of
        None \<Rightarrow> Inl (Unreachable ''invalid entity kind'')
      | Some link \<Rightarrow>
          (case createVariable link IGM definitionType of
             Inl e \<Rightarrow> Inl e
           | Inr (var, IGM1) \<Rightarrow>
               (let IGM2 =
                      (case entry of
                         None \<Rightarrow> IGM1
                       | Some old \<Rightarrow>
                           (let castVar = getBitCast (GlobalRef var) pointerToDefaultType;
                                IGM' = replaceAllUsesWith old castVar IGM1
                            in IGM'\<lparr>LLVMModule := eraseFromParent old (LLVMModule IGM')\<rparr>))
                in Inr (GlobalRef var,
                        IGM2\<lparr>GlobalVars := (GlobalVars IGM2)(entity \<mapsto> var)\<rparr>))))"

text \<open>
  \<^verbatim>\<open>getAddrOfLLVMVariable\<close>, on the cache \<^verbatim>\<open>GlobalVars\<close> (the only cache it is called
  with).  A null \<open>definitionType\<close> is \<open>None\<close>.
\<close>

definition getAddrOfLLVMVariable ::
  "Linking \<Rightarrow> IRGenModule \<Rightarrow> LinkEntity \<Rightarrow> LType option \<Rightarrow> LType \<Rightarrow> LType \<Rightarrow>
   error + (Constant \<times> IRGenModule)" where
  "getAddrOfLLVMVariable L IGM entity definitionType defaultType pointerToDefaultType =
     (case GlobalVars IGM entity of
        Some entry \<Rightarrow>
          (case definitionType of
             Some defTy \<Rightarrow>
               (case lookupValue (LLVMModule IGM) entry of
                  None \<Rightarrow> Inl (InvalidPointer ''cached variable is not in the module'')
                | Some e \<Rightarrow>
                    if getPointerType e \<noteq> pointerToDefaultType
                    then Inl (AssertionFailure ''entry->getType() == pointerToDefaultType'')
                    else if defTy = defaultType then Inr (GlobalRef entry, IGM)
                    else createLLVMVariable L
                           (IGM\<lparr>LLVMModule := setName entry [] (LLVMModule IGM)\<rparr>)
                           entity (Some entry) defTy pointerToDefaultType)
           | None \<Rightarrow> Inr (getBitCast (GlobalRef entry) pointerToDefaultType, IGM))
      | None \<Rightarrow>
          createLLVMVariable L IGM entity None
            (case definitionType of None \<Rightarrow> defaultType | Some defTy \<Rightarrow> defTy)
            pointerToDefaultType)"

text \<open>\<^verbatim>\<open>IRGenModule::getAddrOfGlobalString\<close>.\<close>

definition getAddrOfGlobalString :: "IRGenModule \<Rightarrow> string \<Rightarrow> Constant \<times> IRGenModule" where
  "getAddrOfGlobalString IGM data =
     (case GlobalStrings IGM data of
        Some entry \<Rightarrow> (entry, IGM)
      | None \<Rightarrow>
          (let init = ConstantDataArray_getString data;
               (global, IGM1) =
                  new_GlobalVariable (typeOfString data) True PrivateLinkage (Some init) [] IGM;
               IGM2 = IGM1\<lparr>LLVMModule :=
                        updateValue global (\<lambda>g. g\<lparr>hasUnnamedAddr := True\<rparr>)
                          (LLVMModule IGM1)\<rparr>;
               zero = ConstantInt SizeTy 0;
               address = getInBoundsGetElementPtr (GlobalRef global) [zero, zero]
           in (address, IGM2\<lparr>GlobalStrings := (GlobalStrings IGM2)(data \<mapsto> address)\<rparr>)))"

subsection \<open>Metadata addressing\<close>

definition isaClassType :: "Type \<Rightarrow> Decl option" where
  "isaClassType t =
     (case t of NominalType D ts \<Rightarrow> if declKind D = Class then Some D else None | _ \<Rightarrow> None)"

definition isaBoundGenericClassType :: "Type \<Rightarrow> bool" where
  "isaBoundGenericClassType t =
     (case t of BoundGenericType D ts \<Rightarrow> declKind D = Class | _ \<Rightarrow> False)"

definition isaUnboundGenericType :: "Type \<Rightarrow> bool" where
  "isaUnboundGenericType t = (case t of UnboundGenericType D ts \<Rightarrow> True | _ \<Rightarrow> False)"

text \<open>
  The first part of \<^verbatim>\<open>getAddrOfTypeMetadata\<close>: the default storage type, the pointer to
  it, the adjustment index and, for an Objective-C class, the class.
\<close>

definition metadataLayout ::
  "Type \<Rightarrow> bool \<Rightarrow> bool \<Rightarrow> LType \<times> LType \<times> nat \<times> Decl option" where
  "metadataLayout concreteType isIndirect isPattern =
     (let (defaultVarTy, defaultVarPtrTy, adjustmentIndex, ObjCClass) =
            (if isPattern then
               (TypeMetadataPatternStructTy, TypeMetadataPatternPtrTy, 0, None)
             else if isaClassType concreteType \<noteq> None \<and>
                     \<not> hasKnownSwiftMetadata (the (isaClassType concreteType)) then
               (TypeMetadataStructTy, TypeMetadataPtrTy, 0, isaClassType concreteType)
             else if isaClassType concreteType \<noteq> None \<or>
                     isaBoundGenericClassType concreteType then
               (FullHeapMetadataStructTy, FullHeapMetadataPtrTy, 2, None)
             else
               (FullTypeMetadataStructTy, FullTypeMetadataPtrTy, 1, None))
      in if isIndirect
         then (defaultVarPtrTy, PointerTy defaultVarPtrTy, 0, ObjCClass)
         else (defaultVarTy, defaultVarPtrTy, adjustmentIndex, ObjCClass))"

definition forObjCClass :: "Decl \<Rightarrow> LinkEntity" where
  "forObjCClass D = ForDecl ObjCClass D 0"

definition forTypeMetadata :: "Type \<Rightarrow> bool \<Rightarrow> bool \<Rightarrow> LinkEntity" where
  "forTypeMetadata t isIndirect isPattern =
     ForType TypeMetadata t ((if isIndirect then 1 else 0) + (if isPattern then 2 else 0))"

definition getAddrOfTypeMetadata ::
  "Linking \<Rightarrow> IRGenModule \<Rightarrow> Type \<Rightarrow> bool \<Rightarrow> bool \<Rightarrow> LType option \<Rightarrow>
   error + (Constant \<times> IRGenModule)" where
  "getAddrOfTypeMetadata L IGM concreteType isIndirect isPattern storageType =
     (if \<not> (isPattern \<or> \<not> isaUnboundGenericType concreteType)
      then Inl (AssertionFailure ''isPattern || !isa<UnboundGenericType>(concreteType)'')
      else
        (let (defaultVarTy, defaultVarPtrTy, adjustmentIndex, ObjCClass) =
               metadataLayout concreteType isIndirect isPattern;
             entity = (case ObjCClass of
                         Some theClass \<Rightarrow> forObjCClass theClass
                       | None \<Rightarrow> forTypeMetadata concreteType isIndirect isPattern)
         in case getAddrOfLLVMVariable L IGM entity storageType defaultVarTy defaultVarPtrTy of
              Inl e \<Rightarrow> Inl e
            | Inr (addr, IGM1) \<Rightarrow>
                if adjustmentIndex \<noteq> 0 \<and> storageType = None
                then Inr (getInBoundsGetElementPtr addr
                            [ConstantInt Int32Ty 0, ConstantInt Int32Ty adjustmentIndex], IGM1)
                else Inr (addr, IGM1)))"

text \<open>The metaclass objects, used when categories are registered.\<close>

definition getAddrOfObjCMetaclass ::
  "Linking \<Rightarrow> IRGenModule \<Rightarrow> Decl \<Rightarrow> error + (Constant \<times> IRGenModule)" where
  "getAddrOfObjCMetaclass L IGM theClass =
     (if \<not> ObjCInterop IGM
      then Inl (AssertionFailure ''getting address of ObjC metaclass in no-interop mode'')
      else getAddrOfLLVMVariable L IGM (ForDecl ObjCMetaclass theClass 0)
             (Some ObjCClassStructTy) ObjCClassStructTy ObjCClassPtrTy)"

definition getAddrOfSwiftMetaclassStub ::
  "Linking \<Rightarrow> IRGenModule \<Rightarrow> Decl \<Rightarrow> error + (Constant \<times> IRGenModule)" where
  "getAddrOfSwiftMetaclassStub L IGM theClass =
     (if \<not> ObjCInterop IGM
      then Inl (AssertionFailure ''getting address of metaclass stub in no-interop mode'')
      else getAddrOfLLVMVariable L IGM (ForDecl SwiftMetaclassStub theClass 0)
             (Some ObjCClassStructTy) ObjCClassStructTy ObjCClassPtrTy)"

definition getAddrOfMetaclassObject ::
  "Linking \<Rightarrow> IRGenModule \<Rightarrow> Decl \<Rightarrow> error + (Constant \<times> IRGenModule)" where
  "getAddrOfMetaclassObject L IGM decl =
     (if isObjC decl \<or> hasClangNode decl
      then getAddrOfObjCMetaclass L IGM decl
      else getAddrOfSwiftMetaclassStub L IGM decl)"

section \<open>Extensions and categories\<close>

text \<open>The first loop of \<^verbatim>\<open>emitExtension\<close>, one member.\<close>

definition emitExtensionMember :: "MemberDecl \<Rightarrow> IRGenModule \<Rightarrow> error + IRGenModule" where
  "emitExtensionMember member IGM =
     (case declKind member of
        Import \<Rightarrow> Inl (Unreachable ''decl not allowed in extension!'')
      | EnumCase \<Rightarrow> Inl (Unreachable ''decl not allowed in extension!'')
      | EnumElement \<Rightarrow> Inl (Unreachable ''decl not allowed in extension!'')
      | TopLevelCode \<Rightarrow> Inl (Unreachable ''decl not allowed in extension!'')
      | Protocol \<Rightarrow> Inl (Unreachable ''decl not allowed in extension!'')
      | Extension \<Rightarrow> Inl (Unreachable ''decl not allowed in extension!'')
      | DeclKind.Destructor \<Rightarrow> Inl (Unreachable ''decl not allowed in extension!'')
      | InfixOperator \<Rightarrow> Inl (Unreachable ''decl not allowed in extension!'')
      | PrefixOperator \<Rightarrow> Inl (Unreachable ''decl not allowed in extension!'')
      | PostfixOperator \<Rightarrow> Inl (Unreachable ''decl not allowed in extension!'')
      | PatternBinding \<Rightarrow> Inr IGM
      | Subscript \<Rightarrow> Inr IGM
      | TypeAlias \<Rightarrow> Inr IGM
      | GenericTypeParam \<Rightarrow> Inr IGM
      | AssociatedType \<Rightarrow> Inr IGM
      | Enum \<Rightarrow> Inr (recordCall (EmitEnumDecl (declId member)) IGM)
      | Struct \<Rightarrow> Inr (recordCall (EmitStructDecl (declId member)) IGM)
      | Class \<Rightarrow> Inr (recordCall (EmitClassDecl (declId member)) IGM)
      | Var \<Rightarrow>
          if isComputed member then Inr IGM
          else Inl (Unreachable ''decl not allowed in extension!'')
      | Func \<Rightarrow> Inr (recordCall (EmitLocalDecls (declId member)) IGM)
      | DeclKind.Constructor \<Rightarrow> Inr (recordCall (EmitLocalDecls (declId member)) IGM))"

fun emitExtensionMembers :: "MemberDecl list \<Rightarrow> IRGenModule \<Rightarrow> error + IRGenModule" where
  "emitExtensionMembers [] IGM = Inr IGM"
| "emitExtensionMembers (member # members) IGM =
     (case emitExtensionMember member IGM of
        Inl e \<Rightarrow> Inl e
      | Inr IGM1 \<Rightarrow> emitExtensionMembers members IGM1)"

text \<open>
  The loop over the protocols of the extension, with the conformance at the same index;
  an index beyond the conformances fails the bounds assertion of the array.
\<close>

fun protocolsRequireCategory :: "Decl list \<Rightarrow> ProtocolConformance list \<Rightarrow> error + bool" where
  "protocolsRequireCategory [] conformances = Inr False"
| "protocolsRequireCategory (protocol # protocols) [] =
     Inl (AssertionFailure ''Invalid index!'')"
| "protocolsRequireCategory (protocol # protocols) (conformance # conformances) =
     (if protocolExtensionRequiresCategory protocol conformance then Inr True
      else protocolsRequireCategory protocols conformances)"

text \<open>The loop over the members: the test made of one member, by its kind.\<close>

definition memberRequiresCategory :: "MemberDecl \<Rightarrow> bool" where
  "memberRequiresCategory member =
     (if declKind member = Func then requiresObjCMethodDescriptor member
      else if declKind member = DeclKind.Constructor then requiresObjCMethodDescriptor member
      else if declKind member = Var then requiresObjCPropertyDescriptor member
      else if declKind member = Subscript then requiresObjCSubscriptDescriptor member
      else False)"

text \<open>
  \<^verbatim>\<open>emitCategoryData\<close> is implemented in GenClass.cpp; the call is recorded and its
  result is an opaque constant.
\<close>

definition emitCategoryData :: "IRGenModule \<Rightarrow> ExtensionDecl \<Rightarrow> Constant \<times> IRGenModule" where
  "emitCategoryData IGM ext =
     (Opaque ''category_data'' (extensionId ext),
      recordCall (EmitCategoryData (extensionId ext)) IGM)"

definition emitExtension :: "IRGenModule \<Rightarrow> ExtensionDecl \<Rightarrow> error + IRGenModule" where
  "emitExtension IGM ext =
     (case emitExtensionMembers (getMembers ext) IGM of
        Inl e \<Rightarrow> Inl e
      | Inr IGM1 \<Rightarrow>
          (case getClassOrBoundGenericClass ext of
             None \<Rightarrow> Inr IGM1
           | Some origClass \<Rightarrow>
               (case (if isObjC origClass then Inr True
                      else protocolsRequireCategory (getProtocols ext) (getConformances ext)) of
                  Inl e \<Rightarrow> Inl e
                | Inr needsCategory1 \<Rightarrow>
                    (let needsCategory =
                           (if \<not> needsCategory1
                            then list_ex memberRequiresCategory (getMembers ext)
                            else needsCategory1)
                     in if needsCategory then
                          (let (category0, IGM2) = emitCategoryData IGM1 ext;
                               category = getBitCast category0 Int8PtrTy
                           in Inr (IGM2\<lparr>ObjCCategories := ObjCCategories IGM2 @ [category],
                                       ObjCCategoryDecls := ObjCCategoryDecls IGM2 @ [ext]\<rparr>))
                        else Inr IGM1))))"

text \<open>\<^verbatim>\<open>IRGenModule::emitGlobalDecl\<close>.\<close>

definition emitGlobalDecl :: "IRGenModule \<Rightarrow> GlobalDecl \<Rightarrow> error + IRGenModule" where
  "emitGlobalDecl IGM D =
     (case D of
        ExtensionD ext \<Rightarrow> emitExtension IGM ext
      | PlainD d \<Rightarrow>
          (case declKind d of
             Extension \<Rightarrow> Inl (AssertionFailure ''cast<ExtensionDecl>'')
           | Protocol \<Rightarrow> Inr (recordCall (EmitProtocolDecl (declId d)) IGM)
           | PatternBinding \<Rightarrow> Inr IGM
           | Subscript \<Rightarrow> Inl (Unreachable ''there are no global subscript operations'')
           | EnumCase \<Rightarrow> Inl (Unreachable ''there are no global enum elements'')
           | EnumElement \<Rightarrow> Inl (Unreachable ''there are no global enum elements'')
           | DeclKind.Constructor \<Rightarrow> Inl (Unreachable ''there are no global constructor'')
           | DeclKind.Destructor \<Rightarrow> Inl (Unreachable ''there are no global destructor'')
           | TypeAlias \<Rightarrow> Inr IGM
           | GenericTypeParam \<Rightarrow> Inr IGM
           | AssociatedType \<Rightarrow> Inr IGM
           | Enum \<Rightarrow> Inr (recordCall (EmitEnumDecl (declId d)) IGM)
           | Struct \<Rightarrow> Inr (recordCall (EmitStructDecl (declId d)) IGM)
           | Class \<Rightarrow> Inr (recordCall (EmitClassDecl (declId d)) IGM)
           | Import \<Rightarrow> Inr IGM
           | Var \<Rightarrow> Inr IGM
           | Func \<Rightarrow> Inr (recordCall (EmitLocalDecls (declId d)) IGM)
           | TopLevelCode \<Rightarrow> Inr IGM
           | InfixOperator \<Rightarrow> Inr IGM
           | PrefixOperator \<Rightarrow> Inr IGM
           | PostfixOperator \<Rightarrow> Inr IGM))"

fun emitGlobalDecls :: "IRGenModule \<Rightarrow> GlobalDecl list \<Rightarrow> error + IRGenModule" where
  "emitGlobalDecls IGM [] = Inr IGM"
| "emitGlobalDecls IGM (D # Ds) =
     (case emitGlobalDecl IGM D of
        Inl e \<Rightarrow> Inl e
      | Inr IGM1 \<Rightarrow> emitGlobalDecls IGM1 Ds)"

text \<open>
  For comparison with \<^verbatim>\<open>protocolExtensionRequiresCategory\<close>: a conformance to a
  protocol reaches an Objective-C protocol directly, or through one of the conformances
  it inherits.
\<close>

inductive conformsToObjCProtocol :: "Decl \<Rightarrow> ProtocolConformance \<Rightarrow> bool" where
  direct: "isObjC protocol \<Longrightarrow> conformsToObjCProtocol protocol conformance"
| inherited:
    "(p, c) \<in> set (getInheritedConformances conformance) \<Longrightarrow> conformsToObjCProtocol p c \<Longrightarrow>
     conformsToObjCProtocol protocol conformance"

text \<open>The members that the first loop of \<^verbatim>\<open>emitExtension\<close> accepts.\<close>

definition allowedInExtension :: "MemberDecl \<Rightarrow> bool" where
  "allowedInExtension member =
     (declKind member \<in> {PatternBinding, Subscript, TypeAlias, GenericTypeParam, AssociatedType,
                          Enum, Struct, Class, Func, DeclKind.Constructor}
      \<or> (declKind member = Var \<and> isComputed member))"

fun isEmitCategoryData :: "ExternalCall \<Rightarrow> bool" where
  "isEmitCategoryData (EmitCategoryData n) = True"
| "isEmitCategoryData _ = False"

section \<open>Source files: the entry point and the global initializer\<close>

text \<open>
  \<^verbatim>\<open>isTrivialGlobalInit\<close>.  Stepping past the first block of a function without
  blocks, or past the first instruction of an empty block, is an invalid access; a single
  instruction that is no return fails the assertion.
\<close>

definition isTrivialGlobalInit :: "GlobalValue \<Rightarrow> error + bool" where
  "isTrivialGlobalInit fn =
     (case blocks fn of
        [] \<Rightarrow> Inl (InvalidPointer ''function without a basic block'')
      | entry # moreBlocks \<Rightarrow>
          if moreBlocks \<noteq> [] then Inr False
          else
            (case entry of
               [] \<Rightarrow> Inl (InvalidPointer ''basic block without an instruction'')
             | front # moreInstructions \<Rightarrow>
                 if moreInstructions \<noteq> [] then Inr False
                 else
                   (case front of
                      Ret v \<Rightarrow> Inr True
                    | _ \<Rightarrow> Inl (AssertionFailure ''isa<llvm::ReturnInst>(entry->front())''))))"

text \<open>
  The builder of an \<^verbatim>\<open>IRGenFunction\<close> appends to the one block of the function being
  built; the value of the new instruction is its position.
\<close>

definition emitInstruction :: "BasicBlock \<Rightarrow> Instruction \<Rightarrow> Value \<times> BasicBlock" where
  "emitInstruction b inst = (InstructionV (length b), b @ [inst])"

definition setBody :: "nat \<Rightarrow> BasicBlock \<Rightarrow> IRGenModule \<Rightarrow> IRGenModule" where
  "setBody fn body IGM =
     IGM\<lparr>LLVMModule := updateValue fn (\<lambda>g. g\<lparr>blocks := [body]\<rparr>) (LLVMModule IGM)\<rparr>"

definition hasLocalLinkage :: "GlobalValue \<Rightarrow> bool" where
  "hasLocalLinkage g = (getLinkage g = InternalLinkage \<or> getLinkage g = PrivateLinkage)"

text \<open>
  \<^verbatim>\<open>llvm::Module::getOrInsertFunction\<close>: a missing function is declared with external
  linkage; a value of local linkage gives up its name to a new declaration and is then
  renamed; a value of another type is returned under a cast.
\<close>

definition getOrInsertFunction ::
  "string \<Rightarrow> LType \<Rightarrow> IRGenModule \<Rightarrow> Constant \<times> IRGenModule" where
  "getOrInsertFunction name ty IGM =
     (case getNamedValue (LLVMModule IGM) name of
        None \<Rightarrow>
          (let (new, IGM1) = Function_Create ty ExternalLinkage name IGM
           in (GlobalRef new, IGM1))
      | Some F \<Rightarrow>
          if hasLocalLinkage F then
            (let IGM1 = IGM\<lparr>LLVMModule := setName (valueId F) [] (LLVMModule IGM)\<rparr>;
                 (new, IGM2) = Function_Create ty ExternalLinkage name IGM1
             in (GlobalRef new,
                 IGM2\<lparr>LLVMModule := setName (valueId F) name (LLVMModule IGM2)\<rparr>))
          else if getPointerType F \<noteq> PointerTy ty
          then (getBitCast (GlobalRef (valueId F)) (PointerTy ty), IGM)
          else (GlobalRef (valueId F), IGM))"

text \<open>
  Runtime entry points whose declarations are obtained from other files
  (\<^verbatim>\<open>getObjCMsgSendFn\<close> and the like) are opaque constants.
\<close>

definition getObjCMsgSendFn :: Constant where
  "getObjCMsgSendFn = Opaque ''objc_msgSend'' 0"

definition getClassReplaceMethodFn :: Constant where
  "getClassReplaceMethodFn = Opaque ''class_replaceMethod'' 0"

definition getClassAddProtocolFn :: Constant where
  "getClassAddProtocolFn = Opaque ''class_addProtocol'' 0"

definition getObjCSelRegisterNameFn :: Constant where
  "getObjCSelRegisterNameFn = Opaque ''sel_registerName'' 0"

definition getAddrOfObjCProtocolRecord :: "Decl \<Rightarrow> Constant" where
  "getAddrOfObjCProtocolRecord p = Opaque ''objc_protocol'' (declId p)"

text \<open>\<^verbatim>\<open>emitObjCClassInitializer\<close>.\<close>

definition emitObjCClassInitializer :: "IRGenModule \<Rightarrow> Constant list \<Rightarrow> nat \<times> IRGenModule" where
  "emitObjCClassInitializer IGM classes =
     (let fnType = FunctionTy VoidTy [] False;
          (initFn, IGM1) = Function_Create fnType InternalLinkage ''_swift_initObjCClasses'' IGM;
          (loadSel, b0) = emitInstruction [] (ObjCSelectorRefLoad ''load'');
          msgSendType = FunctionTy VoidTy [ObjCPtrTy, ObjCSELTy] False;
          msgSend = getBitCast getObjCMsgSendFn (PointerTy msgSendType);
          b1 = foldl (\<lambda>b nextClass.
                  snd (emitInstruction b
                         (Call (ConstantV msgSend)
                            [ConstantV (getBitCast nextClass ObjCPtrTy), loadSel])))
                 b0 classes;
          (r, b2) = emitInstruction b1 (Ret None)
      in (initFn, setBody initFn b2 IGM1))"

text \<open>
  The visitor that registers the members of one category.  Its fields are the two
  metadata constants; the descriptor parts of a member (selector name, type encoding,
  implementation) are produced in GenObjC.cpp and are opaque constants here.
\<close>

definition emitReplaceMethod ::
  "Constant \<Rightarrow> string \<Rightarrow> nat \<Rightarrow> BasicBlock \<Rightarrow> BasicBlock" where
  "emitReplaceMethod receiver part member b =
     (let name = Opaque (part @ ''.name'') member;
          types = Opaque (part @ ''.types'') member;
          imp = Opaque (part @ ''.imp'') member;
          (sel, b1) = emitInstruction b (Call (ConstantV getObjCSelRegisterNameFn) [ConstantV name]);
          (r, b2) = emitInstruction b1
             (Call (ConstantV getClassReplaceMethodFn)
                [ConstantV receiver, sel, ConstantV imp, ConstantV types])
      in b2)"

definition visitFuncDecl :: "Constant \<Rightarrow> Constant \<Rightarrow> MemberDecl \<Rightarrow> BasicBlock \<Rightarrow> BasicBlock" where
  "visitFuncDecl classMetadata metaclassMetadata method b =
     (if \<not> requiresObjCMethodDescriptor method then b
      else emitReplaceMethod (if isStatic method then metaclassMetadata else classMetadata)
             ''method'' (declId method) b)"

definition visitConstructorDecl :: "Constant \<Rightarrow> MemberDecl \<Rightarrow> BasicBlock \<Rightarrow> BasicBlock" where
  "visitConstructorDecl classMetadata constructor b =
     (if \<not> requiresObjCMethodDescriptor constructor then b
      else emitReplaceMethod classMetadata ''method'' (declId constructor) b)"

definition visitVarDecl :: "Constant \<Rightarrow> MemberDecl \<Rightarrow> BasicBlock \<Rightarrow> BasicBlock" where
  "visitVarDecl classMetadata prop b =
     (if \<not> requiresObjCPropertyDescriptor prop then b
      else
        (let b1 = emitReplaceMethod classMetadata ''getter'' (declId prop) b
         in if isSettable prop
            then emitReplaceMethod classMetadata ''setter'' (declId prop) b1
            else b1))"

definition visitSubscriptDecl :: "Constant \<Rightarrow> MemberDecl \<Rightarrow> BasicBlock \<Rightarrow> BasicBlock" where
  "visitSubscriptDecl classMetadata subscript b =
     (if \<not> requiresObjCSubscriptDescriptor subscript then b
      else
        (let b1 = emitReplaceMethod classMetadata ''getter'' (declId subscript) b
         in if isSettable subscript
            then emitReplaceMethod classMetadata ''setter'' (declId subscript) b1
            else b1))"

text \<open>
  The dispatch of the visitor.  The visitor defines the four cases above; the handling of
  every other member kind is inherited from the visitor base classes, which this file
  does not contain, and emits nothing here.
\<close>

definition visitMember :: "Constant \<Rightarrow> Constant \<Rightarrow> MemberDecl \<Rightarrow> BasicBlock \<Rightarrow> BasicBlock" where
  "visitMember classMetadata metaclassMetadata member b =
     (if declKind member = Func then visitFuncDecl classMetadata metaclassMetadata member b
      else if declKind member = DeclKind.Constructor
      then visitConstructorDecl classMetadata member b
      else if declKind member = Var then visitVarDecl classMetadata member b
      else if declKind member = Subscript then visitSubscriptDecl classMetadata member b
      else b)"

text \<open>
  The constructor of \<^verbatim>\<open>CategoryInitializerVisitor\<close> followed by \<^verbatim>\<open>visitMembers\<close>, for
  one extension.
\<close>

definition visitCategory ::
  "Linking \<Rightarrow> ExtensionDecl \<Rightarrow> BasicBlock \<times> IRGenModule \<Rightarrow> error + (BasicBlock \<times> IRGenModule)" where
  "visitCategory L ext state =
     (case constantHeapMetadataRef ext of
        None \<Rightarrow> Inl (AssertionFailure ''extended objc class doesn't have constant metadata?!'')
      | Some classMetadata0 \<Rightarrow>
          (case getClassOrBoundGenericClass ext of
             None \<Rightarrow> Inl (InvalidPointer ''extension of no class'')
           | Some theClass \<Rightarrow>
               (case getAddrOfMetaclassObject L (snd state) theClass of
                  Inl e \<Rightarrow> Inl e
                | Inr (metaclassMetadata0, IGM1) \<Rightarrow>
                    (let classMetadata = getBitCast classMetadata0 TypeMetadataPtrTy;
                         metaclassMetadata = getBitCast metaclassMetadata0 TypeMetadataPtrTy;
                         b1 = foldl (\<lambda>b p.
                                 if \<not> isObjC p then b
                                 else snd (emitInstruction b
                                        (Call (ConstantV getClassAddProtocolFn)
                                           [ConstantV classMetadata,
                                            ConstantV (getAddrOfObjCProtocolRecord p)])))
                                (fst state) (getProtocols ext);
                         b2 = foldl (\<lambda>b member.
                                 visitMember classMetadata metaclassMetadata member b)
                                b1 (getMembers ext)
                     in Inr (b2, IGM1)))))"

fun visitCategories ::
  "Linking \<Rightarrow> ExtensionDecl list \<Rightarrow> BasicBlock \<times> IRGenModule \<Rightarrow>
   error + (BasicBlock \<times> IRGenModule)" where
  "visitCategories L [] state = Inr state"
| "visitCategories L (ext # categories) state =
     (case visitCategory L ext state of
        Inl e \<Rightarrow> Inl e
      | Inr state1 \<Rightarrow> visitCategories L categories state1)"

text \<open>\<^verbatim>\<open>emitObjCCategoryInitializer\<close>.\<close>

definition emitObjCCategoryInitializer ::
  "Linking \<Rightarrow> IRGenModule \<Rightarrow> ExtensionDecl list \<Rightarrow> error + (nat \<times> IRGenModule)" where
  "emitObjCCategoryInitializer L IGM categories =
     (let fnType = FunctionTy VoidTy [] False;
          (initFn, IGM1) =
             Function_Create fnType InternalLinkage ''_swift_initObjCCategories'' IGM
      in case visitCategories L categories ([], IGM1) of
           Inl e \<Rightarrow> Inl e
         | Inr (b1, IGM2) \<Rightarrow>
             (let (r, b2) = emitInstruction b1 (Ret None)
              in Inr (initFn, setBody initFn b2 IGM2)))"

text \<open>
  The part of \<^verbatim>\<open>emitSourceFile\<close> under \<^verbatim>\<open>if (SF.isScriptMode())\<close>: the function
  \<open>main\<close>.  \<open>topLevelCodeFn\<close> is the function found under the name \<open>top_level_code\<close>, if
  any.
\<close>

definition emitArgumentStore ::
  "nat \<Rightarrow> LType \<Rightarrow> string \<Rightarrow> BasicBlock \<times> IRGenModule \<Rightarrow> BasicBlock \<times> IRGenModule" where
  "emitArgumentStore parameter parameterType accessorName state =
     (let accessorTy = FunctionTy Int8PtrTy [] False;
          (accessor, IGM1) = getOrInsertFunction accessorName accessorTy (snd state);
          (ptr0, b1) = emitInstruction (fst state) (Call (ConstantV accessor) []);
          (ptr, b2) = emitInstruction b1 (BitCastInst ptr0 (PointerTy parameterType));
          (r, b3) = emitInstruction b2 (Store (ArgumentV parameter) ptr)
      in (b3, IGM1))"

text \<open>
  The two announcements of the Objective-C runtime setup: each emits its initializer and
  then the call of it into the block of \<open>main\<close>.
\<close>

definition announceClasses :: "BasicBlock \<times> IRGenModule \<Rightarrow> BasicBlock \<times> IRGenModule" where
  "announceClasses state =
     (if ObjCClasses (snd state) \<noteq> [] then
        (let (classInit, IGM1) =
               emitObjCClassInitializer (snd state) (ObjCClasses (snd state))
         in (snd (emitInstruction (fst state) (Call (ConstantV (GlobalRef classInit)) [])),
             IGM1))
      else state)"

definition announceCategories ::
  "Linking \<Rightarrow> BasicBlock \<times> IRGenModule \<Rightarrow> error + (BasicBlock \<times> IRGenModule)" where
  "announceCategories L state =
     (if ObjCCategoryDecls (snd state) \<noteq> [] then
        (case emitObjCCategoryInitializer L (snd state) (ObjCCategoryDecls (snd state)) of
           Inl e \<Rightarrow> Inl e
         | Inr (categoryInit, IGM1) \<Rightarrow>
             Inr (snd (emitInstruction (fst state)
                         (Call (ConstantV (GlobalRef categoryInit)) [])), IGM1))
      else Inr state)"

definition emitMain :: "Linking \<Rightarrow> IRGenModule \<Rightarrow> nat option \<Rightarrow> error + IRGenModule" where
  "emitMain L IGM topLevelCodeFn =
     (let argcTy = Int32Ty;
          argvTy = PointerTy (PointerTy (IntegerTy 8));
          (mainFn, IGM1) =
             Function_Create (FunctionTy Int32Ty [argcTy, argvTy] False) ExternalLinkage
               ''main'' IGM;
          state1 = emitArgumentStore 0 argcTy ''_TFSsa6C_ARGCVSs5Int32'' ([], IGM1);
          state2 = emitArgumentStore 1 argvTy
                     ''_TFSsa6C_ARGVGVSs13UnsafePointerVSs7CString_'' state1;
          state3 =
            (if ObjCInterop (snd state2) \<and> UseJIT (snd state2)
             then announceCategories L (announceClasses state2)
             else Inr state2)
      in case state3 of
           Inl e \<Rightarrow> Inl e
         | Inr (b3, IGM3) \<Rightarrow>
             (let b4 = (case topLevelCodeFn of
                          Some f \<Rightarrow> snd (emitInstruction b3 (Call (ConstantV (GlobalRef f)) []))
                        | None \<Rightarrow> b3);
                  (r, b5) = emitInstruction b4
                              (Ret (Some (ConstantV (ConstantInt Int32Ty 0))))
              in Inr (setBody mainFn b5 IGM3)))"

text \<open>
  \<^verbatim>\<open>llvm::sys::path::filename\<close>, for paths with the separator \<open>/\<close>: the last
  component of the path.  That is \<open>/\<close> for the root directory, \<open>.\<close> for a longer path
  that ends in a separator, the whole of a network root such as \<open>//net\<close>, and otherwise
  what follows the last separator.
\<close>

definition path_filename :: "string \<Rightarrow> string" where
  "path_filename path =
     (if path = ''/'' then ''/''
      else if path \<noteq> [] \<and> last path = CHR ''/'' then ''.''
      else if take 2 path = ''//'' \<and> CHR ''/'' \<notin> set (drop 2 path) then path
      else rev (takeWhile (\<lambda>c. c \<noteq> CHR ''/'') (rev path)))"

text \<open>
  The rest of \<^verbatim>\<open>emitSourceFile\<close>, reached when \<open>top_level_code\<close> exists: the
  initializer of a library unit and the entry of the global constructor table.  The
  lowered type of the initializer (\<^verbatim>\<open>getFunctionType\<close> of a thin \<open>() -> ()\<close>) is
  \<open>void ()\<close> with no attributes.
\<close>

definition emitInitializer :: "IRGenModule \<Rightarrow> SourceFile \<Rightarrow> nat \<Rightarrow> error + IRGenModule" where
  "emitInitializer IGM SF topLevelCodeFn =
     (let fnType = FunctionTy VoidTy [] False;
          (initFn, IGM1) =
            (if Kind SF \<noteq> Main \<and> Kind SF \<noteq> REPL then
               (let (f, IGMa) =
                      Function_Create fnType ExternalLinkage
                        (getParentModuleName SF @ ''.init.'' @
                         path_filename (getFilename SF)) IGM;
                    (r1, b1) = emitInstruction []
                                 (Call (ConstantV (GlobalRef topLevelCodeFn)) []);
                    (r2, b2) = emitInstruction b1 (Ret None)
                in (Some f, setBody f b2 IGMa))
             else (None, IGM))
      in case (if Kind SF = Main \<or> Kind SF = REPL then Inr ([], IGM1)
               else
                 (case lookupValue (LLVMModule IGM1) topLevelCodeFn of
                    None \<Rightarrow> Inl (InvalidPointer ''top_level_code'')
                  | Some topLevelCode \<Rightarrow>
                      (case isTrivialGlobalInit topLevelCode of
                         Inl e \<Rightarrow> Inl e
                       | Inr True \<Rightarrow>
                           (case initFn of
                              None \<Rightarrow> Inl (InvalidPointer ''initFn'')
                            | Some f \<Rightarrow>
                                Inr ([],
                                  IGM1\<lparr>LLVMModule :=
                                    eraseFromParent topLevelCodeFn
                                      (eraseFromParent f (LLVMModule IGM1))\<rparr>))
                       | Inr False \<Rightarrow>
                           (case initFn of
                              None \<Rightarrow> Inl (InvalidPointer ''initFn'')
                            | Some f \<Rightarrow>
                                Inr ([ConstantStruct [ConstantInt Int32Ty 1, GlobalRef f]],
                                     IGM1))))) of
           Inl e \<Rightarrow> Inl e
         | Inr (allInits, IGM2) \<Rightarrow>
             if allInits \<noteq> [] then
               (let initListType =
                      ArrayTy (LiteralStructTy [Int32Ty, PointerTy fnType]) (length allInits);
                    globalInits = ConstantArray initListType allInits;
                    (v, IGM3) = new_GlobalVariable initListType False AppendingLinkage
                                  (Some globalInits) ''llvm.global_ctors'' IGM2
                in Inr IGM3)
             else Inr IGM2)"

text \<open>
  \<^verbatim>\<open>IRGenModule::emitSourceFile\<close>.  A start index beyond the declarations is an invalid
  access.
\<close>

definition emitSourceFile ::
  "Linking \<Rightarrow> IRGenModule \<Rightarrow> SourceFile \<Rightarrow> nat \<Rightarrow> error + IRGenModule" where
  "emitSourceFile L IGM SF StartElem =
     (if length (Decls SF) < StartElem then Inl (InvalidPointer ''SF.Decls[i]'')
      else
        (case emitGlobalDecls IGM (drop StartElem (Decls SF)) of
           Inl e \<Rightarrow> Inl e
         | Inr IGM1 \<Rightarrow>
             (let topLevelCodeFn =
                    map_option valueId (getFunction (LLVMModule IGM1) ''top_level_code'')
              in case (if isScriptMode SF then emitMain L IGM1 topLevelCodeFn
                       else Inr IGM1) of
                   Inl e \<Rightarrow> Inl e
                 | Inr IGM2 \<Rightarrow>
                     (case topLevelCodeFn of
                        None \<Rightarrow> Inr IGM2
                      | Some f \<Rightarrow> emitInitializer IGM2 SF f))))"

text \<open>\<^verbatim>\<open>IRGenModule::addObjCClass\<close>.\<close>

definition addObjCClass :: "IRGenModule \<Rightarrow> Constant \<Rightarrow> IRGenModule" where
  "addObjCClass IGM classPtr = IGM\<lparr>ObjCClasses := ObjCClasses IGM @ [classPtr]\<rparr>"

section \<open>Initial state and sample declarations\<close>

text \<open>The state of IR generation over an empty module.\<close>

definition initialIGM :: "bool \<Rightarrow> bool \<Rightarrow> IRGenModule" where
  "initialIGM interop jit =
     \<lparr>LLVMModule = [], nextValueId = 0, GlobalVars = Map.empty, GlobalFuncs = Map.empty,
      GlobalStrings = Map.empty, ObjCClasses = [], ObjCCategories = [],
      ObjCCategoryDecls = [], LLVMUsed = [], Diags = [], ObjCInterop = interop,
      UseJIT = jit, Emitted = []\<rparr>"

text \<open>A declaration at file level, by number, kind and Objective-C visibility.\<close>

definition fileLevelDecl :: "nat \<Rightarrow> DeclKind \<Rightarrow> bool \<Rightarrow> Decl" where
  "fileLevelDecl i k objc =
     \<lparr>declId = i, declKind = k, getDeclContext = SubDC FileUnit ModuleDC,
      inClangModuleUnit = False, isComputed = False, isObjC = objc, hasClangNode = False,
      hasKnownSwiftMetadata = True\<rparr>"

text \<open>
  An extension without members of a class that is not an Objective-C class, declaring
  conformance to one protocol.
\<close>

definition conformingExtension :: "Decl \<Rightarrow> ProtocolConformance \<Rightarrow> ExtensionDecl" where
  "conformingExtension protocol conformance =
     \<lparr>extensionId = 7, getMembers = [],
      getClassOrBoundGenericClass = Some (fileLevelDecl 1 Class False),
      getProtocols = [protocol], getConformances = [conformance],
      constantHeapMetadataRef = Some (Opaque ''heap_metadata'' 1)\<rparr>"

section \<open>Well-formed states\<close>

text \<open>
  The identities of the global values of the module are distinct, and the identity given
  to the next global value is new.
\<close>

definition wellFormedModule :: "IRGenModule \<Rightarrow> bool" where
  "wellFormedModule IGM =
     (distinct (map valueId (LLVMModule IGM)) \<and>
      (\<forall>g \<in> set (LLVMModule IGM). valueId g < nextValueId IGM))"




section \<open>The invariant of the symbol caches\<close>




text \<open>
  The mangled name of the entity is a name, and no other entity of the caches has it:
  the mangler is injective on the entities in use.
\<close>

definition distinctlyMangled :: "Linking \<Rightarrow> IRGenModule \<Rightarrow> LinkEntity \<Rightarrow> bool" where
  "distinctlyMangled L IGM K =
     (mangle L K \<noteq> [] \<and>
      (\<forall>K'. GlobalVars IGM K' \<noteq> None \<or> GlobalFuncs IGM K' \<noteq> None \<longrightarrow>
         mangle L K' = mangle L K \<longrightarrow> K' = K))"

text \<open>
  The requests of a lowering, as the caches see them: \<open>requested L IGM Ks IGM'\<close> says that
  the state \<open>IGM'\<close> is reached from \<open>IGM\<close> by requests for the entities \<open>Ks\<close>, in this
  order.  Each request is for an entity whose mangled name is its own, for a function if
  the entity is no cached variable and for a variable if it is no cached function, and it
  returns.
\<close>

inductive requested :: "Linking \<Rightarrow> IRGenModule \<Rightarrow> LinkEntity list \<Rightarrow> IRGenModule \<Rightarrow> bool"
  for L :: Linking and IGM :: IRGenModule where
  noRequest: "requested L IGM [] IGM"
| functionRequest:
    "requested L IGM Ks A \<Longrightarrow> distinctlyMangled L A K \<Longrightarrow> GlobalVars A K = None \<Longrightarrow>
     getAddrOfFunction L A K fnType cc attrs = Inr (fn, B) \<Longrightarrow>
     requested L IGM (Ks @ [K]) B"
| variableRequest:
    "requested L IGM Ks A \<Longrightarrow> distinctlyMangled L A K \<Longrightarrow> GlobalFuncs A K = None \<Longrightarrow>
     getAddrOfLLVMVariable L A K definitionType defaultType pointerToDefaultType =
       Inr (handle, B) \<Longrightarrow>
     requested L IGM (Ks @ [K]) B"

section \<open>Relations between states\<close>

text \<open>
  The settings and pending lists that the emission of the entry point reads are the same
  in both states.
\<close>

definition sameSettings :: "IRGenModule \<Rightarrow> IRGenModule \<Rightarrow> bool" where
  "sameSettings A B =
     (ObjCInterop B = ObjCInterop A \<and> UseJIT B = UseJIT A \<and>
      ObjCClasses B = ObjCClasses A \<and> ObjCCategoryDecls B = ObjCCategoryDecls A)"

text \<open>
  State \<open>B\<close> continues state \<open>A\<close>: identities are not reused, a well-formed module
  stays well formed, and its functions of external linkage (with \<open>keepingFunctions\<close>: all
  its functions) are still in the module as they were.
\<close>

definition continues :: "IRGenModule \<Rightarrow> IRGenModule \<Rightarrow> bool" where
  "continues A B =
     (sameSettings A B \<and> nextValueId A \<le> nextValueId B \<and>
      (wellFormedModule A \<longrightarrow>
         wellFormedModule B \<and>
         (\<forall>g \<in> set (LLVMModule A). globalKind g = FunctionGV \<longrightarrow> \<not> hasLocalLinkage g \<longrightarrow>
            g \<in> set (LLVMModule B))))"

definition keepingFunctions :: "IRGenModule \<Rightarrow> IRGenModule \<Rightarrow> bool" where
  "keepingFunctions A B =
     (sameSettings A B \<and> nextValueId A \<le> nextValueId B \<and>
      (wellFormedModule A \<longrightarrow>
         wellFormedModule B \<and>
         (\<forall>g \<in> set (LLVMModule A). globalKind g = FunctionGV \<longrightarrow> g \<in> set (LLVMModule B))))"

section \<open>The synthesized initializers, as the entry point sees them\<close>

text \<open>
  The class-registration initializer for a list of classes: an internal function whose
  block loads the selector \<open>load\<close>, sends it to every class in order and returns.  The
  category-registration initializer: an internal function of one block that ends in a
  return.
\<close>

definition isClassInitializer :: "Constant list \<Rightarrow> GlobalValue \<Rightarrow> bool" where
  "isClassInitializer classes g =
     (globalKind g = FunctionGV \<and> getLinkage g = InternalLinkage \<and>
      take (length ''_swift_initObjCClasses'') (getName g) = ''_swift_initObjCClasses'' \<and>
      blocks g =
        [ObjCSelectorRefLoad ''load'' #
         map (\<lambda>c. Call (ConstantV (BitCast getObjCMsgSendFn
                             (PointerTy (FunctionTy VoidTy [ObjCPtrTy, ObjCSELTy] False))))
                     [ConstantV (BitCast c ObjCPtrTy), InstructionV 0]) classes @
         [Ret None]])"

definition isCategoryInitializer :: "GlobalValue \<Rightarrow> bool" where
  "isCategoryInitializer g =
     (globalKind g = FunctionGV \<and> getLinkage g = InternalLinkage \<and>
      take (length ''_swift_initObjCCategories'') (getName g) = ''_swift_initObjCCategories'' \<and>
      (case blocks g of [b] \<Rightarrow> b \<noteq> [] \<and> last b = Ret None | _ \<Rightarrow> False))"

text \<open>The six instructions that store the two parameters of \<open>main\<close>.\<close>

definition argumentMarshaling :: "Constant \<Rightarrow> Constant \<Rightarrow> BasicBlock" where
  "argumentMarshaling argcAccessor argvAccessor =
     [Call (ConstantV argcAccessor) [],
      BitCastInst (InstructionV 0) (PointerTy Int32Ty),
      Store (ArgumentV 0) (InstructionV 1),
      Call (ConstantV argvAccessor) [],
      BitCastInst (InstructionV 3) (PointerTy (PointerTy (PointerTy (IntegerTy 8)))),
      Store (ArgumentV 1) (InstructionV 4)]"

section \<open>Sample units\<close>

text \<open>
  A state whose module holds the function \<open>top_level_code\<close> with the given blocks, as
  the lowering of the SIL module leaves it; a source file without declarations of its own;
  a state with one class and one category waiting for their registration.
\<close>

definition moduleWithTopLevelCode :: "bool \<Rightarrow> bool \<Rightarrow> BasicBlock list \<Rightarrow> IRGenModule" where
  "moduleWithTopLevelCode interop jit body =
     (initialIGM interop jit)
       \<lparr>LLVMModule :=
          [\<lparr>valueId = 0, getName = ''top_level_code'', globalKind = FunctionGV,
            getValueType = FunctionTy VoidTy [] False,
            getLinkage = ExternalLinkage, getVisibility = DefaultVisibility,
            getCallingConv = 0, getAttributes = [], isConstant = False,
            getInitializer = None, hasUnnamedAddr = False, getAlignment = 0,
            blocks = body\<rparr>],
        nextValueId := 1\<rparr>"

definition sourceFileOfKind :: "SourceFileKind \<Rightarrow> SourceFile" where
  "sourceFileOfKind k =
     \<lparr>Decls = [], Kind = k, getFilename = ''lib/a.swift'', getParentModuleName = ''M''\<rparr>"

definition sampleLinking :: Linking where
  "sampleLinking = \<lparr>mangle = (\<lambda>entity. ''_TMm1C''), isValueWitness = (\<lambda>entity. False)\<rparr>"

definition withPendingRegistrations :: "IRGenModule \<Rightarrow> IRGenModule" where
  "withPendingRegistrations IGM =
     (addObjCClass IGM (Opaque ''class'' 1))
       \<lparr>ObjCCategoryDecls :=
          [conformingExtension (fileLevelDecl 2 Protocol True) (ProtocolConformance [])]\<rparr>"


section \<open>Properties\<close>

subsection \<open>Locality and the linkage decision table\<close>

lemma isLocalLinkageDC_contexts:
  "isLocalLinkageDC dc = (\<exists>k \<in> set (contextsBeforeModule dc). isLocalContextKind k)"
  by (induction dc) auto

lemma isLocalLinkageType_getDeclaredType:
  "isLocalLinkageType (getDeclaredType proto) = isLocalLinkageDecl proto"
  by (simp add: getDeclaredType_def)

lemma isLocalLinkageType_poly:
  "isLocalLinkageType (PolymorphicFunctionType params i r) =
     (isLocalLinkageGenericClause params \<or> isLocalLinkageType i \<or> isLocalLinkageType r)"
  by (simp add: isLocalLinkageGenericClause_def getProtocols_param_def getSuperclass_param_def
        isLocalLinkageType_getDeclaredType)

lemma isLocalLinkageType_findIf: "isLocalLinkageType t = findIf isLocalLinkageNode t"
  unfolding findIf_def
proof (induction t)
  case (NominalType D ts)
  then show ?case by auto
next
  case (BoundGenericType D ts)
  then show ?case by auto
next
  case (UnboundGenericType D ts)
  then show ?case by auto
next
  case (PolymorphicFunctionType params i r)
  then show ?case
    by (simp only: isLocalLinkageType_poly subtypes.simps) auto
next
  case (TupleType ts)
  then show ?case by auto
qed auto

lemma isLocalLinkage_ForType:
  "isLocalLinkage (ForType k t n) = (k \<noteq> BridgeToBlockConverter \<and> isLocalLinkageType t)"
  by (cases k) simp_all

lemma isLocalLinkage_ForProtocolConformance:
  "isLocalLinkage (ForProtocolConformance k c) =
     (k = LazyProtocolWitnessTableTemplate \<or> k = DependentProtocolWitnessTableTemplate)"
  by (cases k) simp_all

lemma isThunk_nonlocal: "\<not> isLocalLinkage entity \<Longrightarrow> isThunk entity \<noteq> None"
  by (cases entity) simp_all

text \<open>
  C2 (as amended).  \<open>LinkInfo_get\<close> always yields a record, named by the mangler, and
  follows the decision table: a local entity is internal with default visibility; otherwise
  a value witness, a thunk or a deserialized entity is link-once-ODR and hidden; every
  remaining entity is external with default visibility.  Local means: for a declaration
  entity, some context before the module boundary is a local context; for a type entity
  other than a bridge-to-block converter, some node of the type is a nominal reference to a
  local declaration or a polymorphic function type with a local generic clause; a lazy or
  dependent witness-table template; an anonymous function; a SIL function or SIL global
  whose SIL linkage is internal.
\<close>

theorem LinkInfo_get_decision_table:
  "LinkInfo_get L entity =
     Some (if isLocalLinkage entity then
             \<lparr>Name = mangle L entity, Linkage = InternalLinkage,
              Visibility = DefaultVisibility\<rparr>
           else if isValueWitness L entity \<or> isThunk entity = Some True \<or> isDeserialized entity
           then \<lparr>Name = mangle L entity, Linkage = LinkOnceODRLinkage,
                 Visibility = HiddenVisibility\<rparr>
           else \<lparr>Name = mangle L entity, Linkage = ExternalLinkage,
                 Visibility = DefaultVisibility\<rparr>)
   \<and> isLocalLinkage entity =
       (case entity of
          ForDecl k D n \<Rightarrow>
            (\<exists>c \<in> set (contextsBeforeModule (getDeclContext D)). isLocalContextKind c)
        | ForType k t n \<Rightarrow>
            k \<noteq> BridgeToBlockConverter \<and> (\<exists>u \<in> set (subtypes t). isLocalLinkageNode u)
        | ForProtocolConformance k c \<Rightarrow>
            k = LazyProtocolWitnessTableTemplate \<or> k = DependentProtocolWitnessTableTemplate
        | AnonymousFunction n \<Rightarrow> True
        | SILFunction l n \<Rightarrow> l = Internal
        | SILGlobalVariable l n \<Rightarrow> l = Internal)"
proof
  show "LinkInfo_get L entity =
     Some (if isLocalLinkage entity then
             \<lparr>Name = mangle L entity, Linkage = InternalLinkage,
              Visibility = DefaultVisibility\<rparr>
           else if isValueWitness L entity \<or> isThunk entity = Some True \<or> isDeserialized entity
           then \<lparr>Name = mangle L entity, Linkage = LinkOnceODRLinkage,
                 Visibility = HiddenVisibility\<rparr>
           else \<lparr>Name = mangle L entity, Linkage = ExternalLinkage,
                 Visibility = DefaultVisibility\<rparr>)"
  proof (cases "isLocalLinkage entity")
    case True
    then show ?thesis by (simp add: LinkInfo_get_def)
  next
    case False
    then obtain b where "isThunk entity = Some b"
      using isThunk_nonlocal by blast
    with False show ?thesis by (cases b) (simp_all add: LinkInfo_get_def)
  qed
next
  show "isLocalLinkage entity =
       (case entity of
          ForDecl k D n \<Rightarrow>
            (\<exists>c \<in> set (contextsBeforeModule (getDeclContext D)). isLocalContextKind c)
        | ForType k t n \<Rightarrow>
            k \<noteq> BridgeToBlockConverter \<and> (\<exists>u \<in> set (subtypes t). isLocalLinkageNode u)
        | ForProtocolConformance k c \<Rightarrow>
            k = LazyProtocolWitnessTableTemplate \<or> k = DependentProtocolWitnessTableTemplate
        | AnonymousFunction n \<Rightarrow> True
        | SILFunction l n \<Rightarrow> l = Internal
        | SILGlobalVariable l n \<Rightarrow> l = Internal)"
  proof (cases entity)
    case (ForType k t n)
    then show ?thesis
      using isLocalLinkageType_findIf [of t]
      by (simp add: isLocalLinkage_ForType findIf_def)
  next
    case (ForDecl k D n)
    then show ?thesis
      by (simp add: isLocalLinkageDecl_def isLocalLinkageDC_contexts)
  next
    case (ForProtocolConformance k c)
    then show ?thesis by (simp add: isLocalLinkage_ForProtocolConformance)
  qed simp_all
qed

text \<open>
  A local function body inside a file unit makes a getter declared there internal; the
  same getter at file level is external.
\<close>

theorem LinkInfo_get_decision_table_witness:
  "LinkInfo_get \<lparr>mangle = (\<lambda>e. ''_T1f''), isValueWitness = (\<lambda>e. False)\<rparr>
     (ForDecl Getter
        \<lparr>declId = 0, declKind = Var,
         getDeclContext = SubDC AbstractFunctionDecl (SubDC FileUnit ModuleDC),
         inClangModuleUnit = False, isComputed = True, isObjC = False, hasClangNode = False,
         hasKnownSwiftMetadata = False\<rparr> 0)
   = Some \<lparr>Name = ''_T1f'', Linkage = InternalLinkage, Visibility = DefaultVisibility\<rparr>
   \<and> LinkInfo_get \<lparr>mangle = (\<lambda>e. ''_T1f''), isValueWitness = (\<lambda>e. False)\<rparr>
     (ForDecl Getter
        \<lparr>declId = 0, declKind = Var, getDeclContext = SubDC FileUnit ModuleDC,
         inClangModuleUnit = False, isComputed = True, isObjC = False, hasClangNode = False,
         hasKnownSwiftMetadata = False\<rparr> 0)
   = Some \<lparr>Name = ''_T1f'', Linkage = ExternalLinkage, Visibility = DefaultVisibility\<rparr>"
  using LinkInfo_get_decision_table
    [of "\<lparr>mangle = (\<lambda>e. ''_T1f''), isValueWitness = (\<lambda>e. False)\<rparr>"
        "ForDecl Getter
          \<lparr>declId = 0, declKind = Var,
           getDeclContext = SubDC AbstractFunctionDecl (SubDC FileUnit ModuleDC),
           inClangModuleUnit = False, isComputed = True, isObjC = False, hasClangNode = False,
           hasKnownSwiftMetadata = False\<rparr> 0"]
    LinkInfo_get_decision_table
    [of "\<lparr>mangle = (\<lambda>e. ''_T1f''), isValueWitness = (\<lambda>e. False)\<rparr>"
        "ForDecl Getter
          \<lparr>declId = 0, declKind = Var, getDeclContext = SubDC FileUnit ModuleDC,
           inClangModuleUnit = False, isComputed = True, isObjC = False, hasClangNode = False,
           hasKnownSwiftMetadata = False\<rparr> 0"]
  by simp

text \<open>
  The table as documented fails on a lazy witness-table template: it is no declaration or
  type entity, no value witness, thunk or deserialized entity, so the documented table makes
  it external, and the code makes it internal.
\<close>

theorem LinkInfo_get_documented_counterexample:
  "LinkInfo_get \<lparr>mangle = (\<lambda>e. ''_TWt''), isValueWitness = (\<lambda>e. False)\<rparr>
     (ForProtocolConformance LazyProtocolWitnessTableTemplate 0)
   \<noteq> Some (documented_LinkInfo \<lparr>mangle = (\<lambda>e. ''_TWt''), isValueWitness = (\<lambda>e. False)\<rparr>
             (ForProtocolConformance LazyProtocolWitnessTableTemplate 0))"
  by (simp add: LinkInfo_get_def documented_LinkInfo_def)

text \<open>
  C3 (as amended).  Whatever conformance, closure or type the entity refers to: a dependent
  witness-table generator is not local; a lazy and a dependent witness-table template and
  an anonymous function are local; a bridge-to-block converter is not local.
\<close>

theorem isLocalLinkage_fixed_kinds:
  "\<not> isLocalLinkage (ForProtocolConformance DependentProtocolWitnessTableGenerator c)
   \<and> isLocalLinkage (ForProtocolConformance LazyProtocolWitnessTableTemplate c)
   \<and> isLocalLinkage (ForProtocolConformance DependentProtocolWitnessTableTemplate c)
   \<and> isLocalLinkage (AnonymousFunction n)
   \<and> \<not> isLocalLinkage (ForType BridgeToBlockConverter t m)"
  by simp

text \<open>
  The documented classification fails at an anonymous function (documented non-local,
  local in the code) and at a bridge-to-block converter (documented local, non-local in the
  code).
\<close>

theorem isLocalLinkage_documented_counterexample:
  "isLocalLinkage (AnonymousFunction 0)
   \<and> \<not> isLocalLinkage (ForType BridgeToBlockConverter (BuiltinType ''block'') 0)"
  by simp

theorem isLocalLinkage_fixed_kinds_witness:
  "isLocalLinkage (ForProtocolConformance DependentProtocolWitnessTableTemplate 7)
   \<and> \<not> isLocalLinkage (ForProtocolConformance DependentProtocolWitnessTableGenerator 7)"
  using isLocalLinkage_fixed_kinds [of 7 7 "BuiltinType ''block''" 0] by blast

subsection \<open>Formal types of getters and setters\<close>

lemma addOwnerArgument_member:
  "getContextKind (getDeclContext v) = ExtensionDecl \<or>
   getContextKind (getDeclContext v) = NominalTypeDecl \<Longrightarrow>
   addOwnerArgument h v ty n = (Method, addOwnerArgument_DC h v ty, n + 1)"
  by (auto simp: addOwnerArgument_def)

lemma addOwnerArgument_nonmember:
  "getContextKind (getDeclContext v) \<noteq> ExtensionDecl \<Longrightarrow>
   getContextKind (getDeclContext v) \<noteq> NominalTypeDecl \<Longrightarrow>
   addOwnerArgument h v ty n = (Freestanding, ty, n)"
  by (cases "getContextKind (getDeclContext v)") (simp_all add: addOwnerArgument_def)

text \<open>
  C8.  With \<open>T\<close> the value type of the object (the element type of a subscript, the type
  of any other declaration), the getter starts from \<open>() -> T\<close> and the setter from
  \<open>T -> ()\<close>.  A subscript prepends its index type and adds one to the uncurry level.  A
  declaration whose context is a nominal type or an extension then prepends the receiver
  (the declared type of the context, wrapped as an lvalue exactly when it lacks reference
  semantics; the function type is polymorphic when the context has generic parameters),
  adds one more to the uncurry level and has the method convention; any other declaration
  has the freestanding convention.
\<close>

theorem getter_setter_formal_types:
  "(let T = (if declKind v = Subscript then getElementType v else getType v);
        isMember = (getContextKind (getDeclContext v) = ExtensionDecl \<or>
                    getContextKind (getDeclContext v) = NominalTypeDecl);
        receiver = (if h (getDeclaredTypeInContext v)
                    then getDeclaredTypeInContext v
                    else LValueType (getDeclaredTypeInContext v));
        withIndex = (\<lambda>ty. if declKind v = Subscript
                           then FunctionType (getIndicesType v) ty else ty);
        withOwner = (\<lambda>ty. if isMember
                           then (case getGenericParamsOfContext v of
                                   None \<Rightarrow> FunctionType receiver ty
                                 | Some params \<Rightarrow> PolymorphicFunctionType params receiver ty)
                           else ty);
        level = (if declKind v = Subscript then 1 else 0) + (if isMember then 1 else 0);
        cc = (if isMember then Method else Freestanding)
    in getTypeOfGetter h v =
         FormalType (withOwner (withIndex (FunctionType (TupleType []) T))) cc level
     \<and> getTypeOfSetter h v =
         FormalType (withOwner (withIndex (FunctionType T (TupleType [])))) cc level)"
proof (cases "getContextKind (getDeclContext v) = ExtensionDecl \<or>
              getContextKind (getDeclContext v) = NominalTypeDecl")
  case True
  note own = addOwnerArgument_member [OF True]
  from True show ?thesis
    unfolding getTypeOfGetter_def getTypeOfSetter_def Let_def addIndexArgument_def
      getObjectType_def
    by (simp add: own addOwnerArgument_DC_def Let_def split: option.split)
next
  case False
  then have "getContextKind (getDeclContext v) \<noteq> ExtensionDecl"
    and "getContextKind (getDeclContext v) \<noteq> NominalTypeDecl"
    by simp_all
  note own = addOwnerArgument_nonmember [OF this]
  from False show ?thesis
    unfolding getTypeOfGetter_def getTypeOfSetter_def Let_def addIndexArgument_def
      getObjectType_def
    by (simp add: own)
qed

text \<open>
  A subscript of a struct (no reference semantics): the getter is
  \<open>@lvalue S -> Index -> () -> Element\<close> at uncurry level 2, method convention.
\<close>

theorem getter_setter_formal_types_witness:
  "getTypeOfGetter (\<lambda>t. False)
     \<lparr>declId = 1, declKind = Subscript,
      getDeclContext = SubDC NominalTypeDecl (SubDC FileUnit ModuleDC),
      inClangModuleUnit = False, isComputed = True, isObjC = False, hasClangNode = False,
      hasKnownSwiftMetadata = False,
      getType = BuiltinType ''unused'', getIndicesType = BuiltinType ''Index'',
      getElementType = BuiltinType ''Element'',
      getDeclaredTypeInContext = BuiltinType ''S'', getGenericParamsOfContext = None\<rparr>
   = FormalType
       (FunctionType (LValueType (BuiltinType ''S''))
          (FunctionType (BuiltinType ''Index'')
             (FunctionType (TupleType []) (BuiltinType ''Element''))))
       Method 2"
  using getter_setter_formal_types
    [of "\<lparr>declId = 1, declKind = Subscript,
          getDeclContext = SubDC NominalTypeDecl (SubDC FileUnit ModuleDC),
          inClangModuleUnit = False, isComputed = True, isObjC = False, hasClangNode = False,
          hasKnownSwiftMetadata = False,
          getType = BuiltinType ''unused'', getIndicesType = BuiltinType ''Index'',
          getElementType = BuiltinType ''Element'',
          getDeclaredTypeInContext = BuiltinType ''S'', getGenericParamsOfContext = None\<rparr>"
        "\<lambda>t. False"]
  by (simp add: Let_def)

subsection \<open>Categories for extensions\<close>

lemma protocolExtensionRequiresCategory_iff:
  "protocolExtensionRequiresCategory p c = conformsToObjCProtocol p c"
proof
  show "protocolExtensionRequiresCategory p c \<Longrightarrow> conformsToObjCProtocol p c"
  proof (induction p c rule: protocolExtensionRequiresCategory.induct)
    case (1 protocol inheritedConformances)
    show ?case
    proof (cases "isObjC protocol")
      case True
      then show ?thesis by (rule conformsToObjCProtocol.direct)
    next
      case False
      with "1.prems" obtain inh where inh: "inh \<in> set inheritedConformances"
        and req: "protocolExtensionRequiresCategory (fst inh) (snd inh)"
        by auto
      from "1.IH" [OF False inh req] have "conformsToObjCProtocol (fst inh) (snd inh)" .
      moreover from inh have "(fst inh, snd inh) \<in>
          set (getInheritedConformances (ProtocolConformance inheritedConformances))"
        by simp
      ultimately show ?thesis by (rule conformsToObjCProtocol.inherited [rotated])
    qed
  qed
next
  show "conformsToObjCProtocol p c \<Longrightarrow> protocolExtensionRequiresCategory p c"
  proof (induction rule: conformsToObjCProtocol.induct)
    case (direct protocol conformance)
    then show ?case by (cases conformance) simp
  next
    case (inherited p c conformance protocol)
    then show ?case by (cases conformance) force
  qed
qed

lemma emitExtensionMember_allowed:
  "allowedInExtension m \<Longrightarrow>
   \<exists>IGM1. emitExtensionMember m IGM = Inr IGM1 \<and>
          ObjCCategories IGM1 = ObjCCategories IGM \<and>
          ObjCCategoryDecls IGM1 = ObjCCategoryDecls IGM \<and>
          filter isEmitCategoryData (Emitted IGM1) = filter isEmitCategoryData (Emitted IGM)"
  by (cases "declKind m")
     (auto simp: allowedInExtension_def emitExtensionMember_def recordCall_def)

lemma emitExtensionMembers_allowed:
  "\<forall>m \<in> set ms. allowedInExtension m \<Longrightarrow>
   \<exists>IGM1. emitExtensionMembers ms IGM = Inr IGM1 \<and>
          ObjCCategories IGM1 = ObjCCategories IGM \<and>
          ObjCCategoryDecls IGM1 = ObjCCategoryDecls IGM \<and>
          filter isEmitCategoryData (Emitted IGM1) = filter isEmitCategoryData (Emitted IGM)"
proof (induction ms arbitrary: IGM)
  case Nil
  then show ?case by simp
next
  case (Cons m ms)
  then obtain IGM1 where m: "emitExtensionMember m IGM = Inr IGM1"
    and keep: "ObjCCategories IGM1 = ObjCCategories IGM"
      "ObjCCategoryDecls IGM1 = ObjCCategoryDecls IGM"
      "filter isEmitCategoryData (Emitted IGM1) = filter isEmitCategoryData (Emitted IGM)"
    using emitExtensionMember_allowed [of m IGM] by auto
  from Cons.IH [of IGM1] Cons.prems obtain IGM2 where
    "emitExtensionMembers ms IGM1 = Inr IGM2" "ObjCCategories IGM2 = ObjCCategories IGM1"
    "ObjCCategoryDecls IGM2 = ObjCCategoryDecls IGM1"
    "filter isEmitCategoryData (Emitted IGM2) = filter isEmitCategoryData (Emitted IGM1)"
    by auto
  with m keep show ?case by simp
qed

lemma protocolsRequireCategory_zip:
  "length ps \<le> length cs \<Longrightarrow>
   protocolsRequireCategory ps cs =
     Inr (\<exists>pc \<in> set (zip ps cs). protocolExtensionRequiresCategory (fst pc) (snd pc))"
  by (induction ps cs rule: protocolsRequireCategory.induct) auto


lemma memberRequiresCategory_kinds:
  "memberRequiresCategory m =
     ((declKind m = Func \<or> declKind m = DeclKind.Constructor) \<and> requiresObjCMethodDescriptor m
      \<or> declKind m = Var \<and> requiresObjCPropertyDescriptor m
      \<or> declKind m = Subscript \<and> requiresObjCSubscriptDescriptor m)"
  by (auto simp: memberRequiresCategory_def)

text \<open>
  C7.  Let the extension extend a class, let its members be members that an extension may
  have and let every protocol of the extension have its conformance.  Then
  \<open>emitExtension\<close> returns, and it appends exactly one category (to the category list, to
  the list of category declarations, with one call of \<open>emitCategoryData\<close>) if the extended
  class is an Objective-C class, or a protocol of the extension conforms to an Objective-C
  protocol directly or through inherited conformances, or a function, constructor, property
  or subscript among its members requires an Objective-C descriptor; otherwise it leaves
  the two lists as they are and does not call \<open>emitCategoryData\<close>.
\<close>

theorem emitExtension_category_iff:
  assumes cls: "getClassOrBoundGenericClass ext = Some origClass"
    and mem: "\<forall>m \<in> set (getMembers ext). allowedInExtension m"
    and len: "length (getProtocols ext) \<le> length (getConformances ext)"
  shows "\<exists>IGM'. emitExtension IGM ext = Inr IGM' \<and>
     (if isObjC origClass
         \<or> (\<exists>pc \<in> set (zip (getProtocols ext) (getConformances ext)).
               conformsToObjCProtocol (fst pc) (snd pc))
         \<or> (\<exists>m \<in> set (getMembers ext).
               (declKind m = Func \<or> declKind m = DeclKind.Constructor)
                 \<and> requiresObjCMethodDescriptor m
               \<or> declKind m = Var \<and> requiresObjCPropertyDescriptor m
               \<or> declKind m = Subscript \<and> requiresObjCSubscriptDescriptor m)
      then ObjCCategories IGM' =
             ObjCCategories IGM @ [BitCast (Opaque ''category_data'' (extensionId ext)) Int8PtrTy]
         \<and> ObjCCategoryDecls IGM' = ObjCCategoryDecls IGM @ [ext]
         \<and> filter isEmitCategoryData (Emitted IGM') =
             filter isEmitCategoryData (Emitted IGM) @ [EmitCategoryData (extensionId ext)]
      else ObjCCategories IGM' = ObjCCategories IGM
         \<and> ObjCCategoryDecls IGM' = ObjCCategoryDecls IGM
         \<and> filter isEmitCategoryData (Emitted IGM') = filter isEmitCategoryData (Emitted IGM))"
proof -
  from emitExtensionMembers_allowed [OF mem, of IGM] obtain IGM1 where
    members: "emitExtensionMembers (getMembers ext) IGM = Inr IGM1"
    and keep: "ObjCCategories IGM1 = ObjCCategories IGM"
      "ObjCCategoryDecls IGM1 = ObjCCategoryDecls IGM"
      "filter isEmitCategoryData (Emitted IGM1) = filter isEmitCategoryData (Emitted IGM)"
    by blast
  have protos: "protocolsRequireCategory (getProtocols ext) (getConformances ext) =
      Inr (\<exists>pc \<in> set (zip (getProtocols ext) (getConformances ext)).
             conformsToObjCProtocol (fst pc) (snd pc))"
    using protocolsRequireCategory_zip [OF len]
    by (simp add: protocolExtensionRequiresCategory_iff)
  have mems: "list_ex memberRequiresCategory (getMembers ext) =
      (\<exists>m \<in> set (getMembers ext).
         (declKind m = Func \<or> declKind m = DeclKind.Constructor)
           \<and> requiresObjCMethodDescriptor m
         \<or> declKind m = Var \<and> requiresObjCPropertyDescriptor m
         \<or> declKind m = Subscript \<and> requiresObjCSubscriptDescriptor m)"
    by (simp add: list_ex_iff memberRequiresCategory_kinds)
  show ?thesis
    unfolding emitExtension_def
    by (simp add: members cls protos mems keep Let_def emitCategoryData_def recordCall_def
          getBitCast_def) blast
qed

text \<open>
  An extension of a plain class that conforms to a protocol refining an Objective-C
  protocol gets its category.
\<close>

theorem emitExtension_category_iff_witness:
  "\<exists>IGM'. emitExtension (initialIGM True False)
            (conformingExtension (fileLevelDecl 2 Protocol False)
               (ProtocolConformance
                  [(fileLevelDecl 3 Protocol True, ProtocolConformance [])])) = Inr IGM'
     \<and> ObjCCategories IGM' = [BitCast (Opaque ''category_data'' 7) Int8PtrTy]
     \<and> ObjCCategoryDecls IGM' =
         [conformingExtension (fileLevelDecl 2 Protocol False)
            (ProtocolConformance [(fileLevelDecl 3 Protocol True, ProtocolConformance [])])]"
proof -
  let ?c = "ProtocolConformance [(fileLevelDecl 3 Protocol True, ProtocolConformance [])]"
  let ?ext = "conformingExtension (fileLevelDecl 2 Protocol False) ?c"
  have "conformsToObjCProtocol (fileLevelDecl 3 Protocol True) (ProtocolConformance [])"
    by (rule conformsToObjCProtocol.direct) (simp add: fileLevelDecl_def)
  then have reach: "conformsToObjCProtocol (fileLevelDecl 2 Protocol False) ?c"
    by (rule conformsToObjCProtocol.inherited [rotated]) simp
  have cls: "getClassOrBoundGenericClass ?ext = Some (fileLevelDecl 1 Class False)"
    and mem: "\<forall>m \<in> set (getMembers ?ext). allowedInExtension m"
    and len: "length (getProtocols ?ext) \<le> length (getConformances ?ext)"
    by (simp_all add: conformingExtension_def)
  from emitExtension_category_iff [OF cls mem len, of "initialIGM True False"] reach
  show ?thesis
    by (simp add: conformingExtension_def initialIGM_def) blast
qed

subsection \<open>Metadata addressing\<close>

lemma LinkInfo_get_total: "\<exists>link. LinkInfo_get L entity = Some link \<and> Name link = mangle L entity"
proof (cases "isLocalLinkage entity")
  case True
  then show ?thesis by (simp add: LinkInfo_get_def)
next
  case False
  then obtain b where "isThunk entity = Some b"
    using isThunk_nonlocal by blast
  with False show ?thesis by (cases b) (simp_all add: LinkInfo_get_def)
qed

lemma isPointerTo_global: "isPointerTo (getPointerType g) ty = Some (getValueType g = ty)"
  by (simp add: getPointerType_def)

lemma createVariable_returns: "\<exists>var IGM1. createVariable link IGM ty = Inr (var, IGM1)"
  by (simp add: createVariable_def Let_def isPointerTo_global split: option.split)

lemma createFunction_returns: "\<exists>fn IGM1. createFunction link IGM ty cc attrs = Inr (fn, IGM1)"
  by (simp add: createFunction_def Let_def isPointerTo_global split: option.split bool.split)

lemma createLLVMVariable_returns:
  "\<exists>var IGM1. createLLVMVariable L IGM entity entry ty pty = Inr (GlobalRef var, IGM1)"
proof -
  obtain link where "LinkInfo_get L entity = Some link"
    using LinkInfo_get_total by blast
  moreover obtain var IGM1 where "createVariable link IGM ty = Inr (var, IGM1)"
    using createVariable_returns by blast
  ultimately show ?thesis
    by (simp add: createLLVMVariable_def Let_def)
qed

lemma getAddrOfLLVMVariable_use_returns:
  "\<exists>addr IGM1. getAddrOfLLVMVariable L IGM entity None dty pty = Inr (addr, IGM1)"
  using createLLVMVariable_returns [of L IGM entity None dty pty]
  by (auto simp: getAddrOfLLVMVariable_def split: option.split)

lemma metadataLayout_adjustment:
  "fst (snd (snd (metadataLayout concreteType isIndirect isPattern))) =
     (if isPattern \<or> isIndirect then 0
      else case isaClassType concreteType of
             Some D \<Rightarrow> if hasKnownSwiftMetadata D then 2 else 0
           | None \<Rightarrow> if isaBoundGenericClassType concreteType then 2 else 1)"
  by (auto simp: metadataLayout_def Let_def split: option.split)


text \<open>
  C6.  The word adjustment is 0 for a pattern, 0 for indirect metadata, 0 for an
  Objective-C class (a class type without known Swift metadata), 2 for the direct metadata
  of any other class type or bound generic class type, and 1 for all other direct
  metadata.  Without a storage type the call returns, and its result is the storage
  address obtained from \<open>getAddrOfLLVMVariable\<close>, as it is when the adjustment is 0 and
  otherwise as the in-bounds element access at indices 0 and the adjustment.  With a
  storage type the result is that of \<open>getAddrOfLLVMVariable\<close>, unadjusted.
\<close>

theorem getAddrOfTypeMetadata_address_point:
  assumes "isPattern \<or> \<not> isaUnboundGenericType concreteType"
  shows "(let (defaultVarTy, defaultVarPtrTy, adjustmentIndex, ObjCClass) =
                metadataLayout concreteType isIndirect isPattern;
              entity = (case ObjCClass of
                          Some theClass \<Rightarrow> forObjCClass theClass
                        | None \<Rightarrow> forTypeMetadata concreteType isIndirect isPattern)
          in adjustmentIndex =
               (if isPattern \<or> isIndirect then 0
                else case isaClassType concreteType of
                       Some D \<Rightarrow> if hasKnownSwiftMetadata D then 2 else 0
                     | None \<Rightarrow> if isaBoundGenericClassType concreteType then 2 else 1)
           \<and> (\<exists>raw IGM1.
                 getAddrOfLLVMVariable L IGM entity None defaultVarTy defaultVarPtrTy =
                   Inr (raw, IGM1)
               \<and> getAddrOfTypeMetadata L IGM concreteType isIndirect isPattern None =
                   Inr (if adjustmentIndex = 0 then raw
                        else InBoundsGEP raw
                               [ConstantInt Int32Ty 0, ConstantInt Int32Ty adjustmentIndex],
                        IGM1))
           \<and> (\<forall>ty. getAddrOfTypeMetadata L IGM concreteType isIndirect isPattern (Some ty) =
                     getAddrOfLLVMVariable L IGM entity (Some ty) defaultVarTy
                       defaultVarPtrTy))"
proof -
  obtain dty pty adj cls where
    layout: "metadataLayout concreteType isIndirect isPattern = (dty, pty, adj, cls)"
    by (cases "metadataLayout concreteType isIndirect isPattern") auto
  define entity where "entity =
    (case cls of Some theClass \<Rightarrow> forObjCClass theClass
     | None \<Rightarrow> forTypeMetadata concreteType isIndirect isPattern)"
  have adj: "adj =
      (if isPattern \<or> isIndirect then 0
       else case isaClassType concreteType of
              Some D \<Rightarrow> if hasKnownSwiftMetadata D then 2 else 0
            | None \<Rightarrow> if isaBoundGenericClassType concreteType then 2 else 1)"
    using metadataLayout_adjustment [of concreteType isIndirect isPattern]
    by (simp add: layout)
  obtain raw IGM1 where
    raw: "getAddrOfLLVMVariable L IGM entity None dty pty = Inr (raw, IGM1)"
    using getAddrOfLLVMVariable_use_returns by blast
  have use: "getAddrOfTypeMetadata L IGM concreteType isIndirect isPattern None =
      Inr (if adj = 0 then raw
           else InBoundsGEP raw [ConstantInt Int32Ty 0, ConstantInt Int32Ty adj], IGM1)"
    using assms raw
    by (simp add: getAddrOfTypeMetadata_def layout entity_def [symmetric]
          getInBoundsGetElementPtr_def)
  have def: "getAddrOfTypeMetadata L IGM concreteType isIndirect isPattern (Some ty) =
      getAddrOfLLVMVariable L IGM entity (Some ty) dty pty" for ty
    using assms
    by (simp add: getAddrOfTypeMetadata_def layout entity_def [symmetric]
          split: sum.split)
  from adj raw use def show ?thesis
    by (simp add: layout entity_def [symmetric])
qed

text \<open>The direct metadata of a Swift class is addressed two words into its storage.\<close>

theorem getAddrOfTypeMetadata_address_point_witness:
  "\<exists>raw IGM1.
     getAddrOfTypeMetadata \<lparr>mangle = (\<lambda>e. ''_TMdC1A''), isValueWitness = (\<lambda>e. False)\<rparr>
       (initialIGM False False) (NominalType (fileLevelDecl 1 Class False) []) False False None
     = Inr (InBoundsGEP raw [ConstantInt Int32Ty 0, ConstantInt Int32Ty 2], IGM1)"
proof -
  have "False \<or> \<not> isaUnboundGenericType (NominalType (fileLevelDecl 1 Class False) [])"
    by (simp add: isaUnboundGenericType_def)
  from getAddrOfTypeMetadata_address_point [OF this, of False
      "\<lparr>mangle = (\<lambda>e. ''_TMdC1A''), isValueWitness = (\<lambda>e. False)\<rparr>" "initialIGM False False"]
  show ?thesis
    by (auto simp: metadataLayout_def isaClassType_def isaBoundGenericClassType_def
          fileLevelDecl_def Let_def)
qed

subsection \<open>Global strings\<close>

text \<open>
  C10.  In a well-formed state, a call of \<open>getAddrOfGlobalString\<close> followed by a call with the same string returns
  the same constant the second time and leaves the state of the first call unchanged, for
  every string.  If the string was not cached, the first call adds exactly one global to
  the module: an unnamed constant variable of private linkage with the unnamed-address
  flag, initialized with the bytes of the string followed by a null byte; and the constant
  returned is the in-bounds element access at indices 0, 0 of that variable.
\<close>

lemma updateValue_fresh:
  "\<forall>g \<in> set M. valueId g < n \<Longrightarrow> updateValue n f (M @ [g']) = M @ updateValue n f [g']"
  by (induction M) (auto simp: updateValue_def)

theorem getAddrOfGlobalString_idempotent:
  "wellFormedModule IGM \<Longrightarrow>
   (case getAddrOfGlobalString IGM data of
      (address, IGM1) \<Rightarrow>
        getAddrOfGlobalString IGM1 data = (address, IGM1)
        \<and> (GlobalStrings IGM data = None \<longrightarrow>
             address = InBoundsGEP (GlobalRef (nextValueId IGM))
                         [ConstantInt SizeTy 0, ConstantInt SizeTy 0]
           \<and> LLVMModule IGM1 = LLVMModule IGM @
                [\<lparr>valueId = nextValueId IGM, getName = [], globalKind = GlobalVariableGV,
                  getValueType = ArrayTy (IntegerTy 8) (length data + 1),
                  getLinkage = PrivateLinkage, getVisibility = DefaultVisibility,
                  getCallingConv = 0, getAttributes = [], isConstant = True,
                  getInitializer = Some (ConstantDataArray (data @ [CHR 0x00])),
                  hasUnnamedAddr = True, getAlignment = 0, blocks = []\<rparr>]))"
proof (cases "GlobalStrings IGM data")
  assume wf: "wellFormedModule IGM"
  case None
  from wf have fresh: "\<forall>g \<in> set (LLVMModule IGM). valueId g < nextValueId IGM"
    by (simp add: wellFormedModule_def)
  from None show ?thesis
    by (simp add: getAddrOfGlobalString_def Let_def new_GlobalVariable_def insertGlobal_def
          updateValue_fresh [OF fresh] uniqueName_def getInBoundsGetElementPtr_def
          ConstantDataArray_getString_def typeOfString_def)
       (simp add: updateValue_def)
next
  case (Some entry)
  then show ?thesis
    by (simp add: getAddrOfGlobalString_def)
qed

text \<open>A string with an embedded null byte, requested twice on the empty module.\<close>

theorem getAddrOfGlobalString_idempotent_witness:
  "getAddrOfGlobalString (snd (getAddrOfGlobalString (initialIGM False False) [CHR ''a'', CHR 0x00, CHR ''b'']))
     [CHR ''a'', CHR 0x00, CHR ''b'']
   = getAddrOfGlobalString (initialIGM False False) [CHR ''a'', CHR 0x00, CHR ''b'']
   \<and> fst (getAddrOfGlobalString (initialIGM False False) [CHR ''a'', CHR 0x00, CHR ''b''])
     = InBoundsGEP (GlobalRef 0) [ConstantInt SizeTy 0, ConstantInt SizeTy 0]"
proof -
  have "wellFormedModule (initialIGM False False)"
    by (simp add: wellFormedModule_def initialIGM_def)
  from getAddrOfGlobalString_idempotent [OF this, of "[CHR ''a'', CHR 0x00, CHR ''b'']"]
  show ?thesis
    by (auto simp: initialIGM_def split: prod.splits)
qed

subsection \<open>Name collisions\<close>


lemma searchUnique_prefix: "\<exists>sfx. searchUnique taken base k fuel = base @ sfx"
  by (induction fuel arbitrary: k) auto

lemma uniqueName_prefix: "\<exists>sfx. uniqueName M name = name @ sfx"
  using searchUnique_prefix [of "map getName M" name 1 "length M"]
  by (auto simp: uniqueName_def)




lemma decimal_nonempty: "decimal k \<noteq> []"
  by (subst decimal.simps) (simp del: decimal.simps)

lemma setName_ids: "map valueId (setName i name M) = map valueId M"
  unfolding setName_def by (induction M) auto


lemma getNamedValue_SomeD:
  "getNamedValue M name = Some e \<Longrightarrow> e \<in> set M \<and> getName e = name \<and> name \<noteq> []"
  unfolding getNamedValue_def
  by (cases "name = []") (auto simp: find_Some_iff in_set_conv_nth)



lemma getNamedGlobal_SomeD:
  "getNamedGlobal M name = Some e \<Longrightarrow>
   getNamedValue M name = Some e \<and> globalKind e = GlobalVariableGV"
  by (auto simp: getNamedGlobal_def split: option.splits if_splits)





























subsection \<open>Module states and their continuation\<close>

lemma updateValue_ids:
  "(\<And>g. valueId (f g) = valueId g) \<Longrightarrow> map valueId (updateValue i f M) = map valueId M"
  unfolding updateValue_def by (induction M) auto

lemma setName_kept: "g \<in> set M \<Longrightarrow> valueId g \<noteq> i \<Longrightarrow> g \<in> set (setName i n M)"
  unfolding setName_def by (induction M) auto

lemma updateValue_kept: "g \<in> set M \<Longrightarrow> valueId g \<noteq> i \<Longrightarrow> g \<in> set (updateValue i f M)"
  unfolding updateValue_def by (induction M) auto

lemma updateValue_hit:
  "i \<in> valueId ` set M \<Longrightarrow> (\<And>g. valueId (f g) = valueId g) \<Longrightarrow>
   \<exists>g \<in> set M. valueId g = i \<and> f g \<in> set (updateValue i f M)"
  unfolding updateValue_def by (induction M) auto


lemma lookupValue_SomeD: "lookupValue M i = Some g \<Longrightarrow> g \<in> set M \<and> valueId g = i"
  unfolding lookupValue_def by (induction M) (auto split: if_splits)

lemma lookupValue_None: "i \<notin> valueId ` set M \<Longrightarrow> lookupValue M i = None"
  unfolding lookupValue_def by (induction M) auto

lemma wellFormedModule_distinct: "wellFormedModule IGM \<Longrightarrow> distinct (map valueId (LLVMModule IGM))"
  by (simp add: wellFormedModule_def)


lemma wellFormedModule_ids:
  assumes ids: "map valueId (LLVMModule B) = map valueId (LLVMModule A)"
    and nx: "nextValueId B = nextValueId A" and wf: "wellFormedModule A"
  shows "wellFormedModule B"
proof -
  from wf have d: "distinct (map valueId (LLVMModule A))"
    and f: "\<forall>h \<in> set (LLVMModule A). valueId h < nextValueId A"
    by (simp_all add: wellFormedModule_def)
  have "set (map valueId (LLVMModule B)) = set (map valueId (LLVMModule A))"
    by (simp only: ids)
  then have im: "valueId ` set (LLVMModule B) = valueId ` set (LLVMModule A)" by simp
  have "valueId g < nextValueId B" if "g \<in> set (LLVMModule B)" for g
  proof -
    from that have "valueId g \<in> valueId ` set (LLVMModule B)" by (rule imageI)
    then have "valueId g \<in> valueId ` set (LLVMModule A)" by (simp only: im)
    then obtain h where "h \<in> set (LLVMModule A)" "valueId g = valueId h" by (rule imageE)
    with f nx show ?thesis by simp
  qed
  moreover from d have "distinct (map valueId (LLVMModule B))" by (simp only: ids)
  ultimately show ?thesis by (simp add: wellFormedModule_def)
qed

lemma insertGlobal_result:
  "insertGlobal g IGM =
     (nextValueId IGM,
      IGM\<lparr>LLVMModule := LLVMModule IGM @
             [g\<lparr>valueId := nextValueId IGM,
                getName := uniqueName (LLVMModule IGM) (getName g)\<rparr>],
          nextValueId := Suc (nextValueId IGM)\<rparr>)"
  by (simp add: insertGlobal_def)

lemma wellFormedModule_append:
  assumes "wellFormedModule A"
    and "LLVMModule B = LLVMModule A @ [g]" and "valueId g = nextValueId A"
    and "nextValueId B = Suc (nextValueId A)"
  shows "wellFormedModule B"
proof -
  from assms(1) have d: "distinct (map valueId (LLVMModule A))"
    and f: "\<forall>h \<in> set (LLVMModule A). valueId h < nextValueId A"
    by (simp_all add: wellFormedModule_def)
  from f have "nextValueId A \<notin> valueId ` set (LLVMModule A)" by auto
  with d f assms(2-4) show ?thesis
    by (auto simp: wellFormedModule_def less_Suc_eq)
qed

lemma sameSettings_refl: "sameSettings A A"
  by (simp add: sameSettings_def)

lemma sameSettings_trans: "sameSettings A B \<Longrightarrow> sameSettings B C \<Longrightarrow> sameSettings A C"
  by (simp add: sameSettings_def)

lemma continues_refl: "continues A A"
  by (simp add: continues_def sameSettings_refl)

lemma continues_trans: "continues A B \<Longrightarrow> continues B C \<Longrightarrow> continues A C"
  unfolding continues_def using sameSettings_trans by (meson le_trans)

lemma keepingFunctions_refl: "keepingFunctions A A"
  by (simp add: keepingFunctions_def sameSettings_refl)

lemma keepingFunctions_trans:
  "keepingFunctions A B \<Longrightarrow> keepingFunctions B C \<Longrightarrow> keepingFunctions A C"
  unfolding keepingFunctions_def using sameSettings_trans by (meson le_trans)

lemma keepingFunctions_continues: "keepingFunctions A B \<Longrightarrow> continues A B"
  by (simp add: keepingFunctions_def continues_def)

lemma same_id_same_value:
  "distinct (map valueId M) \<Longrightarrow> g \<in> set M \<Longrightarrow> h \<in> set M \<Longrightarrow> valueId g = valueId h \<Longrightarrow> g = h"
  by (meson distinct_map inj_onD)

text \<open>A renaming of one value: a step that keeps every other value.\<close>

lemma rename_keepingFunctions:
  assumes M: "LLVMModule B = setName i name (LLVMModule A)"
    and rest: "nextValueId B = nextValueId A" "sameSettings A B"
    and target: "\<And>g. g \<in> set (LLVMModule A) \<Longrightarrow> valueId g = i \<Longrightarrow> globalKind g \<noteq> FunctionGV"
  shows "keepingFunctions A B"
proof -
  have ids: "map valueId (LLVMModule B) = map valueId (LLVMModule A)"
    by (simp only: M setName_ids)
  have kept: "g \<in> set (LLVMModule B)"
    if "g \<in> set (LLVMModule A)" "globalKind g = FunctionGV" for g
  proof -
    from that target have "valueId g \<noteq> i" by blast
    with that(1) show ?thesis unfolding M by (rule setName_kept)
  qed
  from wellFormedModule_ids [OF ids rest(1)] kept rest show ?thesis
    by (simp add: keepingFunctions_def)
qed

lemma rename_continues:
  assumes M: "LLVMModule B = setName i name (LLVMModule A)"
    and rest: "nextValueId B = nextValueId A" "sameSettings A B"
    and target: "\<And>g. g \<in> set (LLVMModule A) \<Longrightarrow> valueId g = i \<Longrightarrow> hasLocalLinkage g"
  shows "continues A B"
proof -
  have ids: "map valueId (LLVMModule B) = map valueId (LLVMModule A)"
    by (simp only: M setName_ids)
  have kept: "g \<in> set (LLVMModule B)"
    if "g \<in> set (LLVMModule A)" "\<not> hasLocalLinkage g" for g
  proof -
    from that target have "valueId g \<noteq> i" by blast
    with that(1) show ?thesis unfolding M by (rule setName_kept)
  qed
  from wellFormedModule_ids [OF ids rest(1)] kept rest show ?thesis
    by (simp add: continues_def)
qed

text \<open>The insertion of a new value.\<close>

lemma insertGlobal_keepingFunctions:
  "insertGlobal g A = (i, B) \<Longrightarrow> keepingFunctions A B \<and> i = nextValueId A"
proof -
  assume "insertGlobal g A = (i, B)"
  then have "(nextValueId A,
      A\<lparr>LLVMModule := LLVMModule A @
             [g\<lparr>valueId := nextValueId A,
                getName := uniqueName (LLVMModule A) (getName g)\<rparr>],
          nextValueId := Suc (nextValueId A)\<rparr>) = (i, B)"
    by (simp only: insertGlobal_result)
  then have i: "i = nextValueId A"
    and B: "B = A\<lparr>LLVMModule := LLVMModule A @
             [g\<lparr>valueId := nextValueId A,
                getName := uniqueName (LLVMModule A) (getName g)\<rparr>],
          nextValueId := Suc (nextValueId A)\<rparr>"
    by auto
  have "wellFormedModule B" if "wellFormedModule A"
  proof (rule wellFormedModule_append [OF that])
    show "LLVMModule B = LLVMModule A @
        [g\<lparr>valueId := nextValueId A, getName := uniqueName (LLVMModule A) (getName g)\<rparr>]"
      by (simp add: B)
    show "valueId (g\<lparr>valueId := nextValueId A,
        getName := uniqueName (LLVMModule A) (getName g)\<rparr>) = nextValueId A"
      by simp
    show "nextValueId B = Suc (nextValueId A)" by (simp add: B)
  qed
  moreover have "sameSettings A B" by (simp add: sameSettings_def B)
  moreover have "nextValueId A \<le> nextValueId B" by (simp add: B)
  moreover have "set (LLVMModule A) \<subseteq> set (LLVMModule B)" by (auto simp: B)
  ultimately show ?thesis using i
    by (auto simp: keepingFunctions_def)
qed

lemma Function_Create_keepingFunctions:
  "Function_Create ty l n A = (i, B) \<Longrightarrow> keepingFunctions A B \<and> i = nextValueId A"
  unfolding Function_Create_def by (rule insertGlobal_keepingFunctions)

lemma new_GlobalVariable_keepingFunctions:
  "new_GlobalVariable ty c l init n A = (i, B) \<Longrightarrow> keepingFunctions A B \<and> i = nextValueId A"
  unfolding new_GlobalVariable_def by (rule insertGlobal_keepingFunctions)

lemma setName_elem:
  "g \<in> set (setName i n M) \<Longrightarrow>
   \<exists>h \<in> set M. valueId h = valueId g \<and> getLinkage h = getLinkage g \<and>
                globalKind h = globalKind g"
  unfolding setName_def by (induction M) (auto split: if_splits)

lemma rename_continues_wf:
  assumes M: "LLVMModule B = setName i name (LLVMModule A)"
    and rest: "nextValueId B = nextValueId A" "sameSettings A B"
    and target: "\<And>g. wellFormedModule A \<Longrightarrow> g \<in> set (LLVMModule A) \<Longrightarrow> valueId g = i \<Longrightarrow>
                 hasLocalLinkage g"
  shows "continues A B"
proof -
  have ids: "map valueId (LLVMModule B) = map valueId (LLVMModule A)"
    by (simp only: M setName_ids)
  have kept: "g \<in> set (LLVMModule B)"
    if "wellFormedModule A" "g \<in> set (LLVMModule A)" "\<not> hasLocalLinkage g" for g
  proof -
    from that target have "valueId g \<noteq> i" by blast
    with that(2) show ?thesis unfolding M by (rule setName_kept)
  qed
  from wellFormedModule_ids [OF ids rest(1)] kept rest show ?thesis
    by (simp add: continues_def)
qed

lemma getOrInsertFunction_continues:
  assumes "getOrInsertFunction name ty A = (c, B)"
  shows "continues A B"
proof (cases "getNamedValue (LLVMModule A) name")
  case None
  obtain new A1 where fc: "Function_Create ty ExternalLinkage name A = (new, A1)"
    by (cases "Function_Create ty ExternalLinkage name A")
  with assms None have "B = A1"
    by (simp add: getOrInsertFunction_def)
  with Function_Create_keepingFunctions [OF fc] show ?thesis
    by (simp add: keepingFunctions_continues)
next
  case (Some F)
  then have F: "F \<in> set (LLVMModule A)"
    by (auto simp: getNamedValue_def find_Some_iff split: if_splits)
  show ?thesis
  proof (cases "hasLocalLinkage F")
    case False
    with assms Some have "B = A"
      by (simp add: getOrInsertFunction_def split: if_splits)
    then show ?thesis by (simp add: continues_refl)
  next
    case True
    define A1 where "A1 = A\<lparr>LLVMModule := setName (valueId F) [] (LLVMModule A)\<rparr>"
    obtain new A2 where fc: "Function_Create ty ExternalLinkage name A1 = (new, A2)"
      by (cases "Function_Create ty ExternalLinkage name A1")
    define A3 where "A3 = A2\<lparr>LLVMModule := setName (valueId F) name (LLVMModule A2)\<rparr>"
    from assms Some True fc have B: "B = A3"
      by (simp add: getOrInsertFunction_def A1_def [symmetric] A3_def)
    have local: "hasLocalLinkage g"
      if "wellFormedModule A" "g \<in> set (LLVMModule A)" "valueId g = valueId F" for g
      using same_id_same_value [OF wellFormedModule_distinct [OF that(1)] that(2) F that(3)] True
      by simp
    have s1: "continues A A1"
      by (rule rename_continues_wf [where i = "valueId F" and name = "[]"])
         (simp_all add: A1_def sameSettings_def local)
    from Function_Create_keepingFunctions [OF fc] have s2: "continues A1 A2"
      and new: "new = nextValueId A1"
      by (simp_all add: keepingFunctions_continues)
    have s3: "continues A2 A3"
    proof (rule rename_continues_wf [where i = "valueId F" and name = name])
      show "LLVMModule A3 = setName (valueId F) name (LLVMModule A2)"
        by (simp add: A3_def)
      show "nextValueId A3 = nextValueId A2" by (simp add: A3_def)
      show "sameSettings A2 A3" by (simp add: A3_def sameSettings_def)
      fix g
      assume wf2: "wellFormedModule A2" and g: "g \<in> set (LLVMModule A2)"
        and id: "valueId g = valueId F"
      from fc have A2: "LLVMModule A2 = LLVMModule A1 @
          [\<lparr>valueId = nextValueId A1, getName = uniqueName (LLVMModule A1) name,
            globalKind = FunctionGV, getValueType = ty,
            getLinkage = ExternalLinkage, getVisibility = DefaultVisibility,
            getCallingConv = 0, getAttributes = [], isConstant = False,
            getInitializer = None, hasUnnamedAddr = False, getAlignment = 0, blocks = []\<rparr>]"
        by (auto simp: Function_Create_def insertGlobal_def)
      have "valueId F \<in> set (map valueId (LLVMModule A1))"
        using F by (simp add: A1_def setName_ids)
      moreover from wf2 have "distinct (map valueId (LLVMModule A2))"
        by (rule wellFormedModule_distinct)
      ultimately have "valueId F \<noteq> nextValueId A1"
        by (auto simp: A2)
      with g id have "g \<in> set (LLVMModule A1)"
        by (auto simp: A2)
      then have "g \<in> set (setName (valueId F) [] (LLVMModule A))"
        by (simp add: A1_def)
      from setName_elem [OF this] obtain h where h: "h \<in> set (LLVMModule A)"
        "valueId h = valueId g" "getLinkage h = getLinkage g" by blast
      from wf2 have "distinct (map valueId (LLVMModule A))"
        by (simp add: A2 A1_def setName_ids wellFormedModule_def)
      from same_id_same_value [OF this h(1) F] h(2) id have "h = F" by simp
      with True h(3) show "hasLocalLinkage g"
        by (simp add: hasLocalLinkage_def)
    qed
    from s1 s2 s3 B show ?thesis
      by (blast intro: continues_trans)
  qed
qed

lemma emitArgumentStore_result:
  assumes "emitArgumentStore parameter parameterType accessorName (b, A) = (b', B)"
  shows "continues A B \<and>
         (\<exists>accessor. b' = b @ [Call (ConstantV accessor) [],
                                BitCastInst (InstructionV (length b)) (PointerTy parameterType),
                                Store (ArgumentV parameter) (InstructionV (Suc (length b)))])"
proof -
  obtain accessor A1 where
    g: "getOrInsertFunction accessorName (FunctionTy Int8PtrTy [] False) A = (accessor, A1)"
    by (cases "getOrInsertFunction accessorName (FunctionTy Int8PtrTy [] False) A")
  with assms have "B = A1"
    and "b' = b @ [Call (ConstantV accessor) [],
                   BitCastInst (InstructionV (length b)) (PointerTy parameterType),
                   Store (ArgumentV parameter) (InstructionV (Suc (length b)))]"
    by (simp_all add: emitArgumentStore_def emitInstruction_def)
  with getOrInsertFunction_continues [OF g] show ?thesis by blast
qed

lemma same_module_keepingFunctions:
  "LLVMModule B = LLVMModule A \<Longrightarrow> nextValueId B = nextValueId A \<Longrightarrow> sameSettings A B \<Longrightarrow>
   keepingFunctions A B"
  by (simp add: keepingFunctions_def wellFormedModule_def)

lemma update_keepingFunctions:
  assumes M: "LLVMModule B = updateValue i f (LLVMModule A)"
    and f: "\<And>g. valueId (f g) = valueId g"
    and rest: "nextValueId B = nextValueId A" "sameSettings A B"
    and target: "\<And>g. wellFormedModule A \<Longrightarrow> g \<in> set (LLVMModule A) \<Longrightarrow> valueId g = i \<Longrightarrow>
                 globalKind g \<noteq> FunctionGV"
  shows "keepingFunctions A B"
proof -
  have ids: "map valueId (LLVMModule B) = map valueId (LLVMModule A)"
    unfolding M by (rule updateValue_ids) (rule f)
  have kept: "g \<in> set (LLVMModule B)"
    if "wellFormedModule A" "g \<in> set (LLVMModule A)" "globalKind g = FunctionGV" for g
  proof -
    from that target have "valueId g \<noteq> i" by blast
    with that(2) show ?thesis unfolding M by (rule updateValue_kept)
  qed
  from wellFormedModule_ids [OF ids rest(1)] kept rest show ?thesis
    by (simp add: keepingFunctions_def)
qed

lemma rename_keepingFunctions_wf:
  assumes M: "LLVMModule B = setName i name (LLVMModule A)"
    and rest: "nextValueId B = nextValueId A" "sameSettings A B"
    and target: "\<And>g. wellFormedModule A \<Longrightarrow> g \<in> set (LLVMModule A) \<Longrightarrow> valueId g = i \<Longrightarrow>
                 globalKind g \<noteq> FunctionGV"
  shows "keepingFunctions A B"
proof -
  have ids: "map valueId (LLVMModule B) = map valueId (LLVMModule A)"
    by (simp only: M setName_ids)
  have kept: "g \<in> set (LLVMModule B)"
    if "wellFormedModule A" "g \<in> set (LLVMModule A)" "globalKind g = FunctionGV" for g
  proof -
    from that target have "valueId g \<noteq> i" by blast
    with that(2) show ?thesis unfolding M by (rule setName_kept)
  qed
  from wellFormedModule_ids [OF ids rest(1)] kept rest show ?thesis
    by (simp add: keepingFunctions_def)
qed

lemma new_value_last:
  assumes wf: "wellFormedModule B" and M: "LLVMModule B = M0 @ [v]"
    and g: "g \<in> set (LLVMModule B)" "valueId g = valueId v"
  shows "g = v"
proof -
  have "v \<in> set (LLVMModule B)" by (simp add: M)
  from same_id_same_value [OF wellFormedModule_distinct [OF wf] g(1) this g(2)]
  show ?thesis .
qed

lemma createVariable_new_keeping:
  assumes "createVariable_new link A ty = (v, B)"
  shows "keepingFunctions A B \<and> v = nextValueId A"
proof -
  obtain var A1 where nv:
    "new_GlobalVariable ty False (Linkage link) None (Name link) A = (var, A1)"
    by (cases "new_GlobalVariable ty False (Linkage link) None (Name link) A")
  from new_GlobalVariable_keepingFunctions [OF nv]
  have k1: "keepingFunctions A A1" and var: "var = nextValueId A" by simp_all
  from assms nv have v: "v = var"
    and B: "B = A1\<lparr>LLVMModule :=
              updateValue var (\<lambda>g. g\<lparr>getVisibility := Visibility link\<rparr>) (LLVMModule A1)\<rparr>"
    by (auto simp: createVariable_new_def)
  from nv have A1: "LLVMModule A1 = LLVMModule A @
      [\<lparr>valueId = nextValueId A, getName = uniqueName (LLVMModule A) (Name link),
        globalKind = GlobalVariableGV, getValueType = ty,
        getLinkage = Linkage link, getVisibility = DefaultVisibility,
        getCallingConv = 0, getAttributes = [], isConstant = False,
        getInitializer = None, hasUnnamedAddr = False, getAlignment = 0, blocks = []\<rparr>]"
    by (auto simp: new_GlobalVariable_def insertGlobal_def)
  have k2: "keepingFunctions A1 B"
  proof (rule update_keepingFunctions
      [where i = var and f = "\<lambda>g. g\<lparr>getVisibility := Visibility link\<rparr>"])
    show "LLVMModule B =
        updateValue var (\<lambda>g. g\<lparr>getVisibility := Visibility link\<rparr>) (LLVMModule A1)"
      by (simp add: B)
    show "nextValueId B = nextValueId A1" by (simp add: B)
    show "sameSettings A1 B" by (simp add: B sameSettings_def)
    show "valueId (g\<lparr>getVisibility := Visibility link\<rparr>) = valueId g" for g :: GlobalValue
      by simp
    fix g
    assume wf: "wellFormedModule A1" and g: "g \<in> set (LLVMModule A1)" "valueId g = var"
    from new_value_last [OF wf A1 g(1)] g(2) var
    show "globalKind g \<noteq> FunctionGV" by simp
  qed
  from keepingFunctions_trans [OF k1 k2] v var show ?thesis by simp
qed

lemma createVariable_keeping:
  assumes "createVariable link A ty = Inr (v, B)"
  shows "keepingFunctions A B"
proof (cases "getNamedGlobal (LLVMModule A) (Name link)")
  case None
  with assms have "createVariable_new link A ty = (v, B)"
    by (simp add: createVariable_def)
  then show ?thesis by (simp add: createVariable_new_keeping)
next
  case (Some existing)
  from getNamedGlobal_SomeD [OF Some] getNamedValue_SomeD
  have ex: "existing \<in> set (LLVMModule A)" "globalKind existing = GlobalVariableGV"
    by blast+
  show ?thesis
  proof (cases "getValueType existing = ty")
    case True
    with assms Some ex have "B = A"
      by (simp add: createVariable_def isPointerTo_global)
    then show ?thesis by (simp add: keepingFunctions_refl)
  next
    case False
    define A1 where "A1 = IGM_error A (SourceLoc None)
        (''program too clever: variable collides with existing symbol '' @ Name link)"
    define A2 where "A2 = A1\<lparr>LLVMModule :=
        setName (valueId existing) (Name link @ ''.unique'') (LLVMModule A1)\<rparr>"
    have "createVariable link A ty = Inr (createVariable_new link A2 ty)"
      unfolding createVariable_def A2_def A1_def
      using Some False by (simp add: isPointerTo_global Let_def)
    with assms have new: "createVariable_new link A2 ty = (v, B)"
      by simp
    have k1: "keepingFunctions A A1"
      by (rule same_module_keepingFunctions)
         (simp_all add: A1_def IGM_error_def sameSettings_def)
    have k2: "keepingFunctions A1 A2"
    proof (rule rename_keepingFunctions_wf
        [where i = "valueId existing" and name = "Name link @ ''.unique''"])
      show "LLVMModule A2 =
          setName (valueId existing) (Name link @ ''.unique'') (LLVMModule A1)"
        by (simp add: A2_def)
      show "nextValueId A2 = nextValueId A1" by (simp add: A2_def)
      show "sameSettings A1 A2" by (simp add: A2_def sameSettings_def)
      fix g
      assume wf: "wellFormedModule A1" and g: "g \<in> set (LLVMModule A1)"
        "valueId g = valueId existing"
      have "LLVMModule A1 = LLVMModule A" by (simp add: A1_def IGM_error_def)
      with g ex have "g \<in> set (LLVMModule A)" "existing \<in> set (LLVMModule A1)" by simp_all
      from same_id_same_value [OF wellFormedModule_distinct [OF wf] g(1) this(2) g(2)] ex(2)
      show "globalKind g \<noteq> FunctionGV" by simp
    qed
    from createVariable_new_keeping [OF new] have k3: "keepingFunctions A2 B" by simp
    from k1 k2 k3 show ?thesis by (blast intro: keepingFunctions_trans)
  qed
qed

lemma createLLVMVariable_keeping:
  assumes "createLLVMVariable L A entity None ty pty = Inr (c, B)"
  shows "keepingFunctions A B"
proof -
  obtain link where link: "LinkInfo_get L entity = Some link"
    using LinkInfo_get_total by blast
  obtain var A1 where cv: "createVariable link A ty = Inr (var, A1)"
    using createVariable_returns by blast
  from assms link cv have B: "B = A1\<lparr>GlobalVars := (GlobalVars A1)(entity \<mapsto> var)\<rparr>"
    by (simp add: createLLVMVariable_def)
  have "keepingFunctions A1 B"
    by (rule same_module_keepingFunctions) (simp_all add: B sameSettings_def)
  with createVariable_keeping [OF cv] show ?thesis
    by (blast intro: keepingFunctions_trans)
qed

lemma getAddrOfLLVMVariable_same_type_keeping:
  assumes "getAddrOfLLVMVariable L A entity (Some ty) ty pty = Inr (c, B)"
  shows "keepingFunctions A B"
proof (cases "GlobalVars A entity")
  case None
  with assms have "createLLVMVariable L A entity None ty pty = Inr (c, B)"
    by (simp add: getAddrOfLLVMVariable_def)
  then show ?thesis by (rule createLLVMVariable_keeping)
next
  case (Some entry)
  with assms have "B = A"
    by (simp add: getAddrOfLLVMVariable_def split: option.splits if_splits)
  then show ?thesis by (simp add: keepingFunctions_refl)
qed

lemma getAddrOfMetaclassObject_keeping:
  assumes "getAddrOfMetaclassObject L A decl = Inr (c, B)"
  shows "keepingFunctions A B"
  using assms
  by (auto simp: getAddrOfMetaclassObject_def getAddrOfObjCMetaclass_def
        getAddrOfSwiftMetaclassStub_def
      split: if_splits intro: getAddrOfLLVMVariable_same_type_keeping)

lemma visitCategory_keeping:
  assumes "visitCategory L ext (b, A) = Inr (b', B)"
  shows "keepingFunctions A B"
  using assms
  by (auto simp: visitCategory_def Let_def
      split: option.splits sum.splits intro: getAddrOfMetaclassObject_keeping)

lemma visitCategories_keeping:
  "visitCategories L exts (b, A) = Inr (b', B) \<Longrightarrow> keepingFunctions A B"
proof (induction exts arbitrary: b A)
  case Nil
  then show ?case by (simp add: keepingFunctions_refl)
next
  case (Cons ext exts)
  from Cons.prems obtain b1 A1 where v: "visitCategory L ext (b, A) = Inr (b1, A1)"
    and r: "visitCategories L exts (b1, A1) = Inr (b', B)"
    by (auto split: sum.splits)
  from visitCategory_keeping [OF v] Cons.IH [OF r] show ?case
    by (rule keepingFunctions_trans)
qed

subsection \<open>Synthesized initializers and the entry point\<close>

lemma foldl_emitInstruction:
  "foldl (\<lambda>b x. snd (emitInstruction b (f x))) b0 xs = b0 @ map f xs"
  by (induction xs arbitrary: b0) (simp_all add: emitInstruction_def)

lemma foldl_append_single:
  "foldl (\<lambda>b x. b @ [f x]) b0 xs = b0 @ map f xs"
  by (induction xs arbitrary: b0) simp_all

lemma updateValue_member:
  "g \<in> set M \<Longrightarrow> f g \<in> set (updateValue (valueId g) f M)"
  unfolding updateValue_def by (induction M) auto

lemma uniqueName_take: "take (length name) (uniqueName M name) = name"
proof -
  obtain sfx where "uniqueName M name = name @ sfx"
    using uniqueName_prefix by blast
  then show ?thesis by simp
qed

lemma setBody_keeping_others:
  assumes "g \<in> set (LLVMModule A)" "valueId g \<noteq> fn"
  shows "g \<in> set (LLVMModule (setBody fn body A))"
  using assms by (simp add: setBody_def updateValue_kept)

lemma setBody_member:
  assumes "g \<in> set (LLVMModule A)"
  shows "g\<lparr>blocks := [body]\<rparr> \<in> set (LLVMModule (setBody (valueId g) body A))"
  using updateValue_member [OF assms, of "\<lambda>g. g\<lparr>blocks := [body]\<rparr>"]
  by (simp add: setBody_def)

lemma setBody_wellFormed:
  "wellFormedModule A \<Longrightarrow> wellFormedModule (setBody fn body A)"
proof (rule wellFormedModule_ids)
  show "map valueId (LLVMModule (setBody fn body A)) = map valueId (LLVMModule A)"
    unfolding setBody_def by (simp add: updateValue_ids)
  show "nextValueId (setBody fn body A) = nextValueId A"
    by (simp add: setBody_def)
qed

lemma setBody_fields:
  "nextValueId (setBody fn body A) = nextValueId A"
  "sameSettings A (setBody fn body A)"
  by (simp_all add: setBody_def sameSettings_def)

lemma Function_Create_member:
  assumes "Function_Create ty l n A = (i, B)"
  shows "\<lparr>valueId = nextValueId A, getName = uniqueName (LLVMModule A) n,
          globalKind = FunctionGV, getValueType = ty,
          getLinkage = l, getVisibility = DefaultVisibility,
          getCallingConv = 0, getAttributes = [], isConstant = False,
          getInitializer = None, hasUnnamedAddr = False, getAlignment = 0, blocks = []\<rparr>
         \<in> set (LLVMModule B)"
  using assms by (auto simp: Function_Create_def insertGlobal_def)

lemma fresh_not_member:
  "wellFormedModule A \<Longrightarrow> g \<in> set (LLVMModule A) \<Longrightarrow> valueId g < nextValueId A"
  by (simp add: wellFormedModule_def)

lemma emitObjCClassInitializer_result:
  assumes "emitObjCClassInitializer A classes = (ci, B)"
  shows "keepingFunctions A B \<and> ci = nextValueId A \<and>
         (wellFormedModule A \<longrightarrow>
            (\<exists>cg \<in> set (LLVMModule B). valueId cg = ci \<and> isClassInitializer classes cg))"
proof -
  obtain initFn A1 where fc:
    "Function_Create (FunctionTy VoidTy [] False) InternalLinkage ''_swift_initObjCClasses'' A
       = (initFn, A1)"
    by (cases "Function_Create (FunctionTy VoidTy [] False) InternalLinkage
                 ''_swift_initObjCClasses'' A")
  define body where "body =
     ObjCSelectorRefLoad ''load'' #
         map (\<lambda>c. Call (ConstantV (BitCast getObjCMsgSendFn
                             (PointerTy (FunctionTy VoidTy [ObjCPtrTy, ObjCSELTy] False))))
                     [ConstantV (BitCast c ObjCPtrTy), InstructionV 0]) classes @
         [Ret None]"
  define cg0 where "cg0 =
     \<lparr>valueId = nextValueId A,
      getName = uniqueName (LLVMModule A) ''_swift_initObjCClasses'',
      globalKind = FunctionGV, getValueType = FunctionTy VoidTy [] False,
      getLinkage = InternalLinkage, getVisibility = DefaultVisibility,
      getCallingConv = 0, getAttributes = [], isConstant = False,
      getInitializer = None, hasUnnamedAddr = False, getAlignment = 0, blocks = []\<rparr>"
  from Function_Create_keepingFunctions [OF fc]
  have k1: "keepingFunctions A A1" and i: "initFn = nextValueId A" by simp_all
  from Function_Create_member [OF fc] have m0: "cg0 \<in> set (LLVMModule A1)"
    by (simp add: cg0_def)
  from assms fc have ci: "ci = initFn" and B: "B = setBody initFn body A1"
    by (auto simp: emitObjCClassInitializer_def Let_def emitInstruction_def
          foldl_append_single getBitCast_def body_def)
  have id0: "valueId cg0 = initFn" by (simp add: cg0_def i)
  have keep: "keepingFunctions A B"
    unfolding keepingFunctions_def
  proof (intro conjI impI ballI)
    from k1 show "sameSettings A B"
      by (simp add: keepingFunctions_def B setBody_def sameSettings_def)
    from k1 show "nextValueId A \<le> nextValueId B"
      by (simp add: keepingFunctions_def B setBody_def)
  next
    assume wf: "wellFormedModule A"
    with k1 have "wellFormedModule A1" by (simp add: keepingFunctions_def)
    then show "wellFormedModule B" unfolding B by (rule setBody_wellFormed)
  next
    fix g
    assume wf: "wellFormedModule A" and g: "g \<in> set (LLVMModule A)"
      "globalKind g = FunctionGV"
    with k1 have "g \<in> set (LLVMModule A1)" by (simp add: keepingFunctions_def)
    moreover from fresh_not_member [OF wf g(1)] i have "valueId g \<noteq> initFn" by simp
    ultimately show "g \<in> set (LLVMModule B)"
      unfolding B by (rule setBody_keeping_others)
  qed
  have "cg0\<lparr>blocks := [body]\<rparr> \<in> set (LLVMModule B)"
    using setBody_member [OF m0, of body] by (simp add: B id0)
  moreover have "isClassInitializer classes (cg0\<lparr>blocks := [body]\<rparr>)"
    unfolding isClassInitializer_def
  proof (intro conjI)
    have gn: "getName (cg0\<lparr>blocks := [body]\<rparr>) =
        uniqueName (LLVMModule A) ''_swift_initObjCClasses''"
      by (simp add: cg0_def)
    show "take (length ''_swift_initObjCClasses'') (getName (cg0\<lparr>blocks := [body]\<rparr>)) =
        ''_swift_initObjCClasses''"
      unfolding gn by (rule uniqueName_take)
  qed (simp_all add: cg0_def body_def)
  moreover have "valueId (cg0\<lparr>blocks := [body]\<rparr>) = ci"
    by (simp add: ci id0)
  ultimately have "\<exists>cg \<in> set (LLVMModule B). valueId cg = ci \<and> isClassInitializer classes cg"
    by blast
  with keep ci i show ?thesis by simp
qed

lemma emitObjCCategoryInitializer_result:
  assumes "emitObjCCategoryInitializer L A categories = Inr (ki, B)"
  shows "keepingFunctions A B \<and> ki = nextValueId A \<and>
         (wellFormedModule A \<longrightarrow>
            (\<exists>kg \<in> set (LLVMModule B). valueId kg = ki \<and> isCategoryInitializer kg))"
proof -
  obtain initFn A1 where fc:
    "Function_Create (FunctionTy VoidTy [] False) InternalLinkage ''_swift_initObjCCategories'' A
       = (initFn, A1)"
    by (cases "Function_Create (FunctionTy VoidTy [] False) InternalLinkage
                 ''_swift_initObjCCategories'' A")
  define kg0 where "kg0 =
     \<lparr>valueId = nextValueId A,
      getName = uniqueName (LLVMModule A) ''_swift_initObjCCategories'',
      globalKind = FunctionGV, getValueType = FunctionTy VoidTy [] False,
      getLinkage = InternalLinkage, getVisibility = DefaultVisibility,
      getCallingConv = 0, getAttributes = [], isConstant = False,
      getInitializer = None, hasUnnamedAddr = False, getAlignment = 0, blocks = []\<rparr>"
  from Function_Create_keepingFunctions [OF fc]
  have k1: "keepingFunctions A A1" and i: "initFn = nextValueId A" by simp_all
  from Function_Create_member [OF fc] have m0: "kg0 \<in> set (LLVMModule A1)"
    by (simp add: kg0_def)
  from assms fc obtain b1 A2 where
    vc: "visitCategories L categories ([], A1) = Inr (b1, A2)"
    and ki: "ki = initFn" and B: "B = setBody initFn (b1 @ [Ret None]) A2"
    by (auto simp: emitObjCCategoryInitializer_def Let_def emitInstruction_def
        split: sum.splits)
  from visitCategories_keeping [OF vc] have k2: "keepingFunctions A1 A2" .
  from keepingFunctions_trans [OF k1 k2] have k12: "keepingFunctions A A2" .
  have id0: "valueId kg0 = initFn" by (simp add: kg0_def i)
  have keep: "keepingFunctions A B"
    unfolding keepingFunctions_def
  proof (intro conjI impI ballI)
    from k12 show "sameSettings A B"
      by (simp add: keepingFunctions_def B setBody_def sameSettings_def)
    from k12 show "nextValueId A \<le> nextValueId B"
      by (simp add: keepingFunctions_def B setBody_def)
  next
    assume wf: "wellFormedModule A"
    with k12 have "wellFormedModule A2" by (simp add: keepingFunctions_def)
    then show "wellFormedModule B" unfolding B by (rule setBody_wellFormed)
  next
    fix g
    assume wf: "wellFormedModule A" and g: "g \<in> set (LLVMModule A)"
      "globalKind g = FunctionGV"
    with k12 have "g \<in> set (LLVMModule A2)" by (simp add: keepingFunctions_def)
    moreover from fresh_not_member [OF wf g(1)] i have "valueId g \<noteq> initFn" by simp
    ultimately show "g \<in> set (LLVMModule B)"
      unfolding B by (rule setBody_keeping_others)
  qed
  have "\<exists>kg \<in> set (LLVMModule B). valueId kg = ki \<and> isCategoryInitializer kg"
    if wf: "wellFormedModule A"
  proof -
    from wf k1 have "wellFormedModule A1" by (simp add: keepingFunctions_def)
    with k2 m0 have "kg0 \<in> set (LLVMModule A2)"
      by (simp add: keepingFunctions_def kg0_def)
    from setBody_member [OF this, of "b1 @ [Ret None]"]
    have "kg0\<lparr>blocks := [b1 @ [Ret None]]\<rparr> \<in> set (LLVMModule B)"
      by (simp add: B id0)
    moreover have "isCategoryInitializer (kg0\<lparr>blocks := [b1 @ [Ret None]]\<rparr>)"
      unfolding isCategoryInitializer_def
    proof (intro conjI)
      have gn: "getName (kg0\<lparr>blocks := [b1 @ [Ret None]]\<rparr>) =
          uniqueName (LLVMModule A) ''_swift_initObjCCategories''"
        by (simp add: kg0_def)
      show "take (length ''_swift_initObjCCategories'')
              (getName (kg0\<lparr>blocks := [b1 @ [Ret None]]\<rparr>)) =
          ''_swift_initObjCCategories''"
        unfolding gn by (rule uniqueName_take)
    qed (simp_all add: kg0_def)
    moreover have "valueId (kg0\<lparr>blocks := [b1 @ [Ret None]]\<rparr>) = ki"
      by (simp add: ki id0)
    ultimately show ?thesis by blast
  qed
  with keep ki i show ?thesis by simp
qed

lemma announceClasses_result:
  assumes "announceClasses (b, A) = (b', B)"
  shows "keepingFunctions A B \<and>
         (if ObjCClasses A \<noteq> []
          then b' = b @ [Call (ConstantV (GlobalRef (nextValueId A))) []] \<and>
               (wellFormedModule A \<longrightarrow>
                  (\<exists>cg \<in> set (LLVMModule B).
                     valueId cg = nextValueId A \<and> isClassInitializer (ObjCClasses A) cg))
          else b' = b \<and> B = A)"
proof (cases "ObjCClasses A \<noteq> []")
  case False
  with assms show ?thesis
    by (simp add: announceClasses_def keepingFunctions_refl)
next
  case True
  obtain ci A1 where e: "emitObjCClassInitializer A (ObjCClasses A) = (ci, A1)"
    by (cases "emitObjCClassInitializer A (ObjCClasses A)")
  with assms True have "B = A1" "b' = b @ [Call (ConstantV (GlobalRef ci)) []]"
    by (simp_all add: announceClasses_def emitInstruction_def)
  moreover from emitObjCClassInitializer_result [OF e]
  have "keepingFunctions A A1" "ci = nextValueId A"
    "wellFormedModule A \<longrightarrow>
       (\<exists>cg \<in> set (LLVMModule A1). valueId cg = ci \<and> isClassInitializer (ObjCClasses A) cg)"
    by blast+
  ultimately show ?thesis using True by auto
qed

lemma announceCategories_result:
  assumes "announceCategories L (b, A) = Inr (b', B)"
  shows "keepingFunctions A B \<and>
         (if ObjCCategoryDecls A \<noteq> []
          then b' = b @ [Call (ConstantV (GlobalRef (nextValueId A))) []] \<and>
               (wellFormedModule A \<longrightarrow>
                  (\<exists>kg \<in> set (LLVMModule B).
                     valueId kg = nextValueId A \<and> isCategoryInitializer kg))
          else b' = b \<and> B = A)"
proof (cases "ObjCCategoryDecls A \<noteq> []")
  case False
  with assms show ?thesis
    by (simp add: announceCategories_def keepingFunctions_refl)
next
  case True
  with assms obtain ki A1 where
    e: "emitObjCCategoryInitializer L A (ObjCCategoryDecls A) = Inr (ki, A1)"
    and r: "B = A1" "b' = b @ [Call (ConstantV (GlobalRef ki)) []]"
    by (auto simp: announceCategories_def emitInstruction_def split: sum.splits)
  from emitObjCCategoryInitializer_result [OF e]
  have "keepingFunctions A A1" "ki = nextValueId A"
    "wellFormedModule A \<longrightarrow>
       (\<exists>kg \<in> set (LLVMModule A1). valueId kg = ki \<and> isCategoryInitializer kg)"
    by blast+
  with r True show ?thesis by auto
qed

text \<open>The two announcements together, after the parameters were stored.\<close>

lemma announcements_result:
  assumes wf: "wellFormedModule A"
    and run: "announceCategories L (announceClasses (b, A)) = Inr (b', B)"
  shows "keepingFunctions A B \<and>
         (\<exists>ci ki.
            b' = b @ (if ObjCClasses A \<noteq> [] then [Call (ConstantV (GlobalRef ci)) []] else [])
                   @ (if ObjCCategoryDecls A \<noteq> []
                      then [Call (ConstantV (GlobalRef ki)) []] else []) \<and>
            nextValueId A \<le> ci \<and> nextValueId A \<le> ki \<and>
            (ObjCClasses A \<noteq> [] \<longrightarrow>
               (\<exists>cg \<in> set (LLVMModule B).
                  valueId cg = ci \<and> isClassInitializer (ObjCClasses A) cg)) \<and>
            (ObjCCategoryDecls A \<noteq> [] \<longrightarrow>
               (\<exists>kg \<in> set (LLVMModule B). valueId kg = ki \<and> isCategoryInitializer kg)))"
proof -
  obtain b1 A1 where c: "announceClasses (b, A) = (b1, A1)"
    by (cases "announceClasses (b, A)")
  from announceClasses_result [OF c]
  have k1: "keepingFunctions A A1"
    and c1: "if ObjCClasses A \<noteq> []
          then b1 = b @ [Call (ConstantV (GlobalRef (nextValueId A))) []] \<and>
               (wellFormedModule A \<longrightarrow>
                  (\<exists>cg \<in> set (LLVMModule A1).
                     valueId cg = nextValueId A \<and> isClassInitializer (ObjCClasses A) cg))
          else b1 = b \<and> A1 = A"
    by simp_all
  from run c have k: "announceCategories L (b1, A1) = Inr (b', B)" by simp
  from announceCategories_result [OF k]
  have k2: "keepingFunctions A1 B"
    and c2: "if ObjCCategoryDecls A1 \<noteq> []
          then b' = b1 @ [Call (ConstantV (GlobalRef (nextValueId A1))) []] \<and>
               (wellFormedModule A1 \<longrightarrow>
                  (\<exists>kg \<in> set (LLVMModule B).
                     valueId kg = nextValueId A1 \<and> isCategoryInitializer kg))
          else b' = b1 \<and> B = A1"
    by simp_all
  from k1 wf have wf1: "wellFormedModule A1" and n1: "nextValueId A \<le> nextValueId A1"
    and cats: "ObjCCategoryDecls A1 = ObjCCategoryDecls A"
    by (simp_all add: keepingFunctions_def sameSettings_def)
  have b': "b' = b @ (if ObjCClasses A \<noteq> []
                      then [Call (ConstantV (GlobalRef (nextValueId A))) []] else [])
                   @ (if ObjCCategoryDecls A \<noteq> []
                      then [Call (ConstantV (GlobalRef (nextValueId A1))) []] else [])"
    using c1 c2 cats by (simp split: if_splits)
  have cg: "\<exists>cg \<in> set (LLVMModule B).
      valueId cg = nextValueId A \<and> isClassInitializer (ObjCClasses A) cg"
    if "ObjCClasses A \<noteq> []"
  proof -
    from that c1 wf obtain cg where cg: "cg \<in> set (LLVMModule A1)"
      "valueId cg = nextValueId A" "isClassInitializer (ObjCClasses A) cg"
      by auto
    from cg(3) have "globalKind cg = FunctionGV" by (simp add: isClassInitializer_def)
    with k2 wf1 cg(1) have "cg \<in> set (LLVMModule B)"
      by (simp add: keepingFunctions_def)
    with cg show ?thesis by blast
  qed
  have kg: "\<exists>kg \<in> set (LLVMModule B). valueId kg = nextValueId A1 \<and> isCategoryInitializer kg"
    if "ObjCCategoryDecls A \<noteq> []"
    using that c2 cats wf1 by simp
  from k1 k2 have kk: "keepingFunctions A B" by (rule keepingFunctions_trans)
  show ?thesis
    apply (rule conjI)
     apply (rule kk)
    apply (rule exI [where x = "nextValueId A"])
    apply (rule exI [where x = "nextValueId A1"])
  proof (intro conjI)
    from b' show "b' = b @ (if ObjCClasses A \<noteq> []
                      then [Call (ConstantV (GlobalRef (nextValueId A))) []] else [])
                   @ (if ObjCCategoryDecls A \<noteq> []
                      then [Call (ConstantV (GlobalRef (nextValueId A1))) []] else [])" .
    show "nextValueId A \<le> nextValueId A" by simp
    from n1 show "nextValueId A \<le> nextValueId A1" .
    from cg show "ObjCClasses A \<noteq> [] \<longrightarrow>
               (\<exists>cg \<in> set (LLVMModule B).
                  valueId cg = nextValueId A \<and> isClassInitializer (ObjCClasses A) cg)"
      by blast
    from kg show "ObjCCategoryDecls A \<noteq> [] \<longrightarrow>
               (\<exists>kg \<in> set (LLVMModule B).
                  valueId kg = nextValueId A1 \<and> isCategoryInitializer kg)"
      by blast
  qed
qed

lemma Function_Create_next:
  "Function_Create ty l n A = (i, B) \<Longrightarrow> nextValueId B = Suc (nextValueId A)"
  by (auto simp: Function_Create_def insertGlobal_def)

lemma continues_member:
  assumes "continues A B" "wellFormedModule A" "g \<in> set (LLVMModule A)"
    "globalKind g = FunctionGV" "getLinkage g = ExternalLinkage"
  shows "g \<in> set (LLVMModule B)"
  using assms by (simp add: continues_def hasLocalLinkage_def)

lemma keepingFunctions_member:
  assumes "keepingFunctions A B" "wellFormedModule A" "g \<in> set (LLVMModule A)"
    "globalKind g = FunctionGV"
  shows "g \<in> set (LLVMModule B)"
  using assms by (simp add: keepingFunctions_def)

lemma emitMain_unfold:
  assumes fc: "Function_Create (FunctionTy Int32Ty [Int32Ty, PointerTy (PointerTy (IntegerTy 8))] False)
                 ExternalLinkage ''main'' A = (mainFn, A1)"
    and s1: "emitArgumentStore 0 Int32Ty ''_TFSsa6C_ARGCVSs5Int32'' ([], A1) = (b1, A2)"
    and s2: "emitArgumentStore 1 (PointerTy (PointerTy (IntegerTy 8)))
               ''_TFSsa6C_ARGVGVSs13UnsafePointerVSs7CString_'' (b1, A2) = (b2, A3)"
  shows "emitMain L A topOpt =
     (case (if ObjCInterop A3 \<and> UseJIT A3
            then announceCategories L (announceClasses (b2, A3))
            else Inr (b2, A3)) of
        Inl e \<Rightarrow> Inl e
      | Inr (b3, A4) \<Rightarrow>
          Inr (setBody mainFn
                 (b3 @ (case topOpt of Some f \<Rightarrow> [Call (ConstantV (GlobalRef f)) []]
                        | None \<Rightarrow> [])
                     @ [Ret (Some (ConstantV (ConstantInt Int32Ty 0)))]) A4))"
  unfolding emitMain_def Let_def fc s1 s2 prod.case fst_conv snd_conv
  by (simp add: emitInstruction_def split: sum.splits option.splits)


text \<open>
  The body of \<open>main\<close>: the stores of the two parameters, the announcements (only with
  Objective-C interop under the JIT), the call of the top-level code if there is one, and
  the return of 0.
\<close>

lemma emitMain_body:
  assumes wf: "wellFormedModule A" and run: "emitMain L A topOpt = Inr B"
  shows "\<exists>mainG \<in> set (LLVMModule B). \<exists>argc argv ci ki.
           valueId mainG = nextValueId A \<and> globalKind mainG = FunctionGV \<and>
           getLinkage mainG = ExternalLinkage \<and>
           getName mainG = uniqueName (LLVMModule A) ''main'' \<and>
           blocks mainG =
             [argumentMarshaling argc argv
              @ (if ObjCInterop A \<and> UseJIT A \<and> ObjCClasses A \<noteq> []
                 then [Call (ConstantV (GlobalRef ci)) []] else [])
              @ (if ObjCInterop A \<and> UseJIT A \<and> ObjCCategoryDecls A \<noteq> []
                 then [Call (ConstantV (GlobalRef ki)) []] else [])
              @ (case topOpt of Some f \<Rightarrow> [Call (ConstantV (GlobalRef f)) []] | None \<Rightarrow> [])
              @ [Ret (Some (ConstantV (ConstantInt Int32Ty 0)))]] \<and>
           (ObjCInterop A \<and> UseJIT A \<and> ObjCClasses A \<noteq> [] \<longrightarrow>
              (\<exists>cg \<in> set (LLVMModule B).
                 valueId cg = ci \<and> isClassInitializer (ObjCClasses A) cg)) \<and>
           (ObjCInterop A \<and> UseJIT A \<and> ObjCCategoryDecls A \<noteq> [] \<longrightarrow>
              (\<exists>kg \<in> set (LLVMModule B). valueId kg = ki \<and> isCategoryInitializer kg))"
proof -
  let ?ty = "FunctionTy Int32Ty [Int32Ty, PointerTy (PointerTy (IntegerTy 8))] False"
  obtain mainFn A1 where fc: "Function_Create ?ty ExternalLinkage ''main'' A = (mainFn, A1)"
    by (cases "Function_Create ?ty ExternalLinkage ''main'' A")
  obtain b1 A2 where
    s1: "emitArgumentStore 0 Int32Ty ''_TFSsa6C_ARGCVSs5Int32'' ([], A1) = (b1, A2)"
    by (cases "emitArgumentStore 0 Int32Ty ''_TFSsa6C_ARGCVSs5Int32'' ([], A1)")
  obtain b2 A3 where
    s2: "emitArgumentStore 1 (PointerTy (PointerTy (IntegerTy 8)))
               ''_TFSsa6C_ARGVGVSs13UnsafePointerVSs7CString_'' (b1, A2) = (b2, A3)"
    by (cases "emitArgumentStore 1 (PointerTy (PointerTy (IntegerTy 8)))
               ''_TFSsa6C_ARGVGVSs13UnsafePointerVSs7CString_'' (b1, A2)")
  define main0 where "main0 =
    \<lparr>valueId = nextValueId A, getName = uniqueName (LLVMModule A) ''main'',
     globalKind = FunctionGV, getValueType = ?ty,
     getLinkage = ExternalLinkage, getVisibility = DefaultVisibility,
     getCallingConv = 0, getAttributes = [], isConstant = False,
     getInitializer = None, hasUnnamedAddr = False, getAlignment = 0, blocks = []\<rparr>"
  have main0: "valueId main0 = nextValueId A" "globalKind main0 = FunctionGV"
    "getLinkage main0 = ExternalLinkage" "getName main0 = uniqueName (LLVMModule A) ''main''"
    by (simp_all add: main0_def)
  from Function_Create_member [OF fc] have m1: "main0 \<in> set (LLVMModule A1)"
    by (simp add: main0_def)
  from Function_Create_keepingFunctions [OF fc]
  have k1: "keepingFunctions A A1" and mainFn: "mainFn = nextValueId A" by simp_all
  from Function_Create_next [OF fc] have n1: "nextValueId A1 = Suc (nextValueId A)" .
  from k1 wf have wf1: "wellFormedModule A1" and set1: "sameSettings A A1"
    by (simp_all add: keepingFunctions_def)
  from emitArgumentStore_result [OF s1] obtain argc where
    c1: "continues A1 A2"
    and b1: "b1 = [Call (ConstantV argc) [], BitCastInst (InstructionV 0) (PointerTy Int32Ty),
                   Store (ArgumentV 0) (InstructionV 1)]"
    by auto
  from emitArgumentStore_result [OF s2] obtain argv where
    c2: "continues A2 A3"
    and b2: "b2 = b1 @ [Call (ConstantV argv) [],
                   BitCastInst (InstructionV (length b1))
                     (PointerTy (PointerTy (PointerTy (IntegerTy 8)))),
                   Store (ArgumentV 1) (InstructionV (Suc (length b1)))]"
    by auto
  from b1 b2 have b2': "b2 = argumentMarshaling argc argv"
    by (simp add: argumentMarshaling_def Int32Ty_def)
  from c1 wf1 have wf2: "wellFormedModule A2" and set2: "sameSettings A1 A2"
    and n2: "nextValueId A1 \<le> nextValueId A2"
    by (simp_all add: continues_def)
  from c2 wf2 have wf3: "wellFormedModule A3" and set3: "sameSettings A2 A3"
    and n3: "nextValueId A2 \<le> nextValueId A3"
    by (simp_all add: continues_def)
  from continues_member [OF c1 wf1 m1 main0(2,3)] have m2: "main0 \<in> set (LLVMModule A2)" .
  from continues_member [OF c2 wf2 m2 main0(2,3)] have m3: "main0 \<in> set (LLVMModule A3)" .
  from set1 set2 set3 have set: "ObjCInterop A3 = ObjCInterop A" "UseJIT A3 = UseJIT A"
    "ObjCClasses A3 = ObjCClasses A" "ObjCCategoryDecls A3 = ObjCCategoryDecls A"
    by (simp_all add: sameSettings_def)
  from n1 n2 n3 have fresh: "nextValueId A < nextValueId A3" by simp
  let ?tail = "(case topOpt of Some f \<Rightarrow> [Call (ConstantV (GlobalRef f)) []] | None \<Rightarrow> [])
                     @ [Ret (Some (ConstantV (ConstantInt Int32Ty 0)))]"
  note unfold = emitMain_unfold [OF fc s1 s2, of L topOpt]
  show ?thesis
  proof (cases "ObjCInterop A \<and> UseJIT A")
    case False
    with run unfold set have B: "B = setBody (valueId main0) (b2 @ ?tail) A3"
      by (simp add: mainFn main0(1))
    from setBody_member [OF m3, of "b2 @ ?tail"]
    have mem: "main0\<lparr>blocks := [b2 @ ?tail]\<rparr> \<in> set (LLVMModule B)"
      unfolding B .
    show ?thesis
      apply (rule bexI [OF _ mem])
      apply (rule exI [where x = argc])
      apply (rule exI [where x = argv])
      apply (rule exI [where x = 0])
      apply (rule exI [where x = 0])
      using False by (auto simp: main0 b2')
  next
    case True
    with run unfold set obtain b3 A4 where
      an: "announceCategories L (announceClasses (b2, A3)) = Inr (b3, A4)"
      and B: "B = setBody (valueId main0) (b3 @ ?tail) A4"
      by (auto simp: mainFn main0(1) split: sum.splits)
    from announcements_result [OF wf3 an] obtain ci ki where
      k4: "keepingFunctions A3 A4"
      and b3: "b3 = b2 @ (if ObjCClasses A3 \<noteq> [] then [Call (ConstantV (GlobalRef ci)) []] else [])
                   @ (if ObjCCategoryDecls A3 \<noteq> []
                      then [Call (ConstantV (GlobalRef ki)) []] else [])"
      and ci: "nextValueId A3 \<le> ci" and ki: "nextValueId A3 \<le> ki"
      and cg: "ObjCClasses A3 \<noteq> [] \<longrightarrow>
               (\<exists>cg \<in> set (LLVMModule A4).
                  valueId cg = ci \<and> isClassInitializer (ObjCClasses A3) cg)"
      and kg: "ObjCCategoryDecls A3 \<noteq> [] \<longrightarrow>
               (\<exists>kg \<in> set (LLVMModule A4). valueId kg = ki \<and> isCategoryInitializer kg)"
      by blast
    from keepingFunctions_member [OF k4 wf3 m3 main0(2)]
    have m4: "main0 \<in> set (LLVMModule A4)" .
    from setBody_member [OF m4, of "b3 @ ?tail"]
    have mem: "main0\<lparr>blocks := [b3 @ ?tail]\<rparr> \<in> set (LLVMModule B)"
      unfolding B .
    have cg': "\<exists>cg \<in> set (LLVMModule B). valueId cg = ci \<and> isClassInitializer (ObjCClasses A) cg"
      if "ObjCClasses A \<noteq> []"
    proof -
      from that cg set obtain g where g: "g \<in> set (LLVMModule A4)" "valueId g = ci"
        "isClassInitializer (ObjCClasses A) g" by auto
      from g(2) ci fresh have "valueId g \<noteq> valueId main0" by (simp add: main0(1))
      from setBody_keeping_others [OF g(1) this] have "g \<in> set (LLVMModule B)"
        unfolding B .
      with g show ?thesis by blast
    qed
    have kg': "\<exists>kg \<in> set (LLVMModule B). valueId kg = ki \<and> isCategoryInitializer kg"
      if "ObjCCategoryDecls A \<noteq> []"
    proof -
      from that kg set obtain g where g: "g \<in> set (LLVMModule A4)" "valueId g = ki"
        "isCategoryInitializer g" by auto
      from g(2) ki fresh have "valueId g \<noteq> valueId main0" by (simp add: main0(1))
      from setBody_keeping_others [OF g(1) this] have "g \<in> set (LLVMModule B)"
        unfolding B .
      with g show ?thesis by blast
    qed
    show ?thesis
      apply (rule bexI [OF _ mem])
      apply (rule exI [where x = argc])
      apply (rule exI [where x = argv])
      apply (rule exI [where x = ci])
      apply (rule exI [where x = ki])
      using True cg' kg' by (simp add: main0 b2' b3 set)
  qed
qed


lemma emitInitializer_script:
  "Kind SF = Main \<or> Kind SF = REPL \<Longrightarrow> emitInitializer X SF f = Inr X"
  by (auto simp: emitInitializer_def Let_def)




lemma emitSourceFile_script:
  assumes "StartElem \<le> length (Decls SF)"
    and "emitGlobalDecls IGM (drop StartElem (Decls SF)) = Inr IGM1"
    and "isScriptMode SF"
  shows "emitSourceFile L IGM SF StartElem =
           emitMain L IGM1 (map_option valueId (getFunction (LLVMModule IGM1) ''top_level_code''))"
proof (cases "emitMain L IGM1 (map_option valueId (getFunction (LLVMModule IGM1) ''top_level_code''))")
  case (Inl e)
  with assms show ?thesis by (simp add: emitSourceFile_def)
next
  case (Inr X)
  from assms(3) have "emitInitializer X SF f = Inr X" for f
    by (simp add: emitInitializer_script isScriptMode_def)
  with assms Inr show ?thesis
    by (simp add: emitSourceFile_def split: option.splits)
qed



subsection \<open>Top-level code of a source file\<close>



subsection \<open>Order of the announcements\<close>

text \<open>
  C9 does not hold as stated.  A main unit, Objective-C interop without the JIT, one class
  and one category waiting for their registration at the end of the unit: \<open>main\<close> stores
  its parameters, calls \<open>top_level_code\<close> and returns; the module holds \<open>main\<close>,
  \<open>top_level_code\<close> and the two accessors only, no registration initializer was
  synthesized and none is called.
\<close>

theorem announcement_without_JIT_counterexample:
  "\<exists>IGM'.
     emitSourceFile sampleLinking
       (withPendingRegistrations
          (moduleWithTopLevelCode True False [[OtherInstruction ''print'' [], Ret None]]))
       (sourceFileOfKind Main) 0 = Inr IGM' \<and>
     ObjCClasses IGM' \<noteq> [] \<and> ObjCCategoryDecls IGM' \<noteq> [] \<and>
     map (\<lambda>g. (valueId g, getName g, blocks g)) (LLVMModule IGM') =
       [(0, ''top_level_code'', [[OtherInstruction ''print'' [], Ret None]]),
        (1, ''main'',
         [argumentMarshaling (GlobalRef 2) (GlobalRef 3) @
          [Call (ConstantV (GlobalRef 0)) [],
           Ret (Some (ConstantV (ConstantInt Int32Ty 0)))]]),
        (2, ''_TFSsa6C_ARGCVSs5Int32'', []),
        (3, ''_TFSsa6C_ARGVGVSs13UnsafePointerVSs7CString_'', [])]"
  by (simp add: emitSourceFile_def emitMain_def emitInitializer_def isScriptMode_def
      sourceFileOfKind_def withPendingRegistrations_def addObjCClass_def
      moduleWithTopLevelCode_def initialIGM_def getFunction_def getNamedValue_def
      Function_Create_def insertGlobal_def uniqueName_def emitArgumentStore_def
      getOrInsertFunction_def emitInstruction_def setBody_def updateValue_def
      argumentMarshaling_def Int32Ty_def Int8PtrTy_def Let_def)


text \<open>
  C9 (as amended).  In an entry-point unit whose class list and category list are both
  non-empty once its declarations are emitted: with Objective-C interop under the JIT the
  block of \<open>main\<close> is the stores of the parameters, the call of the class-registration
  initializer, directly followed by the call of the category-registration initializer,
  then the call of \<open>top_level_code\<close> (if there is one) and the return; otherwise \<open>main\<close>
  calls neither.
\<close>

theorem announcement_order:
  assumes start: "StartElem \<le> length (Decls SF)"
    and decls: "emitGlobalDecls IGM (drop StartElem (Decls SF)) = Inr IGM1"
    and wf: "wellFormedModule IGM1"
    and script: "isScriptMode SF"
    and pending: "ObjCClasses IGM1 \<noteq> []" "ObjCCategoryDecls IGM1 \<noteq> []"
    and run: "emitSourceFile L IGM SF StartElem = Inr IGM'"
  shows "\<exists>mainG \<in> set (LLVMModule IGM'). \<exists>argc argv rest.
           valueId mainG = nextValueId IGM1 \<and>
           getName mainG = uniqueName (LLVMModule IGM1) ''main'' \<and>
           rest = (case getFunction (LLVMModule IGM1) ''top_level_code'' of
                     Some f \<Rightarrow> [Call (ConstantV (GlobalRef (valueId f))) []]
                   | None \<Rightarrow> [])
                  @ [Ret (Some (ConstantV (ConstantInt Int32Ty 0)))] \<and>
           (if ObjCInterop IGM1 \<and> UseJIT IGM1
            then \<exists>cg \<in> set (LLVMModule IGM'). \<exists>kg \<in> set (LLVMModule IGM').
                   isClassInitializer (ObjCClasses IGM1) cg \<and> isCategoryInitializer kg \<and>
                   blocks mainG =
                     [argumentMarshaling argc argv @
                      [Call (ConstantV (GlobalRef (valueId cg))) [],
                       Call (ConstantV (GlobalRef (valueId kg))) []] @ rest]
            else blocks mainG = [argumentMarshaling argc argv @ rest])"
proof -
  let ?top = "map_option valueId (getFunction (LLVMModule IGM1) ''top_level_code'')"
  let ?rest = "(case getFunction (LLVMModule IGM1) ''top_level_code'' of
                     Some f \<Rightarrow> [Call (ConstantV (GlobalRef (valueId f))) []]
                   | None \<Rightarrow> [])
                  @ [Ret (Some (ConstantV (ConstantInt Int32Ty 0)))]"
  from emitSourceFile_script [OF start decls script, of L] run
  have m: "emitMain L IGM1 ?top = Inr IGM'" by simp
  from emitMain_body [OF wf m] obtain mainG argc argv ci ki where
    mem: "mainG \<in> set (LLVMModule IGM')"
    and f: "valueId mainG = nextValueId IGM1"
      "getName mainG = uniqueName (LLVMModule IGM1) ''main''"
    and b: "blocks mainG =
             [argumentMarshaling argc argv
              @ (if ObjCInterop IGM1 \<and> UseJIT IGM1 \<and> ObjCClasses IGM1 \<noteq> []
                 then [Call (ConstantV (GlobalRef ci)) []] else [])
              @ (if ObjCInterop IGM1 \<and> UseJIT IGM1 \<and> ObjCCategoryDecls IGM1 \<noteq> []
                 then [Call (ConstantV (GlobalRef ki)) []] else [])
              @ (case ?top of
                   Some f \<Rightarrow> [Call (ConstantV (GlobalRef f)) []] | None \<Rightarrow> [])
              @ [Ret (Some (ConstantV (ConstantInt Int32Ty 0)))]]"
    and cg: "ObjCInterop IGM1 \<and> UseJIT IGM1 \<and> ObjCClasses IGM1 \<noteq> [] \<longrightarrow>
              (\<exists>cg \<in> set (LLVMModule IGM').
                 valueId cg = ci \<and> isClassInitializer (ObjCClasses IGM1) cg)"
    and kg: "ObjCInterop IGM1 \<and> UseJIT IGM1 \<and> ObjCCategoryDecls IGM1 \<noteq> [] \<longrightarrow>
              (\<exists>kg \<in> set (LLVMModule IGM'). valueId kg = ki \<and> isCategoryInitializer kg)"
    by blast
  have tail: "(case ?top of Some f \<Rightarrow> [Call (ConstantV (GlobalRef f)) []] | None \<Rightarrow> [])
              @ [Ret (Some (ConstantV (ConstantInt Int32Ty 0)))] = ?rest"
    by (simp split: option.splits)
  have body: "if ObjCInterop IGM1 \<and> UseJIT IGM1
            then \<exists>cg \<in> set (LLVMModule IGM'). \<exists>kg \<in> set (LLVMModule IGM').
                   isClassInitializer (ObjCClasses IGM1) cg \<and> isCategoryInitializer kg \<and>
                   blocks mainG =
                     [argumentMarshaling argc argv @
                      [Call (ConstantV (GlobalRef (valueId cg))) [],
                       Call (ConstantV (GlobalRef (valueId kg))) []] @ ?rest]
            else blocks mainG = [argumentMarshaling argc argv @ ?rest]"
  proof (cases "ObjCInterop IGM1 \<and> UseJIT IGM1")
    case False
    with b tail show ?thesis by auto
  next
    case True
    with cg kg pending obtain c k where
      c: "c \<in> set (LLVMModule IGM')" "valueId c = ci" "isClassInitializer (ObjCClasses IGM1) c"
      and k: "k \<in> set (LLVMModule IGM')" "valueId k = ki" "isCategoryInitializer k"
      by blast
    from b True pending tail c(2) k(2)
    have "blocks mainG =
                     [argumentMarshaling argc argv @
                      [Call (ConstantV (GlobalRef (valueId c))) [],
                       Call (ConstantV (GlobalRef (valueId k))) []] @ ?rest]"
      by simp
    with c k True show ?thesis by auto
  qed
  show ?thesis
    apply (rule bexI [OF _ mem])
    apply (rule exI [where x = argc])
    apply (rule exI [where x = argv])
    apply (rule exI [where x = ?rest])
    apply (intro conjI)
       apply (rule f)+
     apply (rule refl)
    apply (rule body)
    done
qed

text \<open>
  The theorem at a main unit with Objective-C interop under the JIT, one class and one
  category waiting for their registration: \<open>main\<close> calls the class initializer, then the
  category initializer, then \<open>top_level_code\<close>.
\<close>

theorem announcement_order_witness:
  "\<exists>IGM'.
     emitSourceFile sampleLinking
       (withPendingRegistrations
          (moduleWithTopLevelCode True True [[OtherInstruction ''print'' [], Ret None]]))
       (sourceFileOfKind Main) 0 = Inr IGM' \<and>
     (\<exists>mainG \<in> set (LLVMModule IGM'). \<exists>argc argv.
        \<exists>cg \<in> set (LLVMModule IGM'). \<exists>kg \<in> set (LLVMModule IGM').
          getName mainG = ''main'' \<and>
          isClassInitializer [Opaque ''class'' 1] cg \<and> isCategoryInitializer kg \<and>
          blocks mainG =
            [argumentMarshaling argc argv @
             [Call (ConstantV (GlobalRef (valueId cg))) [],
              Call (ConstantV (GlobalRef (valueId kg))) [],
              Call (ConstantV (GlobalRef 0)) [],
              Ret (Some (ConstantV (ConstantInt Int32Ty 0)))]])"
proof -
  let ?L = sampleLinking
  let ?X = "withPendingRegistrations
              (moduleWithTopLevelCode True True [[OtherInstruction ''print'' [], Ret None]])"
  let ?SF = "sourceFileOfKind Main"
  have "case emitSourceFile ?L ?X ?SF 0 of Inr IGM' \<Rightarrow> True | Inl e \<Rightarrow> False"
    by code_simp
  then obtain IGM' where run: "emitSourceFile ?L ?X ?SF 0 = Inr IGM'"
    by (cases "emitSourceFile ?L ?X ?SF 0") simp_all
  have start: "0 \<le> length (Decls ?SF)" by simp
  have decls: "emitGlobalDecls ?X (drop 0 (Decls ?SF)) = Inr ?X"
    by (simp add: sourceFileOfKind_def)
  have wf: "wellFormedModule ?X"
    by (simp add: wellFormedModule_def withPendingRegistrations_def addObjCClass_def
        moduleWithTopLevelCode_def initialIGM_def)
  have script: "isScriptMode ?SF" by (simp add: isScriptMode_def sourceFileOfKind_def)
  have pending: "ObjCClasses ?X \<noteq> []" "ObjCCategoryDecls ?X \<noteq> []"
    by (simp_all add: withPendingRegistrations_def addObjCClass_def)
  have classes: "ObjCClasses ?X = [Opaque ''class'' 1]"
    by (simp add: withPendingRegistrations_def addObjCClass_def moduleWithTopLevelCode_def
        initialIGM_def)
  have jit: "ObjCInterop ?X \<and> UseJIT ?X"
    by (simp add: withPendingRegistrations_def addObjCClass_def moduleWithTopLevelCode_def
        initialIGM_def)
  have top: "(case getFunction (LLVMModule ?X) ''top_level_code'' of
                     Some f \<Rightarrow> [Call (ConstantV (GlobalRef (valueId f))) []]
                   | None \<Rightarrow> [])
                  @ [Ret (Some (ConstantV (ConstantInt Int32Ty 0)))] =
             [Call (ConstantV (GlobalRef 0)) [],
              Ret (Some (ConstantV (ConstantInt Int32Ty 0)))]"
    by (simp add: getFunction_def getNamedValue_def withPendingRegistrations_def
        addObjCClass_def moduleWithTopLevelCode_def)
  have name: "uniqueName (LLVMModule ?X) ''main'' = ''main''"
    by (simp add: uniqueName_def getNamedValue_def withPendingRegistrations_def
        addObjCClass_def moduleWithTopLevelCode_def)
  from announcement_order [OF start decls wf script pending run]
  obtain mainG argc argv cg kg where
    m: "mainG \<in> set (LLVMModule IGM')" "cg \<in> set (LLVMModule IGM')"
      "kg \<in> set (LLVMModule IGM')"
    and p: "getName mainG = uniqueName (LLVMModule ?X) ''main''"
      "isClassInitializer (ObjCClasses ?X) cg" "isCategoryInitializer kg"
    and b: "blocks mainG =
              [argumentMarshaling argc argv @
               [Call (ConstantV (GlobalRef (valueId cg))) [],
                Call (ConstantV (GlobalRef (valueId kg))) []] @
               ((case getFunction (LLVMModule ?X) ''top_level_code'' of
                     Some f \<Rightarrow> [Call (ConstantV (GlobalRef (valueId f))) []]
                   | None \<Rightarrow> [])
                  @ [Ret (Some (ConstantV (ConstantInt Int32Ty 0)))])]"
    unfolding if_P [OF jit] by blast
  have inner: "\<exists>mainG \<in> set (LLVMModule IGM'). \<exists>argc argv.
        \<exists>cg \<in> set (LLVMModule IGM'). \<exists>kg \<in> set (LLVMModule IGM').
          getName mainG = ''main'' \<and>
          isClassInitializer [Opaque ''class'' 1] cg \<and> isCategoryInitializer kg \<and>
          blocks mainG =
            [argumentMarshaling argc argv @
             [Call (ConstantV (GlobalRef (valueId cg))) [],
              Call (ConstantV (GlobalRef (valueId kg))) [],
              Call (ConstantV (GlobalRef 0)) [],
              Ret (Some (ConstantV (ConstantInt Int32Ty 0)))]]"
    apply (rule bexI [OF _ m(1)])
    apply (rule exI [where x = argc])
    apply (rule exI [where x = argv])
    apply (rule bexI [OF _ m(2)])
    apply (rule bexI [OF _ m(3)])
    using p b unfolding top name classes by simp
  show ?thesis
    apply (rule exI [where x = IGM'])
    apply (rule conjI)
     apply (rule run)
    apply (rule inner)
    done
qed

subsection \<open>One symbol for each entity\<close>

lemma globalsOf_replaceInConstant:
  "x \<in> set (globalsOf (replaceInConstant old new c)) \<Longrightarrow>
   x \<in> set (globalsOf new) \<or> (x \<in> set (globalsOf c) \<and> x \<noteq> old)"
  by (induction c) (auto split: if_splits)

lemma globalsOfValue_replaceInValue:
  "x \<in> set (globalsOfValue (replaceInValue old new v)) \<Longrightarrow>
   x \<in> set (globalsOf new) \<or> (x \<in> set (globalsOfValue v) \<and> x \<noteq> old)"
  by (cases v) (auto dest: globalsOf_replaceInConstant)

lemma globalsOfInstruction_replaceInInstruction:
  "x \<in> set (globalsOfInstruction (replaceInInstruction old new i)) \<Longrightarrow>
   x \<in> set (globalsOf new) \<or> (x \<in> set (globalsOfInstruction i) \<and> x \<noteq> old)"
proof (cases i)
  case (Ret r)
  then show "x \<in> set (globalsOfInstruction (replaceInInstruction old new i)) \<Longrightarrow> ?thesis"
    by (cases r) (auto dest: globalsOfValue_replaceInValue)
qed (auto dest: globalsOfValue_replaceInValue)

lemma globalsOfGlobalValue_replaceInGlobalValue:
  "x \<in> set (globalsOfGlobalValue (replaceInGlobalValue old new g)) \<Longrightarrow>
   x \<in> set (globalsOf new) \<or> (x \<in> set (globalsOfGlobalValue g) \<and> x \<noteq> old)"
  unfolding globalsOfGlobalValue_def replaceInGlobalValue_def
  by (cases "getInitializer g")
     (auto dest: globalsOf_replaceInConstant globalsOfInstruction_replaceInInstruction)

lemma referencedGlobals_replaceAllUsesWith:
  "x \<in> set (referencedGlobals (replaceAllUsesWith old new IGM)) \<Longrightarrow>
   x \<in> set (globalsOf new) \<or> (x \<in> set (referencedGlobals IGM) \<and> x \<noteq> old)"
  unfolding referencedGlobals_def replaceAllUsesWith_def
  by (auto dest: globalsOf_replaceInConstant globalsOfGlobalValue_replaceInGlobalValue)


lemma referencedGlobals_erase:
  "x \<in> set (referencedGlobals (IGM\<lparr>LLVMModule := eraseFromParent i (LLVMModule IGM)\<rparr>)) \<Longrightarrow>
   x \<in> set (referencedGlobals IGM)"
  unfolding referencedGlobals_def eraseFromParent_def by auto




































end
